theory Spec2Isabelle
  imports Main "HOL-Library.Word"
begin

unbundle bit_operations_syntax

section \<open>Threefish in Go: the package \<open>crypto/threefish\<close>\<close>

text \<open>
  The Go package implements the tweakable block cipher Threefish for state sizes of 256,
  512 and 1024 bits. All arithmetic is on \<open>uint64\<close>, which wraps around silently; it is
  modelled by \<open>64 word\<close>. Slices are lists (capacity and length coincide), a \<open>nil\<close> slice
  that the code tests for is \<open>None\<close>. A run-time panic of Go (index out of range) and the
  error value \<open>KeySizeError\<close> are the two ways an operation can fail.
\<close>

type_synonym uint64 = "64 word"
type_synonym byte = "8 word"

datatype error = KeySizeError int | IndexOutOfRange

definition KEY_SCHEDULE_CONST :: uint64 where
  "KEY_SCHEDULE_CONST = 0x1BD11BDAA9FC1A22"

definition EXPANDED_TWEAK_SIZE :: nat where
  "EXPANDED_TWEAK_SIZE = 3"

definition CIPHER_SIZE_256 :: nat where "CIPHER_SIZE_256 = 256"
definition CIPHER_QWORDS_256 :: nat where "CIPHER_QWORDS_256 = CIPHER_SIZE_256 div 64"
definition CIPHER_SIZE_512 :: nat where "CIPHER_SIZE_512 = 512"
definition CIPHER_QWORDS_512 :: nat where "CIPHER_QWORDS_512 = CIPHER_SIZE_512 div 64"
definition CIPHER_SIZE_1024 :: nat where "CIPHER_SIZE_1024 = 1024"
definition CIPHER_QWORDS_1024 :: nat where "CIPHER_QWORDS_1024 = CIPHER_SIZE_1024 div 64"

text \<open>Go's integer division truncates towards zero.\<close>

definition go_div :: "int \<Rightarrow> int \<Rightarrow> int" where
  "go_div a b = sgn a * sgn b * (\<bar>a\<bar> div \<bar>b\<bar>)"

subsection \<open>\<open>encoding/binary\<close>: little-endian words\<close>

text \<open>
  \<open>binary.LittleEndian.Uint64(b)\<close> reads eight bytes,
  \<open>binary.LittleEndian.PutUint64(b, v)\<close> writes them; \<open>PutUint64\<close> here returns the
  eight bytes that the Go function stores into its slice argument.
\<close>

definition Uint64 :: "byte list \<Rightarrow> uint64" where
  "Uint64 b = ucast (b ! 0) OR push_bit 8 (ucast (b ! 1)) OR push_bit 16 (ucast (b ! 2))
     OR push_bit 24 (ucast (b ! 3)) OR push_bit 32 (ucast (b ! 4)) OR push_bit 40 (ucast (b ! 5))
     OR push_bit 48 (ucast (b ! 6)) OR push_bit 56 (ucast (b ! 7))"

definition PutUint64 :: "uint64 \<Rightarrow> byte list" where
  "PutUint64 v = [ucast v, ucast (drop_bit 8 v), ucast (drop_bit 16 v), ucast (drop_bit 24 v),
     ucast (drop_bit 32 v), ucast (drop_bit 40 v), ucast (drop_bit 48 v), ucast (drop_bit 56 v)]"

text \<open>
  The loop \<open>for i := 0; i < n; i++ { w[i] = binary.LittleEndian.Uint64(src[i*8:i*8+8]) }\<close>
  of \<open>newThreefish256\<close>, \<open>Encrypt\<close> and \<open>Decrypt\<close>, started at \<open>i\<close> with \<open>n\<close> iterations to
  go. The slice expression panics when \<open>src\<close> is too short, the store when \<open>w\<close> is.
\<close>

fun load_words :: "nat \<Rightarrow> nat \<Rightarrow> byte list \<Rightarrow> uint64 list \<Rightarrow> error + uint64 list" where
  "load_words i 0 src w = Inr w"
| "load_words i (Suc n) src w =
     (if length src < i * 8 + 8 \<or> length w \<le> i then Inl IndexOutOfRange
      else load_words (Suc i) n src (w[i := Uint64 (take 8 (drop (i * 8) src))]))"

text \<open>
  The loop \<open>for i := 0; i < n; i++ { binary.LittleEndian.PutUint64(dst[i*8:i*8+8], w[i]) }\<close>
  of \<open>Encrypt\<close> and \<open>Decrypt\<close>.
\<close>

fun store_words :: "nat \<Rightarrow> nat \<Rightarrow> uint64 list \<Rightarrow> byte list \<Rightarrow> error + byte list" where
  "store_words i 0 w dst = Inr dst"
| "store_words i (Suc n) w dst =
     (if length dst < i * 8 + 8 \<or> length w \<le> i then Inl IndexOutOfRange
      else store_words (Suc i) n w (take (i * 8) dst @ PutUint64 (w ! i) @ drop (i * 8 + 8) dst))"

subsection \<open>Tweak and key expansion\<close>

text \<open>
  \<open>setTweak(tweak, expTweak)\<close>: a \<open>nil\<close> tweak leaves \<open>expTweak\<close> as it is.
\<close>

definition setTweak :: "uint64 list option \<Rightarrow> uint64 list \<Rightarrow> error + uint64 list" where
  "setTweak tweak expTweak =
     (case tweak of
        None \<Rightarrow> Inr expTweak
      | Some tw \<Rightarrow>
          if length tw < 2 \<or> length expTweak < 3 then Inl IndexOutOfRange
          else Inr (expTweak[0 := tw ! 0, 1 := tw ! 1, 2 := tw ! 0 XOR tw ! 1]))"

text \<open>
  \<open>setKey(key, expKey)\<close>: the loop \<open>for i = 0; i < len(expKey) - 1; i++\<close> copies the key
  words and accumulates the parity, which is stored behind them.
\<close>

fun setKey_loop :: "uint64 list \<Rightarrow> nat \<Rightarrow> nat \<Rightarrow> uint64 list \<Rightarrow> uint64 \<Rightarrow> error + (uint64 list \<times> uint64)" where
  "setKey_loop key i 0 expKey parity = Inr (expKey, parity)"
| "setKey_loop key i (Suc n) expKey parity =
     (if length key \<le> i then Inl IndexOutOfRange
      else setKey_loop key (Suc i) n (expKey[i := key ! i]) (parity XOR key ! i))"

definition setKey :: "uint64 list \<Rightarrow> uint64 list \<Rightarrow> error + uint64 list" where
  "setKey key expKey =
     (case setKey_loop key 0 (length expKey - 1) expKey KEY_SCHEDULE_CONST of
        Inl e \<Rightarrow> Inl e
      | Inr (expKey', parity) \<Rightarrow>
          if length expKey = 0 then Inl IndexOutOfRange
          else Inr (expKey'[length expKey - 1 := parity]))"

subsection \<open>The cipher structs\<close>

text \<open>
  \<open>threefish256\<close>, \<open>threefish512\<close> and \<open>threefish1024\<close> have the same fields and differ in
  the lengths of their arrays only: \<open>expanedKey\<close> holds one word more than the block,
  \<open>tmpData1\<close> and \<open>tmpData2\<close> hold one block each. One record stands for the three; the
  constructors of \<open>cipherInternal\<close> say which struct it is.
\<close>

record threefish =
  expanedTweak :: "uint64 list"
  expanedKey :: "uint64 list"
  tmpData1 :: "uint64 list"
  tmpData2 :: "uint64 list"

datatype cipherInternal =
  Threefish256 threefish
| Threefish512 threefish
| Threefish1024 threefish

record Cipher =
  stateSize :: int
  internal :: cipherInternal

text \<open>\<open>new(threefish256)\<close> and its siblings: the zero value of the struct.\<close>

definition new_threefish :: "nat \<Rightarrow> threefish" where
  "new_threefish qwords =
     \<lparr>expanedTweak = replicate EXPANDED_TWEAK_SIZE 0, expanedKey = replicate (qwords + 1) 0,
      tmpData1 = replicate qwords 0, tmpData2 = replicate qwords 0\<rparr>"

text \<open>
  \<open>newThreefish256(key []byte, tweak []uint64)\<close> and its two siblings are the same text up
  to the size constants; \<open>qwords\<close> is \<open>CIPHER_QWORDS_256\<close> (\<open>_512\<close>, \<open>_1024\<close>) and
  \<open>qwords + 1\<close> is \<open>EXPANDED_KEY_SIZE_256\<close>.
\<close>

definition newThreefish :: "nat \<Rightarrow> byte list option \<Rightarrow> uint64 list option \<Rightarrow> error + threefish" where
  "newThreefish qwords key tweak =
     (let c = new_threefish qwords in
      case setTweak tweak (expanedTweak c) of
        Inl e \<Rightarrow> Inl e
      | Inr et \<Rightarrow>
          let c = c\<lparr>expanedTweak := et\<rparr>;
              c = c\<lparr>expanedKey := (expanedKey c)[qwords := KEY_SCHEDULE_CONST]\<rparr>
          in (case key of
                None \<Rightarrow> Inr c
              | Some key \<Rightarrow>
                  (case load_words 0 qwords key (replicate (qwords + 1) 0) of
                     Inl e \<Rightarrow> Inl e
                   | Inr tmpkey \<Rightarrow>
                       (case setKey tmpkey (expanedKey c) of
                          Inl e \<Rightarrow> Inl e
                        | Inr ek \<Rightarrow> Inr (c\<lparr>expanedKey := ek\<rparr>)))))"

definition newThreefish256 :: "byte list option \<Rightarrow> uint64 list option \<Rightarrow> error + threefish" where
  "newThreefish256 = newThreefish CIPHER_QWORDS_256"
definition newThreefish512 :: "byte list option \<Rightarrow> uint64 list option \<Rightarrow> error + threefish" where
  "newThreefish512 = newThreefish CIPHER_QWORDS_512"
definition newThreefish1024 :: "byte list option \<Rightarrow> uint64 list option \<Rightarrow> error + threefish" where
  "newThreefish1024 = newThreefish CIPHER_QWORDS_1024"

text \<open>\<open>newThreefish256_64(key, tweak []uint64)\<close> and its two siblings.\<close>

definition newThreefish_64 :: "nat \<Rightarrow> uint64 list \<Rightarrow> uint64 list option \<Rightarrow> error + threefish" where
  "newThreefish_64 qwords key tweak =
     (let c = new_threefish qwords in
      case setTweak tweak (expanedTweak c) of
        Inl e \<Rightarrow> Inl e
      | Inr et \<Rightarrow>
          let c = c\<lparr>expanedTweak := et\<rparr>;
              c = c\<lparr>expanedKey := (expanedKey c)[qwords := KEY_SCHEDULE_CONST]\<rparr>
          in (case setKey key (expanedKey c) of
                Inl e \<Rightarrow> Inl e
              | Inr ek \<Rightarrow> Inr (c\<lparr>expanedKey := ek\<rparr>)))"

definition newThreefish256_64 :: "uint64 list \<Rightarrow> uint64 list option \<Rightarrow> error + threefish" where
  "newThreefish256_64 = newThreefish_64 CIPHER_QWORDS_256"
definition newThreefish512_64 :: "uint64 list \<Rightarrow> uint64 list option \<Rightarrow> error + threefish" where
  "newThreefish512_64 = newThreefish_64 CIPHER_QWORDS_512"
definition newThreefish1024_64 :: "uint64 list \<Rightarrow> uint64 list option \<Rightarrow> error + threefish" where
  "newThreefish1024_64 = newThreefish_64 CIPHER_QWORDS_1024"

text \<open>The methods \<open>getTempData\<close>, \<open>setTweak\<close> and \<open>setKey\<close> of the three structs.\<close>

definition threefish_getTempData :: "threefish \<Rightarrow> uint64 list \<times> uint64 list" where
  "threefish_getTempData tf = (tmpData1 tf, tmpData2 tf)"

definition threefish_setTweak :: "threefish \<Rightarrow> uint64 list option \<Rightarrow> error + threefish" where
  "threefish_setTweak tf tweak =
     (case setTweak tweak (expanedTweak tf) of
        Inl e \<Rightarrow> Inl e
      | Inr et \<Rightarrow> Inr (tf\<lparr>expanedTweak := et\<rparr>))"

definition threefish_setKey :: "threefish \<Rightarrow> uint64 list \<Rightarrow> error + threefish" where
  "threefish_setKey tf key =
     (case setKey key (expanedKey tf) of
        Inl e \<Rightarrow> Inl e
      | Inr ek \<Rightarrow> Inr (tf\<lparr>expanedKey := ek\<rparr>))"

subsection \<open>The statements of the unrolled rounds\<close>

text \<open>
  \<open>encrypt\<close> and \<open>decrypt\<close> keep the block in local variables \<open>b0\<close>, \<open>b1\<close>, \<dots>, here the
  list \<open>b\<close>, and consist of straight-line code in which four forms of statement occur (the
  Java template of the repository calls them \<open>Mix\<close>, \<open>Mix5\<close>, \<open>UnMix\<close> and \<open>UnMix5\<close>):

  \<^item> \<open>Mix ev od r\<close> is \<open>bev += bod; bod = ((bod << r) | (bod >> (64 - r))) ^ bev;\<close>
  \<^item> \<open>Mix5 ev od r ke ko\<close> is
    \<open>bod += ko; bev += bod + ke; bod = ((bod << r) | (bod >> (64 - r))) ^ bev;\<close>
  \<^item> \<open>UnMix ev od r\<close> is
    \<open>tmp = bod ^ bev; bod = (tmp >> r) | (tmp << (64 - r)); bev -= bod;\<close>
  \<^item> \<open>UnMix5 ev od r ke ko\<close> is
    \<open>tmp = bod ^ bev; bod = (tmp >> r) | (tmp << (64 - r)); bev -= bod + ke; bod -= ko;\<close>
  \<^item> \<open>Sub i k\<close> is \<open>bi -= k;\<close>

  where \<open>ke\<close> and \<open>ko\<close> are the sums of key words, tweak words and constants that the
  statement adds: \<open>b2 += b3 + k2 + t1\<close> has \<open>ke = k2 + t1\<close>, addition of \<open>uint64\<close> being
  associative.
\<close>

definition rotl64 :: "uint64 \<Rightarrow> nat \<Rightarrow> uint64" where
  "rotl64 x r = (push_bit r x) OR (drop_bit (64 - r) x)"

definition rotr64 :: "uint64 \<Rightarrow> nat \<Rightarrow> uint64" where
  "rotr64 x r = (drop_bit r x) OR (push_bit (64 - r) x)"

definition Mix :: "nat \<Rightarrow> nat \<Rightarrow> nat \<Rightarrow> uint64 list \<Rightarrow> uint64 list" where
  "Mix ev od r b =
     (let b = b[ev := b ! ev + b ! od]
      in b[od := rotl64 (b ! od) r XOR b ! ev])"

definition Mix5 :: "nat \<Rightarrow> nat \<Rightarrow> nat \<Rightarrow> uint64 \<Rightarrow> uint64 \<Rightarrow> uint64 list \<Rightarrow> uint64 list" where
  "Mix5 ev od r ke ko b =
     (let b = b[od := b ! od + ko];
          b = b[ev := b ! ev + (b ! od + ke)]
      in b[od := rotl64 (b ! od) r XOR b ! ev])"

definition UnMix :: "nat \<Rightarrow> nat \<Rightarrow> nat \<Rightarrow> uint64 list \<Rightarrow> uint64 list" where
  "UnMix ev od r b =
     (let tmp = b ! od XOR b ! ev;
          b = b[od := rotr64 tmp r]
      in b[ev := b ! ev - b ! od])"

definition UnMix5 :: "nat \<Rightarrow> nat \<Rightarrow> nat \<Rightarrow> uint64 \<Rightarrow> uint64 \<Rightarrow> uint64 list \<Rightarrow> uint64 list" where
  "UnMix5 ev od r ke ko b =
     (let tmp = b ! od XOR b ! ev;
          b = b[od := rotr64 tmp r];
          b = b[ev := b ! ev - (b ! od + ke)]
      in b[od := b ! od - ko])"

definition Sub :: "nat \<Rightarrow> uint64 \<Rightarrow> uint64 list \<Rightarrow> uint64 list" where
  "Sub i k b = b[i := b ! i - k]"

text \<open>A sequence of statements runs from first to last.\<close>

definition exec :: "('s \<Rightarrow> 's) list \<Rightarrow> 's \<Rightarrow> 's" where
  "exec stmts b = foldl (\<lambda>b stmt. stmt b) b stmts"

subsection \<open>Threefish-256\<close>

text \<open>
  The statements of \<open>threefish256.encrypt\<close> between the loads of the block, key and tweak and the
  stores to \<open>output\<close> (lines 286 to 429 of \<open>threefish.go\<close>), one statement per line.
\<close>

definition encrypt256_rounds ::
  "uint64 \<Rightarrow> uint64 \<Rightarrow> uint64 \<Rightarrow> uint64 \<Rightarrow> uint64 \<Rightarrow> uint64 \<Rightarrow> uint64 \<Rightarrow> uint64
    \<Rightarrow> (uint64 list \<Rightarrow> uint64 list) list" where
  "encrypt256_rounds k0 k1 k2 k3 k4 t0 t1 t2 = [
    Mix5 0 1 14 k0 (k1 + t0),
    Mix5 2 3 16 (k2 + t1) k3,
    Mix 0 3 52,
    Mix 2 1 57,
    Mix 0 1 23,
    Mix 2 3 40,
    Mix 0 3 5,
    Mix 2 1 37,
    Mix5 0 1 25 k1 (k2 + t1),
    Mix5 2 3 33 (k3 + t2) (k4 + 1),
    Mix 0 3 46,
    Mix 2 1 12,
    Mix 0 1 58,
    Mix 2 3 22,
    Mix 0 3 32,
    Mix 2 1 32,
    Mix5 0 1 14 k2 (k3 + t2),
    Mix5 2 3 16 (k4 + t0) (k0 + 2),
    Mix 0 3 52,
    Mix 2 1 57,
    Mix 0 1 23,
    Mix 2 3 40,
    Mix 0 3 5,
    Mix 2 1 37,
    Mix5 0 1 25 k3 (k4 + t0),
    Mix5 2 3 33 (k0 + t1) (k1 + 3),
    Mix 0 3 46,
    Mix 2 1 12,
    Mix 0 1 58,
    Mix 2 3 22,
    Mix 0 3 32,
    Mix 2 1 32,
    Mix5 0 1 14 k4 (k0 + t1),
    Mix5 2 3 16 (k1 + t2) (k2 + 4),
    Mix 0 3 52,
    Mix 2 1 57,
    Mix 0 1 23,
    Mix 2 3 40,
    Mix 0 3 5,
    Mix 2 1 37,
    Mix5 0 1 25 k0 (k1 + t2),
    Mix5 2 3 33 (k2 + t0) (k3 + 5),
    Mix 0 3 46,
    Mix 2 1 12,
    Mix 0 1 58,
    Mix 2 3 22,
    Mix 0 3 32,
    Mix 2 1 32,
    Mix5 0 1 14 k1 (k2 + t0),
    Mix5 2 3 16 (k3 + t1) (k4 + 6),
    Mix 0 3 52,
    Mix 2 1 57,
    Mix 0 1 23,
    Mix 2 3 40,
    Mix 0 3 5,
    Mix 2 1 37,
    Mix5 0 1 25 k2 (k3 + t1),
    Mix5 2 3 33 (k4 + t2) (k0 + 7),
    Mix 0 3 46,
    Mix 2 1 12,
    Mix 0 1 58,
    Mix 2 3 22,
    Mix 0 3 32,
    Mix 2 1 32,
    Mix5 0 1 14 k3 (k4 + t2),
    Mix5 2 3 16 (k0 + t0) (k1 + 8),
    Mix 0 3 52,
    Mix 2 1 57,
    Mix 0 1 23,
    Mix 2 3 40,
    Mix 0 3 5,
    Mix 2 1 37,
    Mix5 0 1 25 k4 (k0 + t0),
    Mix5 2 3 33 (k1 + t1) (k2 + 9),
    Mix 0 3 46,
    Mix 2 1 12,
    Mix 0 1 58,
    Mix 2 3 22,
    Mix 0 3 32,
    Mix 2 1 32,
    Mix5 0 1 14 k0 (k1 + t1),
    Mix5 2 3 16 (k2 + t2) (k3 + 10),
    Mix 0 3 52,
    Mix 2 1 57,
    Mix 0 1 23,
    Mix 2 3 40,
    Mix 0 3 5,
    Mix 2 1 37,
    Mix5 0 1 25 k1 (k2 + t2),
    Mix5 2 3 33 (k3 + t0) (k4 + 11),
    Mix 0 3 46,
    Mix 2 1 12,
    Mix 0 1 58,
    Mix 2 3 22,
    Mix 0 3 32,
    Mix 2 1 32,
    Mix5 0 1 14 k2 (k3 + t0),
    Mix5 2 3 16 (k4 + t1) (k0 + 12),
    Mix 0 3 52,
    Mix 2 1 57,
    Mix 0 1 23,
    Mix 2 3 40,
    Mix 0 3 5,
    Mix 2 1 37,
    Mix5 0 1 25 k3 (k4 + t1),
    Mix5 2 3 33 (k0 + t2) (k1 + 13),
    Mix 0 3 46,
    Mix 2 1 12,
    Mix 0 1 58,
    Mix 2 3 22,
    Mix 0 3 32,
    Mix 2 1 32,
    Mix5 0 1 14 k4 (k0 + t2),
    Mix5 2 3 16 (k1 + t0) (k2 + 14),
    Mix 0 3 52,
    Mix 2 1 57,
    Mix 0 1 23,
    Mix 2 3 40,
    Mix 0 3 5,
    Mix 2 1 37,
    Mix5 0 1 25 k0 (k1 + t0),
    Mix5 2 3 33 (k2 + t1) (k3 + 15),
    Mix 0 3 46,
    Mix 2 1 12,
    Mix 0 1 58,
    Mix 2 3 22,
    Mix 0 3 32,
    Mix 2 1 32,
    Mix5 0 1 14 k1 (k2 + t1),
    Mix5 2 3 16 (k3 + t2) (k4 + 16),
    Mix 0 3 52,
    Mix 2 1 57,
    Mix 0 1 23,
    Mix 2 3 40,
    Mix 0 3 5,
    Mix 2 1 37,
    Mix5 0 1 25 k2 (k3 + t2),
    Mix5 2 3 33 (k4 + t0) (k0 + 17),
    Mix 0 3 46,
    Mix 2 1 12,
    Mix 0 1 58,
    Mix 2 3 22,
    Mix 0 3 32,
    Mix 2 1 32
  ]"

text \<open>
  \<open>func (tf *threefish256) encrypt(input, output []uint64)\<close>: reading \<open>input[3]\<close> or writing \<open>output[3]\<close> out of range panics.
\<close>

definition encrypt256 :: "threefish \<Rightarrow> uint64 list \<Rightarrow> uint64 list \<Rightarrow> error + uint64 list" where
  "encrypt256 tf input output =
     (if length input < 4 then Inl IndexOutOfRange
      else
        let b = [input ! 0, input ! 1, input ! 2, input ! 3];
            k0 = expanedKey tf ! 0; k1 = expanedKey tf ! 1; k2 = expanedKey tf ! 2; k3 = expanedKey tf ! 3;
            k4 = expanedKey tf ! 4;
            t0 = expanedTweak tf ! 0; t1 = expanedTweak tf ! 1; t2 = expanedTweak tf ! 2;
            b = exec (encrypt256_rounds k0 k1 k2 k3 k4 t0 t1 t2) b
        in if length output < 4 then Inl IndexOutOfRange
           else Inr (output[0 := b ! 0 + k3, 1 := b ! 1 + k4 + t0, 2 := b ! 2 + k0 + t1,
                  3 := b ! 3 + k1 + 18]))"

text \<open>
  The statements of \<open>threefish256.decrypt\<close> between the loads of the block, key and tweak and the
  stores to \<open>output\<close> (lines 457 to 604 of \<open>threefish.go\<close>), one statement per line.
\<close>

definition decrypt256_rounds ::
  "uint64 \<Rightarrow> uint64 \<Rightarrow> uint64 \<Rightarrow> uint64 \<Rightarrow> uint64 \<Rightarrow> uint64 \<Rightarrow> uint64 \<Rightarrow> uint64
    \<Rightarrow> (uint64 list \<Rightarrow> uint64 list) list" where
  "decrypt256_rounds k0 k1 k2 k3 k4 t0 t1 t2 = [
    Sub 0 k3,
    Sub 1 (k4 + t0),
    Sub 2 (k0 + t1),
    Sub 3 (k1 + 18),
    UnMix 0 3 32,
    UnMix 2 1 32,
    UnMix 0 1 58,
    UnMix 2 3 22,
    UnMix 0 3 46,
    UnMix 2 1 12,
    UnMix5 0 1 25 k2 (k3 + t2),
    UnMix5 2 3 33 (k4 + t0) (k0 + 17),
    UnMix 0 3 5,
    UnMix 2 1 37,
    UnMix 0 1 23,
    UnMix 2 3 40,
    UnMix 0 3 52,
    UnMix 2 1 57,
    UnMix5 0 1 14 k1 (k2 + t1),
    UnMix5 2 3 16 (k3 + t2) (k4 + 16),
    UnMix 0 3 32,
    UnMix 2 1 32,
    UnMix 0 1 58,
    UnMix 2 3 22,
    UnMix 0 3 46,
    UnMix 2 1 12,
    UnMix5 0 1 25 k0 (k1 + t0),
    UnMix5 2 3 33 (k2 + t1) (k3 + 15),
    UnMix 0 3 5,
    UnMix 2 1 37,
    UnMix 0 1 23,
    UnMix 2 3 40,
    UnMix 0 3 52,
    UnMix 2 1 57,
    UnMix5 0 1 14 k4 (k0 + t2),
    UnMix5 2 3 16 (k1 + t0) (k2 + 14),
    UnMix 0 3 32,
    UnMix 2 1 32,
    UnMix 0 1 58,
    UnMix 2 3 22,
    UnMix 0 3 46,
    UnMix 2 1 12,
    UnMix5 0 1 25 k3 (k4 + t1),
    UnMix5 2 3 33 (k0 + t2) (k1 + 13),
    UnMix 0 3 5,
    UnMix 2 1 37,
    UnMix 0 1 23,
    UnMix 2 3 40,
    UnMix 0 3 52,
    UnMix 2 1 57,
    UnMix5 0 1 14 k2 (k3 + t0),
    UnMix5 2 3 16 (k4 + t1) (k0 + 12),
    UnMix 0 3 32,
    UnMix 2 1 32,
    UnMix 0 1 58,
    UnMix 2 3 22,
    UnMix 0 3 46,
    UnMix 2 1 12,
    UnMix5 0 1 25 k1 (k2 + t2),
    UnMix5 2 3 33 (k3 + t0) (k4 + 11),
    UnMix 0 3 5,
    UnMix 2 1 37,
    UnMix 0 1 23,
    UnMix 2 3 40,
    UnMix 0 3 52,
    UnMix 2 1 57,
    UnMix5 0 1 14 k0 (k1 + t1),
    UnMix5 2 3 16 (k2 + t2) (k3 + 10),
    UnMix 0 3 32,
    UnMix 2 1 32,
    UnMix 0 1 58,
    UnMix 2 3 22,
    UnMix 0 3 46,
    UnMix 2 1 12,
    UnMix5 0 1 25 k4 (k0 + t0),
    UnMix5 2 3 33 (k1 + t1) (k2 + 9),
    UnMix 0 3 5,
    UnMix 2 1 37,
    UnMix 0 1 23,
    UnMix 2 3 40,
    UnMix 0 3 52,
    UnMix 2 1 57,
    UnMix5 0 1 14 k3 (k4 + t2),
    UnMix5 2 3 16 (k0 + t0) (k1 + 8),
    UnMix 0 3 32,
    UnMix 2 1 32,
    UnMix 0 1 58,
    UnMix 2 3 22,
    UnMix 0 3 46,
    UnMix 2 1 12,
    UnMix5 0 1 25 k2 (k3 + t1),
    UnMix5 2 3 33 (k4 + t2) (k0 + 7),
    UnMix 0 3 5,
    UnMix 2 1 37,
    UnMix 0 1 23,
    UnMix 2 3 40,
    UnMix 0 3 52,
    UnMix 2 1 57,
    UnMix5 0 1 14 k1 (k2 + t0),
    UnMix5 2 3 16 (k3 + t1) (k4 + 6),
    UnMix 0 3 32,
    UnMix 2 1 32,
    UnMix 0 1 58,
    UnMix 2 3 22,
    UnMix 0 3 46,
    UnMix 2 1 12,
    UnMix5 0 1 25 k0 (k1 + t2),
    UnMix5 2 3 33 (k2 + t0) (k3 + 5),
    UnMix 0 3 5,
    UnMix 2 1 37,
    UnMix 0 1 23,
    UnMix 2 3 40,
    UnMix 0 3 52,
    UnMix 2 1 57,
    UnMix5 0 1 14 k4 (k0 + t1),
    UnMix5 2 3 16 (k1 + t2) (k2 + 4),
    UnMix 0 3 32,
    UnMix 2 1 32,
    UnMix 0 1 58,
    UnMix 2 3 22,
    UnMix 0 3 46,
    UnMix 2 1 12,
    UnMix5 0 1 25 k3 (k4 + t0),
    UnMix5 2 3 33 (k0 + t1) (k1 + 3),
    UnMix 0 3 5,
    UnMix 2 1 37,
    UnMix 0 1 23,
    UnMix 2 3 40,
    UnMix 0 3 52,
    UnMix 2 1 57,
    UnMix5 0 1 14 k2 (k3 + t2),
    UnMix5 2 3 16 (k4 + t0) (k0 + 2),
    UnMix 0 3 32,
    UnMix 2 1 32,
    UnMix 0 1 58,
    UnMix 2 3 22,
    UnMix 0 3 46,
    UnMix 2 1 12,
    UnMix5 0 1 25 k1 (k2 + t1),
    UnMix5 2 3 33 (k3 + t2) (k4 + 1),
    UnMix 0 3 5,
    UnMix 2 1 37,
    UnMix 0 1 23,
    UnMix 2 3 40,
    UnMix 0 3 52,
    UnMix 2 1 57,
    UnMix5 0 1 14 k0 (k1 + t0),
    UnMix5 2 3 16 (k2 + t1) k3
  ]"

text \<open>
  \<open>func (tf *threefish256) decrypt(input, output []uint64)\<close>: reading \<open>input[3]\<close> or writing \<open>output[3]\<close> out of range panics.
\<close>

definition decrypt256 :: "threefish \<Rightarrow> uint64 list \<Rightarrow> uint64 list \<Rightarrow> error + uint64 list" where
  "decrypt256 tf input output =
     (if length input < 4 then Inl IndexOutOfRange
      else
        let b = [input ! 0, input ! 1, input ! 2, input ! 3];
            k0 = expanedKey tf ! 0; k1 = expanedKey tf ! 1; k2 = expanedKey tf ! 2; k3 = expanedKey tf ! 3;
            k4 = expanedKey tf ! 4;
            t0 = expanedTweak tf ! 0; t1 = expanedTweak tf ! 1; t2 = expanedTweak tf ! 2;
            b = exec (decrypt256_rounds k0 k1 k2 k3 k4 t0 t1 t2) b
        in if length output < 4 then Inl IndexOutOfRange
           else Inr (output[0 := b ! 0, 1 := b ! 1, 2 := b ! 2, 3 := b ! 3]))"

subsection \<open>Threefish-512\<close>

text \<open>
  The statements of \<open>threefish512.encrypt\<close> between the loads of the block, key and tweak and the
  stores to \<open>output\<close> (lines 688 to 975 of \<open>threefish.go\<close>), one statement per line.
\<close>

definition encrypt512_rounds ::
  "uint64 \<Rightarrow> uint64 \<Rightarrow> uint64 \<Rightarrow> uint64 \<Rightarrow> uint64 \<Rightarrow> uint64 \<Rightarrow> uint64 \<Rightarrow> uint64
    \<Rightarrow> uint64 \<Rightarrow> uint64 \<Rightarrow> uint64 \<Rightarrow> uint64
    \<Rightarrow> (uint64 list \<Rightarrow> uint64 list) list" where
  "encrypt512_rounds k0 k1 k2 k3 k4 k5 k6 k7 k8 t0 t1 t2 = [
    Mix5 0 1 46 k0 k1,
    Mix5 2 3 36 k2 k3,
    Mix5 4 5 19 k4 (k5 + t0),
    Mix5 6 7 37 (k6 + t1) k7,
    Mix 2 1 33,
    Mix 4 7 27,
    Mix 6 5 14,
    Mix 0 3 42,
    Mix 4 1 17,
    Mix 6 3 49,
    Mix 0 5 36,
    Mix 2 7 39,
    Mix 6 1 44,
    Mix 0 7 9,
    Mix 2 5 54,
    Mix 4 3 56,
    Mix5 0 1 39 k1 k2,
    Mix5 2 3 30 k3 k4,
    Mix5 4 5 34 k5 (k6 + t1),
    Mix5 6 7 24 (k7 + t2) (k8 + 1),
    Mix 2 1 13,
    Mix 4 7 50,
    Mix 6 5 10,
    Mix 0 3 17,
    Mix 4 1 25,
    Mix 6 3 29,
    Mix 0 5 39,
    Mix 2 7 43,
    Mix 6 1 8,
    Mix 0 7 35,
    Mix 2 5 56,
    Mix 4 3 22,
    Mix5 0 1 46 k2 k3,
    Mix5 2 3 36 k4 k5,
    Mix5 4 5 19 k6 (k7 + t2),
    Mix5 6 7 37 (k8 + t0) (k0 + 2),
    Mix 2 1 33,
    Mix 4 7 27,
    Mix 6 5 14,
    Mix 0 3 42,
    Mix 4 1 17,
    Mix 6 3 49,
    Mix 0 5 36,
    Mix 2 7 39,
    Mix 6 1 44,
    Mix 0 7 9,
    Mix 2 5 54,
    Mix 4 3 56,
    Mix5 0 1 39 k3 k4,
    Mix5 2 3 30 k5 k6,
    Mix5 4 5 34 k7 (k8 + t0),
    Mix5 6 7 24 (k0 + t1) (k1 + 3),
    Mix 2 1 13,
    Mix 4 7 50,
    Mix 6 5 10,
    Mix 0 3 17,
    Mix 4 1 25,
    Mix 6 3 29,
    Mix 0 5 39,
    Mix 2 7 43,
    Mix 6 1 8,
    Mix 0 7 35,
    Mix 2 5 56,
    Mix 4 3 22,
    Mix5 0 1 46 k4 k5,
    Mix5 2 3 36 k6 k7,
    Mix5 4 5 19 k8 (k0 + t1),
    Mix5 6 7 37 (k1 + t2) (k2 + 4),
    Mix 2 1 33,
    Mix 4 7 27,
    Mix 6 5 14,
    Mix 0 3 42,
    Mix 4 1 17,
    Mix 6 3 49,
    Mix 0 5 36,
    Mix 2 7 39,
    Mix 6 1 44,
    Mix 0 7 9,
    Mix 2 5 54,
    Mix 4 3 56,
    Mix5 0 1 39 k5 k6,
    Mix5 2 3 30 k7 k8,
    Mix5 4 5 34 k0 (k1 + t2),
    Mix5 6 7 24 (k2 + t0) (k3 + 5),
    Mix 2 1 13,
    Mix 4 7 50,
    Mix 6 5 10,
    Mix 0 3 17,
    Mix 4 1 25,
    Mix 6 3 29,
    Mix 0 5 39,
    Mix 2 7 43,
    Mix 6 1 8,
    Mix 0 7 35,
    Mix 2 5 56,
    Mix 4 3 22,
    Mix5 0 1 46 k6 k7,
    Mix5 2 3 36 k8 k0,
    Mix5 4 5 19 k1 (k2 + t0),
    Mix5 6 7 37 (k3 + t1) (k4 + 6),
    Mix 2 1 33,
    Mix 4 7 27,
    Mix 6 5 14,
    Mix 0 3 42,
    Mix 4 1 17,
    Mix 6 3 49,
    Mix 0 5 36,
    Mix 2 7 39,
    Mix 6 1 44,
    Mix 0 7 9,
    Mix 2 5 54,
    Mix 4 3 56,
    Mix5 0 1 39 k7 k8,
    Mix5 2 3 30 k0 k1,
    Mix5 4 5 34 k2 (k3 + t1),
    Mix5 6 7 24 (k4 + t2) (k5 + 7),
    Mix 2 1 13,
    Mix 4 7 50,
    Mix 6 5 10,
    Mix 0 3 17,
    Mix 4 1 25,
    Mix 6 3 29,
    Mix 0 5 39,
    Mix 2 7 43,
    Mix 6 1 8,
    Mix 0 7 35,
    Mix 2 5 56,
    Mix 4 3 22,
    Mix5 0 1 46 k8 k0,
    Mix5 2 3 36 k1 k2,
    Mix5 4 5 19 k3 (k4 + t2),
    Mix5 6 7 37 (k5 + t0) (k6 + 8),
    Mix 2 1 33,
    Mix 4 7 27,
    Mix 6 5 14,
    Mix 0 3 42,
    Mix 4 1 17,
    Mix 6 3 49,
    Mix 0 5 36,
    Mix 2 7 39,
    Mix 6 1 44,
    Mix 0 7 9,
    Mix 2 5 54,
    Mix 4 3 56,
    Mix5 0 1 39 k0 k1,
    Mix5 2 3 30 k2 k3,
    Mix5 4 5 34 k4 (k5 + t0),
    Mix5 6 7 24 (k6 + t1) (k7 + 9),
    Mix 2 1 13,
    Mix 4 7 50,
    Mix 6 5 10,
    Mix 0 3 17,
    Mix 4 1 25,
    Mix 6 3 29,
    Mix 0 5 39,
    Mix 2 7 43,
    Mix 6 1 8,
    Mix 0 7 35,
    Mix 2 5 56,
    Mix 4 3 22,
    Mix5 0 1 46 k1 k2,
    Mix5 2 3 36 k3 k4,
    Mix5 4 5 19 k5 (k6 + t1),
    Mix5 6 7 37 (k7 + t2) (k8 + 10),
    Mix 2 1 33,
    Mix 4 7 27,
    Mix 6 5 14,
    Mix 0 3 42,
    Mix 4 1 17,
    Mix 6 3 49,
    Mix 0 5 36,
    Mix 2 7 39,
    Mix 6 1 44,
    Mix 0 7 9,
    Mix 2 5 54,
    Mix 4 3 56,
    Mix5 0 1 39 k2 k3,
    Mix5 2 3 30 k4 k5,
    Mix5 4 5 34 k6 (k7 + t2),
    Mix5 6 7 24 (k8 + t0) (k0 + 11),
    Mix 2 1 13,
    Mix 4 7 50,
    Mix 6 5 10,
    Mix 0 3 17,
    Mix 4 1 25,
    Mix 6 3 29,
    Mix 0 5 39,
    Mix 2 7 43,
    Mix 6 1 8,
    Mix 0 7 35,
    Mix 2 5 56,
    Mix 4 3 22,
    Mix5 0 1 46 k3 k4,
    Mix5 2 3 36 k5 k6,
    Mix5 4 5 19 k7 (k8 + t0),
    Mix5 6 7 37 (k0 + t1) (k1 + 12),
    Mix 2 1 33,
    Mix 4 7 27,
    Mix 6 5 14,
    Mix 0 3 42,
    Mix 4 1 17,
    Mix 6 3 49,
    Mix 0 5 36,
    Mix 2 7 39,
    Mix 6 1 44,
    Mix 0 7 9,
    Mix 2 5 54,
    Mix 4 3 56,
    Mix5 0 1 39 k4 k5,
    Mix5 2 3 30 k6 k7,
    Mix5 4 5 34 k8 (k0 + t1),
    Mix5 6 7 24 (k1 + t2) (k2 + 13),
    Mix 2 1 13,
    Mix 4 7 50,
    Mix 6 5 10,
    Mix 0 3 17,
    Mix 4 1 25,
    Mix 6 3 29,
    Mix 0 5 39,
    Mix 2 7 43,
    Mix 6 1 8,
    Mix 0 7 35,
    Mix 2 5 56,
    Mix 4 3 22,
    Mix5 0 1 46 k5 k6,
    Mix5 2 3 36 k7 k8,
    Mix5 4 5 19 k0 (k1 + t2),
    Mix5 6 7 37 (k2 + t0) (k3 + 14),
    Mix 2 1 33,
    Mix 4 7 27,
    Mix 6 5 14,
    Mix 0 3 42,
    Mix 4 1 17,
    Mix 6 3 49,
    Mix 0 5 36,
    Mix 2 7 39,
    Mix 6 1 44,
    Mix 0 7 9,
    Mix 2 5 54,
    Mix 4 3 56,
    Mix5 0 1 39 k6 k7,
    Mix5 2 3 30 k8 k0,
    Mix5 4 5 34 k1 (k2 + t0),
    Mix5 6 7 24 (k3 + t1) (k4 + 15),
    Mix 2 1 13,
    Mix 4 7 50,
    Mix 6 5 10,
    Mix 0 3 17,
    Mix 4 1 25,
    Mix 6 3 29,
    Mix 0 5 39,
    Mix 2 7 43,
    Mix 6 1 8,
    Mix 0 7 35,
    Mix 2 5 56,
    Mix 4 3 22,
    Mix5 0 1 46 k7 k8,
    Mix5 2 3 36 k0 k1,
    Mix5 4 5 19 k2 (k3 + t1),
    Mix5 6 7 37 (k4 + t2) (k5 + 16),
    Mix 2 1 33,
    Mix 4 7 27,
    Mix 6 5 14,
    Mix 0 3 42,
    Mix 4 1 17,
    Mix 6 3 49,
    Mix 0 5 36,
    Mix 2 7 39,
    Mix 6 1 44,
    Mix 0 7 9,
    Mix 2 5 54,
    Mix 4 3 56,
    Mix5 0 1 39 k8 k0,
    Mix5 2 3 30 k1 k2,
    Mix5 4 5 34 k3 (k4 + t2),
    Mix5 6 7 24 (k5 + t0) (k6 + 17),
    Mix 2 1 13,
    Mix 4 7 50,
    Mix 6 5 10,
    Mix 0 3 17,
    Mix 4 1 25,
    Mix 6 3 29,
    Mix 0 5 39,
    Mix 2 7 43,
    Mix 6 1 8,
    Mix 0 7 35,
    Mix 2 5 56,
    Mix 4 3 22
  ]"

text \<open>
  \<open>func (tf *threefish512) encrypt(input, output []uint64)\<close>: reading \<open>input[7]\<close> or writing \<open>output[7]\<close> out of range panics.
\<close>

definition encrypt512 :: "threefish \<Rightarrow> uint64 list \<Rightarrow> uint64 list \<Rightarrow> error + uint64 list" where
  "encrypt512 tf input output =
     (if length input < 8 then Inl IndexOutOfRange
      else
        let b = [input ! 0, input ! 1, input ! 2, input ! 3, input ! 4, input ! 5, input ! 6,
                 input ! 7];
            k0 = expanedKey tf ! 0; k1 = expanedKey tf ! 1; k2 = expanedKey tf ! 2; k3 = expanedKey tf ! 3;
            k4 = expanedKey tf ! 4; k5 = expanedKey tf ! 5; k6 = expanedKey tf ! 6; k7 = expanedKey tf ! 7;
            k8 = expanedKey tf ! 8;
            t0 = expanedTweak tf ! 0; t1 = expanedTweak tf ! 1; t2 = expanedTweak tf ! 2;
            b = exec (encrypt512_rounds k0 k1 k2 k3 k4 k5 k6 k7 k8 t0 t1 t2) b
        in if length output < 8 then Inl IndexOutOfRange
           else Inr (output[0 := b ! 0 + k0, 1 := b ! 1 + k1, 2 := b ! 2 + k2, 3 := b ! 3 + k3,
                  4 := b ! 4 + k4, 5 := b ! 5 + k5 + t0, 6 := b ! 6 + k6 + t1,
                  7 := b ! 7 + k7 + 18]))"

text \<open>
  The statements of \<open>threefish512.decrypt\<close> between the loads of the block, key and tweak and the
  stores to \<open>output\<close> (lines 1006 to 1301 of \<open>threefish.go\<close>), one statement per line.
\<close>

definition decrypt512_rounds ::
  "uint64 \<Rightarrow> uint64 \<Rightarrow> uint64 \<Rightarrow> uint64 \<Rightarrow> uint64 \<Rightarrow> uint64 \<Rightarrow> uint64 \<Rightarrow> uint64
    \<Rightarrow> uint64 \<Rightarrow> uint64 \<Rightarrow> uint64 \<Rightarrow> uint64
    \<Rightarrow> (uint64 list \<Rightarrow> uint64 list) list" where
  "decrypt512_rounds k0 k1 k2 k3 k4 k5 k6 k7 k8 t0 t1 t2 = [
    Sub 0 k0,
    Sub 1 k1,
    Sub 2 k2,
    Sub 3 k3,
    Sub 4 k4,
    Sub 5 (k5 + t0),
    Sub 6 (k6 + t1),
    Sub 7 (k7 + 18),
    UnMix 4 3 22,
    UnMix 2 5 56,
    UnMix 0 7 35,
    UnMix 6 1 8,
    UnMix 2 7 43,
    UnMix 0 5 39,
    UnMix 6 3 29,
    UnMix 4 1 25,
    UnMix 0 3 17,
    UnMix 6 5 10,
    UnMix 4 7 50,
    UnMix 2 1 13,
    UnMix5 6 7 24 (k5 + t0) (k6 + 17),
    UnMix5 4 5 34 k3 (k4 + t2),
    UnMix5 2 3 30 k1 k2,
    UnMix5 0 1 39 k8 k0,
    UnMix 4 3 56,
    UnMix 2 5 54,
    UnMix 0 7 9,
    UnMix 6 1 44,
    UnMix 2 7 39,
    UnMix 0 5 36,
    UnMix 6 3 49,
    UnMix 4 1 17,
    UnMix 0 3 42,
    UnMix 6 5 14,
    UnMix 4 7 27,
    UnMix 2 1 33,
    UnMix5 6 7 37 (k4 + t2) (k5 + 16),
    UnMix5 4 5 19 k2 (k3 + t1),
    UnMix5 2 3 36 k0 k1,
    UnMix5 0 1 46 k7 k8,
    UnMix 4 3 22,
    UnMix 2 5 56,
    UnMix 0 7 35,
    UnMix 6 1 8,
    UnMix 2 7 43,
    UnMix 0 5 39,
    UnMix 6 3 29,
    UnMix 4 1 25,
    UnMix 0 3 17,
    UnMix 6 5 10,
    UnMix 4 7 50,
    UnMix 2 1 13,
    UnMix5 6 7 24 (k3 + t1) (k4 + 15),
    UnMix5 4 5 34 k1 (k2 + t0),
    UnMix5 2 3 30 k8 k0,
    UnMix5 0 1 39 k6 k7,
    UnMix 4 3 56,
    UnMix 2 5 54,
    UnMix 0 7 9,
    UnMix 6 1 44,
    UnMix 2 7 39,
    UnMix 0 5 36,
    UnMix 6 3 49,
    UnMix 4 1 17,
    UnMix 0 3 42,
    UnMix 6 5 14,
    UnMix 4 7 27,
    UnMix 2 1 33,
    UnMix5 6 7 37 (k2 + t0) (k3 + 14),
    UnMix5 4 5 19 k0 (k1 + t2),
    UnMix5 2 3 36 k7 k8,
    UnMix5 0 1 46 k5 k6,
    UnMix 4 3 22,
    UnMix 2 5 56,
    UnMix 0 7 35,
    UnMix 6 1 8,
    UnMix 2 7 43,
    UnMix 0 5 39,
    UnMix 6 3 29,
    UnMix 4 1 25,
    UnMix 0 3 17,
    UnMix 6 5 10,
    UnMix 4 7 50,
    UnMix 2 1 13,
    UnMix5 6 7 24 (k1 + t2) (k2 + 13),
    UnMix5 4 5 34 k8 (k0 + t1),
    UnMix5 2 3 30 k6 k7,
    UnMix5 0 1 39 k4 k5,
    UnMix 4 3 56,
    UnMix 2 5 54,
    UnMix 0 7 9,
    UnMix 6 1 44,
    UnMix 2 7 39,
    UnMix 0 5 36,
    UnMix 6 3 49,
    UnMix 4 1 17,
    UnMix 0 3 42,
    UnMix 6 5 14,
    UnMix 4 7 27,
    UnMix 2 1 33,
    UnMix5 6 7 37 (k0 + t1) (k1 + 12),
    UnMix5 4 5 19 k7 (k8 + t0),
    UnMix5 2 3 36 k5 k6,
    UnMix5 0 1 46 k3 k4,
    UnMix 4 3 22,
    UnMix 2 5 56,
    UnMix 0 7 35,
    UnMix 6 1 8,
    UnMix 2 7 43,
    UnMix 0 5 39,
    UnMix 6 3 29,
    UnMix 4 1 25,
    UnMix 0 3 17,
    UnMix 6 5 10,
    UnMix 4 7 50,
    UnMix 2 1 13,
    UnMix5 6 7 24 (k8 + t0) (k0 + 11),
    UnMix5 4 5 34 k6 (k7 + t2),
    UnMix5 2 3 30 k4 k5,
    UnMix5 0 1 39 k2 k3,
    UnMix 4 3 56,
    UnMix 2 5 54,
    UnMix 0 7 9,
    UnMix 6 1 44,
    UnMix 2 7 39,
    UnMix 0 5 36,
    UnMix 6 3 49,
    UnMix 4 1 17,
    UnMix 0 3 42,
    UnMix 6 5 14,
    UnMix 4 7 27,
    UnMix 2 1 33,
    UnMix5 6 7 37 (k7 + t2) (k8 + 10),
    UnMix5 4 5 19 k5 (k6 + t1),
    UnMix5 2 3 36 k3 k4,
    UnMix5 0 1 46 k1 k2,
    UnMix 4 3 22,
    UnMix 2 5 56,
    UnMix 0 7 35,
    UnMix 6 1 8,
    UnMix 2 7 43,
    UnMix 0 5 39,
    UnMix 6 3 29,
    UnMix 4 1 25,
    UnMix 0 3 17,
    UnMix 6 5 10,
    UnMix 4 7 50,
    UnMix 2 1 13,
    UnMix5 6 7 24 (k6 + t1) (k7 + 9),
    UnMix5 4 5 34 k4 (k5 + t0),
    UnMix5 2 3 30 k2 k3,
    UnMix5 0 1 39 k0 k1,
    UnMix 4 3 56,
    UnMix 2 5 54,
    UnMix 0 7 9,
    UnMix 6 1 44,
    UnMix 2 7 39,
    UnMix 0 5 36,
    UnMix 6 3 49,
    UnMix 4 1 17,
    UnMix 0 3 42,
    UnMix 6 5 14,
    UnMix 4 7 27,
    UnMix 2 1 33,
    UnMix5 6 7 37 (k5 + t0) (k6 + 8),
    UnMix5 4 5 19 k3 (k4 + t2),
    UnMix5 2 3 36 k1 k2,
    UnMix5 0 1 46 k8 k0,
    UnMix 4 3 22,
    UnMix 2 5 56,
    UnMix 0 7 35,
    UnMix 6 1 8,
    UnMix 2 7 43,
    UnMix 0 5 39,
    UnMix 6 3 29,
    UnMix 4 1 25,
    UnMix 0 3 17,
    UnMix 6 5 10,
    UnMix 4 7 50,
    UnMix 2 1 13,
    UnMix5 6 7 24 (k4 + t2) (k5 + 7),
    UnMix5 4 5 34 k2 (k3 + t1),
    UnMix5 2 3 30 k0 k1,
    UnMix5 0 1 39 k7 k8,
    UnMix 4 3 56,
    UnMix 2 5 54,
    UnMix 0 7 9,
    UnMix 6 1 44,
    UnMix 2 7 39,
    UnMix 0 5 36,
    UnMix 6 3 49,
    UnMix 4 1 17,
    UnMix 0 3 42,
    UnMix 6 5 14,
    UnMix 4 7 27,
    UnMix 2 1 33,
    UnMix5 6 7 37 (k3 + t1) (k4 + 6),
    UnMix5 4 5 19 k1 (k2 + t0),
    UnMix5 2 3 36 k8 k0,
    UnMix5 0 1 46 k6 k7,
    UnMix 4 3 22,
    UnMix 2 5 56,
    UnMix 0 7 35,
    UnMix 6 1 8,
    UnMix 2 7 43,
    UnMix 0 5 39,
    UnMix 6 3 29,
    UnMix 4 1 25,
    UnMix 0 3 17,
    UnMix 6 5 10,
    UnMix 4 7 50,
    UnMix 2 1 13,
    UnMix5 6 7 24 (k2 + t0) (k3 + 5),
    UnMix5 4 5 34 k0 (k1 + t2),
    UnMix5 2 3 30 k7 k8,
    UnMix5 0 1 39 k5 k6,
    UnMix 4 3 56,
    UnMix 2 5 54,
    UnMix 0 7 9,
    UnMix 6 1 44,
    UnMix 2 7 39,
    UnMix 0 5 36,
    UnMix 6 3 49,
    UnMix 4 1 17,
    UnMix 0 3 42,
    UnMix 6 5 14,
    UnMix 4 7 27,
    UnMix 2 1 33,
    UnMix5 6 7 37 (k1 + t2) (k2 + 4),
    UnMix5 4 5 19 k8 (k0 + t1),
    UnMix5 2 3 36 k6 k7,
    UnMix5 0 1 46 k4 k5,
    UnMix 4 3 22,
    UnMix 2 5 56,
    UnMix 0 7 35,
    UnMix 6 1 8,
    UnMix 2 7 43,
    UnMix 0 5 39,
    UnMix 6 3 29,
    UnMix 4 1 25,
    UnMix 0 3 17,
    UnMix 6 5 10,
    UnMix 4 7 50,
    UnMix 2 1 13,
    UnMix5 6 7 24 (k0 + t1) (k1 + 3),
    UnMix5 4 5 34 k7 (k8 + t0),
    UnMix5 2 3 30 k5 k6,
    UnMix5 0 1 39 k3 k4,
    UnMix 4 3 56,
    UnMix 2 5 54,
    UnMix 0 7 9,
    UnMix 6 1 44,
    UnMix 2 7 39,
    UnMix 0 5 36,
    UnMix 6 3 49,
    UnMix 4 1 17,
    UnMix 0 3 42,
    UnMix 6 5 14,
    UnMix 4 7 27,
    UnMix 2 1 33,
    UnMix5 6 7 37 (k8 + t0) (k0 + 2),
    UnMix5 4 5 19 k6 (k7 + t2),
    UnMix5 2 3 36 k4 k5,
    UnMix5 0 1 46 k2 k3,
    UnMix 4 3 22,
    UnMix 2 5 56,
    UnMix 0 7 35,
    UnMix 6 1 8,
    UnMix 2 7 43,
    UnMix 0 5 39,
    UnMix 6 3 29,
    UnMix 4 1 25,
    UnMix 0 3 17,
    UnMix 6 5 10,
    UnMix 4 7 50,
    UnMix 2 1 13,
    UnMix5 6 7 24 (k7 + t2) (k8 + 1),
    UnMix5 4 5 34 k5 (k6 + t1),
    UnMix5 2 3 30 k3 k4,
    UnMix5 0 1 39 k1 k2,
    UnMix 4 3 56,
    UnMix 2 5 54,
    UnMix 0 7 9,
    UnMix 6 1 44,
    UnMix 2 7 39,
    UnMix 0 5 36,
    UnMix 6 3 49,
    UnMix 4 1 17,
    UnMix 0 3 42,
    UnMix 6 5 14,
    UnMix 4 7 27,
    UnMix 2 1 33,
    UnMix5 6 7 37 (k6 + t1) k7,
    UnMix5 4 5 19 k4 (k5 + t0),
    UnMix5 2 3 36 k2 k3,
    UnMix5 0 1 46 k0 k1
  ]"

text \<open>
  \<open>func (tf *threefish512) decrypt(input, output []uint64)\<close>: reading \<open>input[7]\<close> or writing \<open>output[7]\<close> out of range panics.
\<close>

definition decrypt512 :: "threefish \<Rightarrow> uint64 list \<Rightarrow> uint64 list \<Rightarrow> error + uint64 list" where
  "decrypt512 tf input output =
     (if length input < 8 then Inl IndexOutOfRange
      else
        let b = [input ! 0, input ! 1, input ! 2, input ! 3, input ! 4, input ! 5, input ! 6,
                 input ! 7];
            k0 = expanedKey tf ! 0; k1 = expanedKey tf ! 1; k2 = expanedKey tf ! 2; k3 = expanedKey tf ! 3;
            k4 = expanedKey tf ! 4; k5 = expanedKey tf ! 5; k6 = expanedKey tf ! 6; k7 = expanedKey tf ! 7;
            k8 = expanedKey tf ! 8;
            t0 = expanedTweak tf ! 0; t1 = expanedTweak tf ! 1; t2 = expanedTweak tf ! 2;
            b = exec (decrypt512_rounds k0 k1 k2 k3 k4 k5 k6 k7 k8 t0 t1 t2) b
        in if length output < 8 then Inl IndexOutOfRange
           else Inr (output[7 := b ! 7, 6 := b ! 6, 5 := b ! 5, 4 := b ! 4, 3 := b ! 3, 2 := b ! 2,
                  1 := b ! 1, 0 := b ! 0]))"

subsection \<open>Threefish-1024\<close>

text \<open>
  The statements of \<open>threefish1024.encrypt\<close> between the loads of the block, key and tweak and the
  stores to \<open>output\<close> (lines 1397 to 2036 of \<open>threefish.go\<close>), one statement per line.
\<close>

definition encrypt1024_rounds ::
  "uint64 \<Rightarrow> uint64 \<Rightarrow> uint64 \<Rightarrow> uint64 \<Rightarrow> uint64 \<Rightarrow> uint64 \<Rightarrow> uint64 \<Rightarrow> uint64
    \<Rightarrow> uint64 \<Rightarrow> uint64 \<Rightarrow> uint64 \<Rightarrow> uint64 \<Rightarrow> uint64 \<Rightarrow> uint64 \<Rightarrow> uint64 \<Rightarrow> uint64
    \<Rightarrow> uint64 \<Rightarrow> uint64 \<Rightarrow> uint64 \<Rightarrow> uint64
    \<Rightarrow> (uint64 list \<Rightarrow> uint64 list) list" where
  "encrypt1024_rounds k0 k1 k2 k3 k4 k5 k6 k7 k8 k9 k10 k11 k12 k13 k14 k15 k16 t0 t1 t2 = [
    Mix5 0 1 24 k0 k1,
    Mix5 2 3 13 k2 k3,
    Mix5 4 5 8 k4 k5,
    Mix5 6 7 47 k6 k7,
    Mix5 8 9 8 k8 k9,
    Mix5 10 11 17 k10 k11,
    Mix5 12 13 22 k12 (k13 + t0),
    Mix5 14 15 37 (k14 + t1) k15,
    Mix 0 9 38,
    Mix 2 13 19,
    Mix 6 11 10,
    Mix 4 15 55,
    Mix 10 7 49,
    Mix 12 3 18,
    Mix 14 5 23,
    Mix 8 1 52,
    Mix 0 7 33,
    Mix 2 5 4,
    Mix 4 3 51,
    Mix 6 1 13,
    Mix 12 15 34,
    Mix 14 13 41,
    Mix 8 11 59,
    Mix 10 9 17,
    Mix 0 15 5,
    Mix 2 11 20,
    Mix 6 13 48,
    Mix 4 9 41,
    Mix 14 1 47,
    Mix 8 5 28,
    Mix 10 3 16,
    Mix 12 7 25,
    Mix5 0 1 41 k1 k2,
    Mix5 2 3 9 k3 k4,
    Mix5 4 5 37 k5 k6,
    Mix5 6 7 31 k7 k8,
    Mix5 8 9 12 k9 k10,
    Mix5 10 11 47 k11 k12,
    Mix5 12 13 44 k13 (k14 + t1),
    Mix5 14 15 30 (k15 + t2) (k16 + 1),
    Mix 0 9 16,
    Mix 2 13 34,
    Mix 6 11 56,
    Mix 4 15 51,
    Mix 10 7 4,
    Mix 12 3 53,
    Mix 14 5 42,
    Mix 8 1 41,
    Mix 0 7 31,
    Mix 2 5 44,
    Mix 4 3 47,
    Mix 6 1 46,
    Mix 12 15 19,
    Mix 14 13 42,
    Mix 8 11 44,
    Mix 10 9 25,
    Mix 0 15 9,
    Mix 2 11 48,
    Mix 6 13 35,
    Mix 4 9 52,
    Mix 14 1 23,
    Mix 8 5 31,
    Mix 10 3 37,
    Mix 12 7 20,
    Mix5 0 1 24 k2 k3,
    Mix5 2 3 13 k4 k5,
    Mix5 4 5 8 k6 k7,
    Mix5 6 7 47 k8 k9,
    Mix5 8 9 8 k10 k11,
    Mix5 10 11 17 k12 k13,
    Mix5 12 13 22 k14 (k15 + t2),
    Mix5 14 15 37 (k16 + t0) (k0 + 2),
    Mix 0 9 38,
    Mix 2 13 19,
    Mix 6 11 10,
    Mix 4 15 55,
    Mix 10 7 49,
    Mix 12 3 18,
    Mix 14 5 23,
    Mix 8 1 52,
    Mix 0 7 33,
    Mix 2 5 4,
    Mix 4 3 51,
    Mix 6 1 13,
    Mix 12 15 34,
    Mix 14 13 41,
    Mix 8 11 59,
    Mix 10 9 17,
    Mix 0 15 5,
    Mix 2 11 20,
    Mix 6 13 48,
    Mix 4 9 41,
    Mix 14 1 47,
    Mix 8 5 28,
    Mix 10 3 16,
    Mix 12 7 25,
    Mix5 0 1 41 k3 k4,
    Mix5 2 3 9 k5 k6,
    Mix5 4 5 37 k7 k8,
    Mix5 6 7 31 k9 k10,
    Mix5 8 9 12 k11 k12,
    Mix5 10 11 47 k13 k14,
    Mix5 12 13 44 k15 (k16 + t0),
    Mix5 14 15 30 (k0 + t1) (k1 + 3),
    Mix 0 9 16,
    Mix 2 13 34,
    Mix 6 11 56,
    Mix 4 15 51,
    Mix 10 7 4,
    Mix 12 3 53,
    Mix 14 5 42,
    Mix 8 1 41,
    Mix 0 7 31,
    Mix 2 5 44,
    Mix 4 3 47,
    Mix 6 1 46,
    Mix 12 15 19,
    Mix 14 13 42,
    Mix 8 11 44,
    Mix 10 9 25,
    Mix 0 15 9,
    Mix 2 11 48,
    Mix 6 13 35,
    Mix 4 9 52,
    Mix 14 1 23,
    Mix 8 5 31,
    Mix 10 3 37,
    Mix 12 7 20,
    Mix5 0 1 24 k4 k5,
    Mix5 2 3 13 k6 k7,
    Mix5 4 5 8 k8 k9,
    Mix5 6 7 47 k10 k11,
    Mix5 8 9 8 k12 k13,
    Mix5 10 11 17 k14 k15,
    Mix5 12 13 22 k16 (k0 + t1),
    Mix5 14 15 37 (k1 + t2) (k2 + 4),
    Mix 0 9 38,
    Mix 2 13 19,
    Mix 6 11 10,
    Mix 4 15 55,
    Mix 10 7 49,
    Mix 12 3 18,
    Mix 14 5 23,
    Mix 8 1 52,
    Mix 0 7 33,
    Mix 2 5 4,
    Mix 4 3 51,
    Mix 6 1 13,
    Mix 12 15 34,
    Mix 14 13 41,
    Mix 8 11 59,
    Mix 10 9 17,
    Mix 0 15 5,
    Mix 2 11 20,
    Mix 6 13 48,
    Mix 4 9 41,
    Mix 14 1 47,
    Mix 8 5 28,
    Mix 10 3 16,
    Mix 12 7 25,
    Mix5 0 1 41 k5 k6,
    Mix5 2 3 9 k7 k8,
    Mix5 4 5 37 k9 k10,
    Mix5 6 7 31 k11 k12,
    Mix5 8 9 12 k13 k14,
    Mix5 10 11 47 k15 k16,
    Mix5 12 13 44 k0 (k1 + t2),
    Mix5 14 15 30 (k2 + t0) (k3 + 5),
    Mix 0 9 16,
    Mix 2 13 34,
    Mix 6 11 56,
    Mix 4 15 51,
    Mix 10 7 4,
    Mix 12 3 53,
    Mix 14 5 42,
    Mix 8 1 41,
    Mix 0 7 31,
    Mix 2 5 44,
    Mix 4 3 47,
    Mix 6 1 46,
    Mix 12 15 19,
    Mix 14 13 42,
    Mix 8 11 44,
    Mix 10 9 25,
    Mix 0 15 9,
    Mix 2 11 48,
    Mix 6 13 35,
    Mix 4 9 52,
    Mix 14 1 23,
    Mix 8 5 31,
    Mix 10 3 37,
    Mix 12 7 20,
    Mix5 0 1 24 k6 k7,
    Mix5 2 3 13 k8 k9,
    Mix5 4 5 8 k10 k11,
    Mix5 6 7 47 k12 k13,
    Mix5 8 9 8 k14 k15,
    Mix5 10 11 17 k16 k0,
    Mix5 12 13 22 k1 (k2 + t0),
    Mix5 14 15 37 (k3 + t1) (k4 + 6),
    Mix 0 9 38,
    Mix 2 13 19,
    Mix 6 11 10,
    Mix 4 15 55,
    Mix 10 7 49,
    Mix 12 3 18,
    Mix 14 5 23,
    Mix 8 1 52,
    Mix 0 7 33,
    Mix 2 5 4,
    Mix 4 3 51,
    Mix 6 1 13,
    Mix 12 15 34,
    Mix 14 13 41,
    Mix 8 11 59,
    Mix 10 9 17,
    Mix 0 15 5,
    Mix 2 11 20,
    Mix 6 13 48,
    Mix 4 9 41,
    Mix 14 1 47,
    Mix 8 5 28,
    Mix 10 3 16,
    Mix 12 7 25,
    Mix5 0 1 41 k7 k8,
    Mix5 2 3 9 k9 k10,
    Mix5 4 5 37 k11 k12,
    Mix5 6 7 31 k13 k14,
    Mix5 8 9 12 k15 k16,
    Mix5 10 11 47 k0 k1,
    Mix5 12 13 44 k2 (k3 + t1),
    Mix5 14 15 30 (k4 + t2) (k5 + 7),
    Mix 0 9 16,
    Mix 2 13 34,
    Mix 6 11 56,
    Mix 4 15 51,
    Mix 10 7 4,
    Mix 12 3 53,
    Mix 14 5 42,
    Mix 8 1 41,
    Mix 0 7 31,
    Mix 2 5 44,
    Mix 4 3 47,
    Mix 6 1 46,
    Mix 12 15 19,
    Mix 14 13 42,
    Mix 8 11 44,
    Mix 10 9 25,
    Mix 0 15 9,
    Mix 2 11 48,
    Mix 6 13 35,
    Mix 4 9 52,
    Mix 14 1 23,
    Mix 8 5 31,
    Mix 10 3 37,
    Mix 12 7 20,
    Mix5 0 1 24 k8 k9,
    Mix5 2 3 13 k10 k11,
    Mix5 4 5 8 k12 k13,
    Mix5 6 7 47 k14 k15,
    Mix5 8 9 8 k16 k0,
    Mix5 10 11 17 k1 k2,
    Mix5 12 13 22 k3 (k4 + t2),
    Mix5 14 15 37 (k5 + t0) (k6 + 8),
    Mix 0 9 38,
    Mix 2 13 19,
    Mix 6 11 10,
    Mix 4 15 55,
    Mix 10 7 49,
    Mix 12 3 18,
    Mix 14 5 23,
    Mix 8 1 52,
    Mix 0 7 33,
    Mix 2 5 4,
    Mix 4 3 51,
    Mix 6 1 13,
    Mix 12 15 34,
    Mix 14 13 41,
    Mix 8 11 59,
    Mix 10 9 17,
    Mix 0 15 5,
    Mix 2 11 20,
    Mix 6 13 48,
    Mix 4 9 41,
    Mix 14 1 47,
    Mix 8 5 28,
    Mix 10 3 16,
    Mix 12 7 25,
    Mix5 0 1 41 k9 k10,
    Mix5 2 3 9 k11 k12,
    Mix5 4 5 37 k13 k14,
    Mix5 6 7 31 k15 k16,
    Mix5 8 9 12 k0 k1,
    Mix5 10 11 47 k2 k3,
    Mix5 12 13 44 k4 (k5 + t0),
    Mix5 14 15 30 (k6 + t1) (k7 + 9),
    Mix 0 9 16,
    Mix 2 13 34,
    Mix 6 11 56,
    Mix 4 15 51,
    Mix 10 7 4,
    Mix 12 3 53,
    Mix 14 5 42,
    Mix 8 1 41,
    Mix 0 7 31,
    Mix 2 5 44,
    Mix 4 3 47,
    Mix 6 1 46,
    Mix 12 15 19,
    Mix 14 13 42,
    Mix 8 11 44,
    Mix 10 9 25,
    Mix 0 15 9,
    Mix 2 11 48,
    Mix 6 13 35,
    Mix 4 9 52,
    Mix 14 1 23,
    Mix 8 5 31,
    Mix 10 3 37,
    Mix 12 7 20,
    Mix5 0 1 24 k10 k11,
    Mix5 2 3 13 k12 k13,
    Mix5 4 5 8 k14 k15,
    Mix5 6 7 47 k16 k0,
    Mix5 8 9 8 k1 k2,
    Mix5 10 11 17 k3 k4,
    Mix5 12 13 22 k5 (k6 + t1),
    Mix5 14 15 37 (k7 + t2) (k8 + 10),
    Mix 0 9 38,
    Mix 2 13 19,
    Mix 6 11 10,
    Mix 4 15 55,
    Mix 10 7 49,
    Mix 12 3 18,
    Mix 14 5 23,
    Mix 8 1 52,
    Mix 0 7 33,
    Mix 2 5 4,
    Mix 4 3 51,
    Mix 6 1 13,
    Mix 12 15 34,
    Mix 14 13 41,
    Mix 8 11 59,
    Mix 10 9 17,
    Mix 0 15 5,
    Mix 2 11 20,
    Mix 6 13 48,
    Mix 4 9 41,
    Mix 14 1 47,
    Mix 8 5 28,
    Mix 10 3 16,
    Mix 12 7 25,
    Mix5 0 1 41 k11 k12,
    Mix5 2 3 9 k13 k14,
    Mix5 4 5 37 k15 k16,
    Mix5 6 7 31 k0 k1,
    Mix5 8 9 12 k2 k3,
    Mix5 10 11 47 k4 k5,
    Mix5 12 13 44 k6 (k7 + t2),
    Mix5 14 15 30 (k8 + t0) (k9 + 11),
    Mix 0 9 16,
    Mix 2 13 34,
    Mix 6 11 56,
    Mix 4 15 51,
    Mix 10 7 4,
    Mix 12 3 53,
    Mix 14 5 42,
    Mix 8 1 41,
    Mix 0 7 31,
    Mix 2 5 44,
    Mix 4 3 47,
    Mix 6 1 46,
    Mix 12 15 19,
    Mix 14 13 42,
    Mix 8 11 44,
    Mix 10 9 25,
    Mix 0 15 9,
    Mix 2 11 48,
    Mix 6 13 35,
    Mix 4 9 52,
    Mix 14 1 23,
    Mix 8 5 31,
    Mix 10 3 37,
    Mix 12 7 20,
    Mix5 0 1 24 k12 k13,
    Mix5 2 3 13 k14 k15,
    Mix5 4 5 8 k16 k0,
    Mix5 6 7 47 k1 k2,
    Mix5 8 9 8 k3 k4,
    Mix5 10 11 17 k5 k6,
    Mix5 12 13 22 k7 (k8 + t0),
    Mix5 14 15 37 (k9 + t1) (k10 + 12),
    Mix 0 9 38,
    Mix 2 13 19,
    Mix 6 11 10,
    Mix 4 15 55,
    Mix 10 7 49,
    Mix 12 3 18,
    Mix 14 5 23,
    Mix 8 1 52,
    Mix 0 7 33,
    Mix 2 5 4,
    Mix 4 3 51,
    Mix 6 1 13,
    Mix 12 15 34,
    Mix 14 13 41,
    Mix 8 11 59,
    Mix 10 9 17,
    Mix 0 15 5,
    Mix 2 11 20,
    Mix 6 13 48,
    Mix 4 9 41,
    Mix 14 1 47,
    Mix 8 5 28,
    Mix 10 3 16,
    Mix 12 7 25,
    Mix5 0 1 41 k13 k14,
    Mix5 2 3 9 k15 k16,
    Mix5 4 5 37 k0 k1,
    Mix5 6 7 31 k2 k3,
    Mix5 8 9 12 k4 k5,
    Mix5 10 11 47 k6 k7,
    Mix5 12 13 44 k8 (k9 + t1),
    Mix5 14 15 30 (k10 + t2) (k11 + 13),
    Mix 0 9 16,
    Mix 2 13 34,
    Mix 6 11 56,
    Mix 4 15 51,
    Mix 10 7 4,
    Mix 12 3 53,
    Mix 14 5 42,
    Mix 8 1 41,
    Mix 0 7 31,
    Mix 2 5 44,
    Mix 4 3 47,
    Mix 6 1 46,
    Mix 12 15 19,
    Mix 14 13 42,
    Mix 8 11 44,
    Mix 10 9 25,
    Mix 0 15 9,
    Mix 2 11 48,
    Mix 6 13 35,
    Mix 4 9 52,
    Mix 14 1 23,
    Mix 8 5 31,
    Mix 10 3 37,
    Mix 12 7 20,
    Mix5 0 1 24 k14 k15,
    Mix5 2 3 13 k16 k0,
    Mix5 4 5 8 k1 k2,
    Mix5 6 7 47 k3 k4,
    Mix5 8 9 8 k5 k6,
    Mix5 10 11 17 k7 k8,
    Mix5 12 13 22 k9 (k10 + t2),
    Mix5 14 15 37 (k11 + t0) (k12 + 14),
    Mix 0 9 38,
    Mix 2 13 19,
    Mix 6 11 10,
    Mix 4 15 55,
    Mix 10 7 49,
    Mix 12 3 18,
    Mix 14 5 23,
    Mix 8 1 52,
    Mix 0 7 33,
    Mix 2 5 4,
    Mix 4 3 51,
    Mix 6 1 13,
    Mix 12 15 34,
    Mix 14 13 41,
    Mix 8 11 59,
    Mix 10 9 17,
    Mix 0 15 5,
    Mix 2 11 20,
    Mix 6 13 48,
    Mix 4 9 41,
    Mix 14 1 47,
    Mix 8 5 28,
    Mix 10 3 16,
    Mix 12 7 25,
    Mix5 0 1 41 k15 k16,
    Mix5 2 3 9 k0 k1,
    Mix5 4 5 37 k2 k3,
    Mix5 6 7 31 k4 k5,
    Mix5 8 9 12 k6 k7,
    Mix5 10 11 47 k8 k9,
    Mix5 12 13 44 k10 (k11 + t0),
    Mix5 14 15 30 (k12 + t1) (k13 + 15),
    Mix 0 9 16,
    Mix 2 13 34,
    Mix 6 11 56,
    Mix 4 15 51,
    Mix 10 7 4,
    Mix 12 3 53,
    Mix 14 5 42,
    Mix 8 1 41,
    Mix 0 7 31,
    Mix 2 5 44,
    Mix 4 3 47,
    Mix 6 1 46,
    Mix 12 15 19,
    Mix 14 13 42,
    Mix 8 11 44,
    Mix 10 9 25,
    Mix 0 15 9,
    Mix 2 11 48,
    Mix 6 13 35,
    Mix 4 9 52,
    Mix 14 1 23,
    Mix 8 5 31,
    Mix 10 3 37,
    Mix 12 7 20,
    Mix5 0 1 24 k16 k0,
    Mix5 2 3 13 k1 k2,
    Mix5 4 5 8 k3 k4,
    Mix5 6 7 47 k5 k6,
    Mix5 8 9 8 k7 k8,
    Mix5 10 11 17 k9 k10,
    Mix5 12 13 22 k11 (k12 + t1),
    Mix5 14 15 37 (k13 + t2) (k14 + 16),
    Mix 0 9 38,
    Mix 2 13 19,
    Mix 6 11 10,
    Mix 4 15 55,
    Mix 10 7 49,
    Mix 12 3 18,
    Mix 14 5 23,
    Mix 8 1 52,
    Mix 0 7 33,
    Mix 2 5 4,
    Mix 4 3 51,
    Mix 6 1 13,
    Mix 12 15 34,
    Mix 14 13 41,
    Mix 8 11 59,
    Mix 10 9 17,
    Mix 0 15 5,
    Mix 2 11 20,
    Mix 6 13 48,
    Mix 4 9 41,
    Mix 14 1 47,
    Mix 8 5 28,
    Mix 10 3 16,
    Mix 12 7 25,
    Mix5 0 1 41 k0 k1,
    Mix5 2 3 9 k2 k3,
    Mix5 4 5 37 k4 k5,
    Mix5 6 7 31 k6 k7,
    Mix5 8 9 12 k8 k9,
    Mix5 10 11 47 k10 k11,
    Mix5 12 13 44 k12 (k13 + t2),
    Mix5 14 15 30 (k14 + t0) (k15 + 17),
    Mix 0 9 16,
    Mix 2 13 34,
    Mix 6 11 56,
    Mix 4 15 51,
    Mix 10 7 4,
    Mix 12 3 53,
    Mix 14 5 42,
    Mix 8 1 41,
    Mix 0 7 31,
    Mix 2 5 44,
    Mix 4 3 47,
    Mix 6 1 46,
    Mix 12 15 19,
    Mix 14 13 42,
    Mix 8 11 44,
    Mix 10 9 25,
    Mix 0 15 9,
    Mix 2 11 48,
    Mix 6 13 35,
    Mix 4 9 52,
    Mix 14 1 23,
    Mix 8 5 31,
    Mix 10 3 37,
    Mix 12 7 20,
    Mix5 0 1 24 k1 k2,
    Mix5 2 3 13 k3 k4,
    Mix5 4 5 8 k5 k6,
    Mix5 6 7 47 k7 k8,
    Mix5 8 9 8 k9 k10,
    Mix5 10 11 17 k11 k12,
    Mix5 12 13 22 k13 (k14 + t0),
    Mix5 14 15 37 (k15 + t1) (k16 + 18),
    Mix 0 9 38,
    Mix 2 13 19,
    Mix 6 11 10,
    Mix 4 15 55,
    Mix 10 7 49,
    Mix 12 3 18,
    Mix 14 5 23,
    Mix 8 1 52,
    Mix 0 7 33,
    Mix 2 5 4,
    Mix 4 3 51,
    Mix 6 1 13,
    Mix 12 15 34,
    Mix 14 13 41,
    Mix 8 11 59,
    Mix 10 9 17,
    Mix 0 15 5,
    Mix 2 11 20,
    Mix 6 13 48,
    Mix 4 9 41,
    Mix 14 1 47,
    Mix 8 5 28,
    Mix 10 3 16,
    Mix 12 7 25,
    Mix5 0 1 41 k2 k3,
    Mix5 2 3 9 k4 k5,
    Mix5 4 5 37 k6 k7,
    Mix5 6 7 31 k8 k9,
    Mix5 8 9 12 k10 k11,
    Mix5 10 11 47 k12 k13,
    Mix5 12 13 44 k14 (k15 + t1),
    Mix5 14 15 30 (k16 + t2) (k0 + 19),
    Mix 0 9 16,
    Mix 2 13 34,
    Mix 6 11 56,
    Mix 4 15 51,
    Mix 10 7 4,
    Mix 12 3 53,
    Mix 14 5 42,
    Mix 8 1 41,
    Mix 0 7 31,
    Mix 2 5 44,
    Mix 4 3 47,
    Mix 6 1 46,
    Mix 12 15 19,
    Mix 14 13 42,
    Mix 8 11 44,
    Mix 10 9 25,
    Mix 0 15 9,
    Mix 2 11 48,
    Mix 6 13 35,
    Mix 4 9 52,
    Mix 14 1 23,
    Mix 8 5 31,
    Mix 10 3 37,
    Mix 12 7 20
  ]"

text \<open>
  \<open>func (tf *threefish1024) encrypt(input, output []uint64)\<close>: reading \<open>input[15]\<close> or writing \<open>output[15]\<close> out of range panics.
\<close>

definition encrypt1024 :: "threefish \<Rightarrow> uint64 list \<Rightarrow> uint64 list \<Rightarrow> error + uint64 list" where
  "encrypt1024 tf input output =
     (if length input < 16 then Inl IndexOutOfRange
      else
        let b = [input ! 0, input ! 1, input ! 2, input ! 3, input ! 4, input ! 5, input ! 6,
                 input ! 7, input ! 8, input ! 9, input ! 10, input ! 11, input ! 12,
                 input ! 13, input ! 14, input ! 15];
            k0 = expanedKey tf ! 0; k1 = expanedKey tf ! 1; k2 = expanedKey tf ! 2; k3 = expanedKey tf ! 3;
            k4 = expanedKey tf ! 4; k5 = expanedKey tf ! 5; k6 = expanedKey tf ! 6; k7 = expanedKey tf ! 7;
            k8 = expanedKey tf ! 8; k9 = expanedKey tf ! 9; k10 = expanedKey tf ! 10; k11 = expanedKey tf ! 11;
            k12 = expanedKey tf ! 12; k13 = expanedKey tf ! 13; k14 = expanedKey tf ! 14; k15 = expanedKey tf ! 15;
            k16 = expanedKey tf ! 16;
            t0 = expanedTweak tf ! 0; t1 = expanedTweak tf ! 1; t2 = expanedTweak tf ! 2;
            b = exec (encrypt1024_rounds k0 k1 k2 k3 k4 k5 k6 k7 k8 k9 k10 k11 k12 k13 k14 k15 k16 t0 t1 t2) b
        in if length output < 16 then Inl IndexOutOfRange
           else Inr (output[0 := b ! 0 + k3, 1 := b ! 1 + k4, 2 := b ! 2 + k5, 3 := b ! 3 + k6,
                  4 := b ! 4 + k7, 5 := b ! 5 + k8, 6 := b ! 6 + k9, 7 := b ! 7 + k10,
                  8 := b ! 8 + k11, 9 := b ! 9 + k12, 10 := b ! 10 + k13, 11 := b ! 11 + k14,
                  12 := b ! 12 + k15, 13 := b ! 13 + k16 + t2, 14 := b ! 14 + k0 + t0,
                  15 := b ! 15 + k1 + 20]))"

text \<open>
  The statements of \<open>threefish1024.decrypt\<close> between the loads of the block, key and tweak and the
  stores to \<open>output\<close> (lines 2085 to 2740 of \<open>threefish.go\<close>), one statement per line.
\<close>

definition decrypt1024_rounds ::
  "uint64 \<Rightarrow> uint64 \<Rightarrow> uint64 \<Rightarrow> uint64 \<Rightarrow> uint64 \<Rightarrow> uint64 \<Rightarrow> uint64 \<Rightarrow> uint64
    \<Rightarrow> uint64 \<Rightarrow> uint64 \<Rightarrow> uint64 \<Rightarrow> uint64 \<Rightarrow> uint64 \<Rightarrow> uint64 \<Rightarrow> uint64 \<Rightarrow> uint64
    \<Rightarrow> uint64 \<Rightarrow> uint64 \<Rightarrow> uint64 \<Rightarrow> uint64
    \<Rightarrow> (uint64 list \<Rightarrow> uint64 list) list" where
  "decrypt1024_rounds k0 k1 k2 k3 k4 k5 k6 k7 k8 k9 k10 k11 k12 k13 k14 k15 k16 t0 t1 t2 = [
    Sub 0 k3,
    Sub 1 k4,
    Sub 2 k5,
    Sub 3 k6,
    Sub 4 k7,
    Sub 5 k8,
    Sub 6 k9,
    Sub 7 k10,
    Sub 8 k11,
    Sub 9 k12,
    Sub 10 k13,
    Sub 11 k14,
    Sub 12 k15,
    Sub 13 (k16 + t2),
    Sub 14 (k0 + t0),
    Sub 15 (k1 + 20),
    UnMix 12 7 20,
    UnMix 10 3 37,
    UnMix 8 5 31,
    UnMix 14 1 23,
    UnMix 4 9 52,
    UnMix 6 13 35,
    UnMix 2 11 48,
    UnMix 0 15 9,
    UnMix 10 9 25,
    UnMix 8 11 44,
    UnMix 14 13 42,
    UnMix 12 15 19,
    UnMix 6 1 46,
    UnMix 4 3 47,
    UnMix 2 5 44,
    UnMix 0 7 31,
    UnMix 8 1 41,
    UnMix 14 5 42,
    UnMix 12 3 53,
    UnMix 10 7 4,
    UnMix 4 15 51,
    UnMix 6 11 56,
    UnMix 2 13 34,
    UnMix 0 9 16,
    UnMix5 14 15 30 (k16 + t2) (k0 + 19),
    UnMix5 12 13 44 k14 (k15 + t1),
    UnMix5 10 11 47 k12 k13,
    UnMix5 8 9 12 k10 k11,
    UnMix5 6 7 31 k8 k9,
    UnMix5 4 5 37 k6 k7,
    UnMix5 2 3 9 k4 k5,
    UnMix5 0 1 41 k2 k3,
    UnMix 12 7 25,
    UnMix 10 3 16,
    UnMix 8 5 28,
    UnMix 14 1 47,
    UnMix 4 9 41,
    UnMix 6 13 48,
    UnMix 2 11 20,
    UnMix 0 15 5,
    UnMix 10 9 17,
    UnMix 8 11 59,
    UnMix 14 13 41,
    UnMix 12 15 34,
    UnMix 6 1 13,
    UnMix 4 3 51,
    UnMix 2 5 4,
    UnMix 0 7 33,
    UnMix 8 1 52,
    UnMix 14 5 23,
    UnMix 12 3 18,
    UnMix 10 7 49,
    UnMix 4 15 55,
    UnMix 6 11 10,
    UnMix 2 13 19,
    UnMix 0 9 38,
    UnMix5 14 15 37 (k15 + t1) (k16 + 18),
    UnMix5 12 13 22 k13 (k14 + t0),
    UnMix5 10 11 17 k11 k12,
    UnMix5 8 9 8 k9 k10,
    UnMix5 6 7 47 k7 k8,
    UnMix5 4 5 8 k5 k6,
    UnMix5 2 3 13 k3 k4,
    UnMix5 0 1 24 k1 k2,
    UnMix 12 7 20,
    UnMix 10 3 37,
    UnMix 8 5 31,
    UnMix 14 1 23,
    UnMix 4 9 52,
    UnMix 6 13 35,
    UnMix 2 11 48,
    UnMix 0 15 9,
    UnMix 10 9 25,
    UnMix 8 11 44,
    UnMix 14 13 42,
    UnMix 12 15 19,
    UnMix 6 1 46,
    UnMix 4 3 47,
    UnMix 2 5 44,
    UnMix 0 7 31,
    UnMix 8 1 41,
    UnMix 14 5 42,
    UnMix 12 3 53,
    UnMix 10 7 4,
    UnMix 4 15 51,
    UnMix 6 11 56,
    UnMix 2 13 34,
    UnMix 0 9 16,
    UnMix5 14 15 30 (k14 + t0) (k15 + 17),
    UnMix5 12 13 44 k12 (k13 + t2),
    UnMix5 10 11 47 k10 k11,
    UnMix5 8 9 12 k8 k9,
    UnMix5 6 7 31 k6 k7,
    UnMix5 4 5 37 k4 k5,
    UnMix5 2 3 9 k2 k3,
    UnMix5 0 1 41 k0 k1,
    UnMix 12 7 25,
    UnMix 10 3 16,
    UnMix 8 5 28,
    UnMix 14 1 47,
    UnMix 4 9 41,
    UnMix 6 13 48,
    UnMix 2 11 20,
    UnMix 0 15 5,
    UnMix 10 9 17,
    UnMix 8 11 59,
    UnMix 14 13 41,
    UnMix 12 15 34,
    UnMix 6 1 13,
    UnMix 4 3 51,
    UnMix 2 5 4,
    UnMix 0 7 33,
    UnMix 8 1 52,
    UnMix 14 5 23,
    UnMix 12 3 18,
    UnMix 10 7 49,
    UnMix 4 15 55,
    UnMix 6 11 10,
    UnMix 2 13 19,
    UnMix 0 9 38,
    UnMix5 14 15 37 (k13 + t2) (k14 + 16),
    UnMix5 12 13 22 k11 (k12 + t1),
    UnMix5 10 11 17 k9 k10,
    UnMix5 8 9 8 k7 k8,
    UnMix5 6 7 47 k5 k6,
    UnMix5 4 5 8 k3 k4,
    UnMix5 2 3 13 k1 k2,
    UnMix5 0 1 24 k16 k0,
    UnMix 12 7 20,
    UnMix 10 3 37,
    UnMix 8 5 31,
    UnMix 14 1 23,
    UnMix 4 9 52,
    UnMix 6 13 35,
    UnMix 2 11 48,
    UnMix 0 15 9,
    UnMix 10 9 25,
    UnMix 8 11 44,
    UnMix 14 13 42,
    UnMix 12 15 19,
    UnMix 6 1 46,
    UnMix 4 3 47,
    UnMix 2 5 44,
    UnMix 0 7 31,
    UnMix 8 1 41,
    UnMix 14 5 42,
    UnMix 12 3 53,
    UnMix 10 7 4,
    UnMix 4 15 51,
    UnMix 6 11 56,
    UnMix 2 13 34,
    UnMix 0 9 16,
    UnMix5 14 15 30 (k12 + t1) (k13 + 15),
    UnMix5 12 13 44 k10 (k11 + t0),
    UnMix5 10 11 47 k8 k9,
    UnMix5 8 9 12 k6 k7,
    UnMix5 6 7 31 k4 k5,
    UnMix5 4 5 37 k2 k3,
    UnMix5 2 3 9 k0 k1,
    UnMix5 0 1 41 k15 k16,
    UnMix 12 7 25,
    UnMix 10 3 16,
    UnMix 8 5 28,
    UnMix 14 1 47,
    UnMix 4 9 41,
    UnMix 6 13 48,
    UnMix 2 11 20,
    UnMix 0 15 5,
    UnMix 10 9 17,
    UnMix 8 11 59,
    UnMix 14 13 41,
    UnMix 12 15 34,
    UnMix 6 1 13,
    UnMix 4 3 51,
    UnMix 2 5 4,
    UnMix 0 7 33,
    UnMix 8 1 52,
    UnMix 14 5 23,
    UnMix 12 3 18,
    UnMix 10 7 49,
    UnMix 4 15 55,
    UnMix 6 11 10,
    UnMix 2 13 19,
    UnMix 0 9 38,
    UnMix5 14 15 37 (k11 + t0) (k12 + 14),
    UnMix5 12 13 22 k9 (k10 + t2),
    UnMix5 10 11 17 k7 k8,
    UnMix5 8 9 8 k5 k6,
    UnMix5 6 7 47 k3 k4,
    UnMix5 4 5 8 k1 k2,
    UnMix5 2 3 13 k16 k0,
    UnMix5 0 1 24 k14 k15,
    UnMix 12 7 20,
    UnMix 10 3 37,
    UnMix 8 5 31,
    UnMix 14 1 23,
    UnMix 4 9 52,
    UnMix 6 13 35,
    UnMix 2 11 48,
    UnMix 0 15 9,
    UnMix 10 9 25,
    UnMix 8 11 44,
    UnMix 14 13 42,
    UnMix 12 15 19,
    UnMix 6 1 46,
    UnMix 4 3 47,
    UnMix 2 5 44,
    UnMix 0 7 31,
    UnMix 8 1 41,
    UnMix 14 5 42,
    UnMix 12 3 53,
    UnMix 10 7 4,
    UnMix 4 15 51,
    UnMix 6 11 56,
    UnMix 2 13 34,
    UnMix 0 9 16,
    UnMix5 14 15 30 (k10 + t2) (k11 + 13),
    UnMix5 12 13 44 k8 (k9 + t1),
    UnMix5 10 11 47 k6 k7,
    UnMix5 8 9 12 k4 k5,
    UnMix5 6 7 31 k2 k3,
    UnMix5 4 5 37 k0 k1,
    UnMix5 2 3 9 k15 k16,
    UnMix5 0 1 41 k13 k14,
    UnMix 12 7 25,
    UnMix 10 3 16,
    UnMix 8 5 28,
    UnMix 14 1 47,
    UnMix 4 9 41,
    UnMix 6 13 48,
    UnMix 2 11 20,
    UnMix 0 15 5,
    UnMix 10 9 17,
    UnMix 8 11 59,
    UnMix 14 13 41,
    UnMix 12 15 34,
    UnMix 6 1 13,
    UnMix 4 3 51,
    UnMix 2 5 4,
    UnMix 0 7 33,
    UnMix 8 1 52,
    UnMix 14 5 23,
    UnMix 12 3 18,
    UnMix 10 7 49,
    UnMix 4 15 55,
    UnMix 6 11 10,
    UnMix 2 13 19,
    UnMix 0 9 38,
    UnMix5 14 15 37 (k9 + t1) (k10 + 12),
    UnMix5 12 13 22 k7 (k8 + t0),
    UnMix5 10 11 17 k5 k6,
    UnMix5 8 9 8 k3 k4,
    UnMix5 6 7 47 k1 k2,
    UnMix5 4 5 8 k16 k0,
    UnMix5 2 3 13 k14 k15,
    UnMix5 0 1 24 k12 k13,
    UnMix 12 7 20,
    UnMix 10 3 37,
    UnMix 8 5 31,
    UnMix 14 1 23,
    UnMix 4 9 52,
    UnMix 6 13 35,
    UnMix 2 11 48,
    UnMix 0 15 9,
    UnMix 10 9 25,
    UnMix 8 11 44,
    UnMix 14 13 42,
    UnMix 12 15 19,
    UnMix 6 1 46,
    UnMix 4 3 47,
    UnMix 2 5 44,
    UnMix 0 7 31,
    UnMix 8 1 41,
    UnMix 14 5 42,
    UnMix 12 3 53,
    UnMix 10 7 4,
    UnMix 4 15 51,
    UnMix 6 11 56,
    UnMix 2 13 34,
    UnMix 0 9 16,
    UnMix5 14 15 30 (k8 + t0) (k9 + 11),
    UnMix5 12 13 44 k6 (k7 + t2),
    UnMix5 10 11 47 k4 k5,
    UnMix5 8 9 12 k2 k3,
    UnMix5 6 7 31 k0 k1,
    UnMix5 4 5 37 k15 k16,
    UnMix5 2 3 9 k13 k14,
    UnMix5 0 1 41 k11 k12,
    UnMix 12 7 25,
    UnMix 10 3 16,
    UnMix 8 5 28,
    UnMix 14 1 47,
    UnMix 4 9 41,
    UnMix 6 13 48,
    UnMix 2 11 20,
    UnMix 0 15 5,
    UnMix 10 9 17,
    UnMix 8 11 59,
    UnMix 14 13 41,
    UnMix 12 15 34,
    UnMix 6 1 13,
    UnMix 4 3 51,
    UnMix 2 5 4,
    UnMix 0 7 33,
    UnMix 8 1 52,
    UnMix 14 5 23,
    UnMix 12 3 18,
    UnMix 10 7 49,
    UnMix 4 15 55,
    UnMix 6 11 10,
    UnMix 2 13 19,
    UnMix 0 9 38,
    UnMix5 14 15 37 (k7 + t2) (k8 + 10),
    UnMix5 12 13 22 k5 (k6 + t1),
    UnMix5 10 11 17 k3 k4,
    UnMix5 8 9 8 k1 k2,
    UnMix5 6 7 47 k16 k0,
    UnMix5 4 5 8 k14 k15,
    UnMix5 2 3 13 k12 k13,
    UnMix5 0 1 24 k10 k11,
    UnMix 12 7 20,
    UnMix 10 3 37,
    UnMix 8 5 31,
    UnMix 14 1 23,
    UnMix 4 9 52,
    UnMix 6 13 35,
    UnMix 2 11 48,
    UnMix 0 15 9,
    UnMix 10 9 25,
    UnMix 8 11 44,
    UnMix 14 13 42,
    UnMix 12 15 19,
    UnMix 6 1 46,
    UnMix 4 3 47,
    UnMix 2 5 44,
    UnMix 0 7 31,
    UnMix 8 1 41,
    UnMix 14 5 42,
    UnMix 12 3 53,
    UnMix 10 7 4,
    UnMix 4 15 51,
    UnMix 6 11 56,
    UnMix 2 13 34,
    UnMix 0 9 16,
    UnMix5 14 15 30 (k6 + t1) (k7 + 9),
    UnMix5 12 13 44 k4 (k5 + t0),
    UnMix5 10 11 47 k2 k3,
    UnMix5 8 9 12 k0 k1,
    UnMix5 6 7 31 k15 k16,
    UnMix5 4 5 37 k13 k14,
    UnMix5 2 3 9 k11 k12,
    UnMix5 0 1 41 k9 k10,
    UnMix 12 7 25,
    UnMix 10 3 16,
    UnMix 8 5 28,
    UnMix 14 1 47,
    UnMix 4 9 41,
    UnMix 6 13 48,
    UnMix 2 11 20,
    UnMix 0 15 5,
    UnMix 10 9 17,
    UnMix 8 11 59,
    UnMix 14 13 41,
    UnMix 12 15 34,
    UnMix 6 1 13,
    UnMix 4 3 51,
    UnMix 2 5 4,
    UnMix 0 7 33,
    UnMix 8 1 52,
    UnMix 14 5 23,
    UnMix 12 3 18,
    UnMix 10 7 49,
    UnMix 4 15 55,
    UnMix 6 11 10,
    UnMix 2 13 19,
    UnMix 0 9 38,
    UnMix5 14 15 37 (k5 + t0) (k6 + 8),
    UnMix5 12 13 22 k3 (k4 + t2),
    UnMix5 10 11 17 k1 k2,
    UnMix5 8 9 8 k16 k0,
    UnMix5 6 7 47 k14 k15,
    UnMix5 4 5 8 k12 k13,
    UnMix5 2 3 13 k10 k11,
    UnMix5 0 1 24 k8 k9,
    UnMix 12 7 20,
    UnMix 10 3 37,
    UnMix 8 5 31,
    UnMix 14 1 23,
    UnMix 4 9 52,
    UnMix 6 13 35,
    UnMix 2 11 48,
    UnMix 0 15 9,
    UnMix 10 9 25,
    UnMix 8 11 44,
    UnMix 14 13 42,
    UnMix 12 15 19,
    UnMix 6 1 46,
    UnMix 4 3 47,
    UnMix 2 5 44,
    UnMix 0 7 31,
    UnMix 8 1 41,
    UnMix 14 5 42,
    UnMix 12 3 53,
    UnMix 10 7 4,
    UnMix 4 15 51,
    UnMix 6 11 56,
    UnMix 2 13 34,
    UnMix 0 9 16,
    UnMix5 14 15 30 (k4 + t2) (k5 + 7),
    UnMix5 12 13 44 k2 (k3 + t1),
    UnMix5 10 11 47 k0 k1,
    UnMix5 8 9 12 k15 k16,
    UnMix5 6 7 31 k13 k14,
    UnMix5 4 5 37 k11 k12,
    UnMix5 2 3 9 k9 k10,
    UnMix5 0 1 41 k7 k8,
    UnMix 12 7 25,
    UnMix 10 3 16,
    UnMix 8 5 28,
    UnMix 14 1 47,
    UnMix 4 9 41,
    UnMix 6 13 48,
    UnMix 2 11 20,
    UnMix 0 15 5,
    UnMix 10 9 17,
    UnMix 8 11 59,
    UnMix 14 13 41,
    UnMix 12 15 34,
    UnMix 6 1 13,
    UnMix 4 3 51,
    UnMix 2 5 4,
    UnMix 0 7 33,
    UnMix 8 1 52,
    UnMix 14 5 23,
    UnMix 12 3 18,
    UnMix 10 7 49,
    UnMix 4 15 55,
    UnMix 6 11 10,
    UnMix 2 13 19,
    UnMix 0 9 38,
    UnMix5 14 15 37 (k3 + t1) (k4 + 6),
    UnMix5 12 13 22 k1 (k2 + t0),
    UnMix5 10 11 17 k16 k0,
    UnMix5 8 9 8 k14 k15,
    UnMix5 6 7 47 k12 k13,
    UnMix5 4 5 8 k10 k11,
    UnMix5 2 3 13 k8 k9,
    UnMix5 0 1 24 k6 k7,
    UnMix 12 7 20,
    UnMix 10 3 37,
    UnMix 8 5 31,
    UnMix 14 1 23,
    UnMix 4 9 52,
    UnMix 6 13 35,
    UnMix 2 11 48,
    UnMix 0 15 9,
    UnMix 10 9 25,
    UnMix 8 11 44,
    UnMix 14 13 42,
    UnMix 12 15 19,
    UnMix 6 1 46,
    UnMix 4 3 47,
    UnMix 2 5 44,
    UnMix 0 7 31,
    UnMix 8 1 41,
    UnMix 14 5 42,
    UnMix 12 3 53,
    UnMix 10 7 4,
    UnMix 4 15 51,
    UnMix 6 11 56,
    UnMix 2 13 34,
    UnMix 0 9 16,
    UnMix5 14 15 30 (k2 + t0) (k3 + 5),
    UnMix5 12 13 44 k0 (k1 + t2),
    UnMix5 10 11 47 k15 k16,
    UnMix5 8 9 12 k13 k14,
    UnMix5 6 7 31 k11 k12,
    UnMix5 4 5 37 k9 k10,
    UnMix5 2 3 9 k7 k8,
    UnMix5 0 1 41 k5 k6,
    UnMix 12 7 25,
    UnMix 10 3 16,
    UnMix 8 5 28,
    UnMix 14 1 47,
    UnMix 4 9 41,
    UnMix 6 13 48,
    UnMix 2 11 20,
    UnMix 0 15 5,
    UnMix 10 9 17,
    UnMix 8 11 59,
    UnMix 14 13 41,
    UnMix 12 15 34,
    UnMix 6 1 13,
    UnMix 4 3 51,
    UnMix 2 5 4,
    UnMix 0 7 33,
    UnMix 8 1 52,
    UnMix 14 5 23,
    UnMix 12 3 18,
    UnMix 10 7 49,
    UnMix 4 15 55,
    UnMix 6 11 10,
    UnMix 2 13 19,
    UnMix 0 9 38,
    UnMix5 14 15 37 (k1 + t2) (k2 + 4),
    UnMix5 12 13 22 k16 (k0 + t1),
    UnMix5 10 11 17 k14 k15,
    UnMix5 8 9 8 k12 k13,
    UnMix5 6 7 47 k10 k11,
    UnMix5 4 5 8 k8 k9,
    UnMix5 2 3 13 k6 k7,
    UnMix5 0 1 24 k4 k5,
    UnMix 12 7 20,
    UnMix 10 3 37,
    UnMix 8 5 31,
    UnMix 14 1 23,
    UnMix 4 9 52,
    UnMix 6 13 35,
    UnMix 2 11 48,
    UnMix 0 15 9,
    UnMix 10 9 25,
    UnMix 8 11 44,
    UnMix 14 13 42,
    UnMix 12 15 19,
    UnMix 6 1 46,
    UnMix 4 3 47,
    UnMix 2 5 44,
    UnMix 0 7 31,
    UnMix 8 1 41,
    UnMix 14 5 42,
    UnMix 12 3 53,
    UnMix 10 7 4,
    UnMix 4 15 51,
    UnMix 6 11 56,
    UnMix 2 13 34,
    UnMix 0 9 16,
    UnMix5 14 15 30 (k0 + t1) (k1 + 3),
    UnMix5 12 13 44 k15 (k16 + t0),
    UnMix5 10 11 47 k13 k14,
    UnMix5 8 9 12 k11 k12,
    UnMix5 6 7 31 k9 k10,
    UnMix5 4 5 37 k7 k8,
    UnMix5 2 3 9 k5 k6,
    UnMix5 0 1 41 k3 k4,
    UnMix 12 7 25,
    UnMix 10 3 16,
    UnMix 8 5 28,
    UnMix 14 1 47,
    UnMix 4 9 41,
    UnMix 6 13 48,
    UnMix 2 11 20,
    UnMix 0 15 5,
    UnMix 10 9 17,
    UnMix 8 11 59,
    UnMix 14 13 41,
    UnMix 12 15 34,
    UnMix 6 1 13,
    UnMix 4 3 51,
    UnMix 2 5 4,
    UnMix 0 7 33,
    UnMix 8 1 52,
    UnMix 14 5 23,
    UnMix 12 3 18,
    UnMix 10 7 49,
    UnMix 4 15 55,
    UnMix 6 11 10,
    UnMix 2 13 19,
    UnMix 0 9 38,
    UnMix5 14 15 37 (k16 + t0) (k0 + 2),
    UnMix5 12 13 22 k14 (k15 + t2),
    UnMix5 10 11 17 k12 k13,
    UnMix5 8 9 8 k10 k11,
    UnMix5 6 7 47 k8 k9,
    UnMix5 4 5 8 k6 k7,
    UnMix5 2 3 13 k4 k5,
    UnMix5 0 1 24 k2 k3,
    UnMix 12 7 20,
    UnMix 10 3 37,
    UnMix 8 5 31,
    UnMix 14 1 23,
    UnMix 4 9 52,
    UnMix 6 13 35,
    UnMix 2 11 48,
    UnMix 0 15 9,
    UnMix 10 9 25,
    UnMix 8 11 44,
    UnMix 14 13 42,
    UnMix 12 15 19,
    UnMix 6 1 46,
    UnMix 4 3 47,
    UnMix 2 5 44,
    UnMix 0 7 31,
    UnMix 8 1 41,
    UnMix 14 5 42,
    UnMix 12 3 53,
    UnMix 10 7 4,
    UnMix 4 15 51,
    UnMix 6 11 56,
    UnMix 2 13 34,
    UnMix 0 9 16,
    UnMix5 14 15 30 (k15 + t2) (k16 + 1),
    UnMix5 12 13 44 k13 (k14 + t1),
    UnMix5 10 11 47 k11 k12,
    UnMix5 8 9 12 k9 k10,
    UnMix5 6 7 31 k7 k8,
    UnMix5 4 5 37 k5 k6,
    UnMix5 2 3 9 k3 k4,
    UnMix5 0 1 41 k1 k2,
    UnMix 12 7 25,
    UnMix 10 3 16,
    UnMix 8 5 28,
    UnMix 14 1 47,
    UnMix 4 9 41,
    UnMix 6 13 48,
    UnMix 2 11 20,
    UnMix 0 15 5,
    UnMix 10 9 17,
    UnMix 8 11 59,
    UnMix 14 13 41,
    UnMix 12 15 34,
    UnMix 6 1 13,
    UnMix 4 3 51,
    UnMix 2 5 4,
    UnMix 0 7 33,
    UnMix 8 1 52,
    UnMix 14 5 23,
    UnMix 12 3 18,
    UnMix 10 7 49,
    UnMix 4 15 55,
    UnMix 6 11 10,
    UnMix 2 13 19,
    UnMix 0 9 38,
    UnMix5 14 15 37 (k14 + t1) k15,
    UnMix5 12 13 22 k12 (k13 + t0),
    UnMix5 10 11 17 k10 k11,
    UnMix5 8 9 8 k8 k9,
    UnMix5 6 7 47 k6 k7,
    UnMix5 4 5 8 k4 k5,
    UnMix5 2 3 13 k2 k3,
    UnMix5 0 1 24 k0 k1
  ]"

text \<open>
  \<open>func (tf *threefish1024) decrypt(input, output []uint64)\<close>: reading \<open>input[15]\<close> or writing \<open>output[15]\<close> out of range panics.
\<close>

definition decrypt1024 :: "threefish \<Rightarrow> uint64 list \<Rightarrow> uint64 list \<Rightarrow> error + uint64 list" where
  "decrypt1024 tf input output =
     (if length input < 16 then Inl IndexOutOfRange
      else
        let b = [input ! 0, input ! 1, input ! 2, input ! 3, input ! 4, input ! 5, input ! 6,
                 input ! 7, input ! 8, input ! 9, input ! 10, input ! 11, input ! 12,
                 input ! 13, input ! 14, input ! 15];
            k0 = expanedKey tf ! 0; k1 = expanedKey tf ! 1; k2 = expanedKey tf ! 2; k3 = expanedKey tf ! 3;
            k4 = expanedKey tf ! 4; k5 = expanedKey tf ! 5; k6 = expanedKey tf ! 6; k7 = expanedKey tf ! 7;
            k8 = expanedKey tf ! 8; k9 = expanedKey tf ! 9; k10 = expanedKey tf ! 10; k11 = expanedKey tf ! 11;
            k12 = expanedKey tf ! 12; k13 = expanedKey tf ! 13; k14 = expanedKey tf ! 14; k15 = expanedKey tf ! 15;
            k16 = expanedKey tf ! 16;
            t0 = expanedTweak tf ! 0; t1 = expanedTweak tf ! 1; t2 = expanedTweak tf ! 2;
            b = exec (decrypt1024_rounds k0 k1 k2 k3 k4 k5 k6 k7 k8 k9 k10 k11 k12 k13 k14 k15 k16 t0 t1 t2) b
        in if length output < 16 then Inl IndexOutOfRange
           else Inr (output[15 := b ! 15, 14 := b ! 14, 13 := b ! 13, 12 := b ! 12, 11 := b ! 11,
                  10 := b ! 10, 9 := b ! 9, 8 := b ! 8, 7 := b ! 7, 6 := b ! 6, 5 := b ! 5,
                  4 := b ! 4, 3 := b ! 3, 2 := b ! 2, 1 := b ! 1, 0 := b ! 0]))"

subsection \<open>The interface \<open>cipherInternal\<close>\<close>

fun internal_encrypt :: "cipherInternal \<Rightarrow> uint64 list \<Rightarrow> uint64 list \<Rightarrow> error + uint64 list" where
  "internal_encrypt (Threefish256 tf) input output = encrypt256 tf input output"
| "internal_encrypt (Threefish512 tf) input output = encrypt512 tf input output"
| "internal_encrypt (Threefish1024 tf) input output = encrypt1024 tf input output"

fun internal_decrypt :: "cipherInternal \<Rightarrow> uint64 list \<Rightarrow> uint64 list \<Rightarrow> error + uint64 list" where
  "internal_decrypt (Threefish256 tf) input output = decrypt256 tf input output"
| "internal_decrypt (Threefish512 tf) input output = decrypt512 tf input output"
| "internal_decrypt (Threefish1024 tf) input output = decrypt1024 tf input output"

fun internal_getTempData :: "cipherInternal \<Rightarrow> uint64 list \<times> uint64 list" where
  "internal_getTempData (Threefish256 tf) = threefish_getTempData tf"
| "internal_getTempData (Threefish512 tf) = threefish_getTempData tf"
| "internal_getTempData (Threefish1024 tf) = threefish_getTempData tf"

fun internal_setTweak :: "cipherInternal \<Rightarrow> uint64 list option \<Rightarrow> error + cipherInternal" where
  "internal_setTweak (Threefish256 tf) tweak = map_sum id Threefish256 (threefish_setTweak tf tweak)"
| "internal_setTweak (Threefish512 tf) tweak = map_sum id Threefish512 (threefish_setTweak tf tweak)"
| "internal_setTweak (Threefish1024 tf) tweak = map_sum id Threefish1024 (threefish_setTweak tf tweak)"

fun internal_setKey :: "cipherInternal \<Rightarrow> uint64 list \<Rightarrow> error + cipherInternal" where
  "internal_setKey (Threefish256 tf) key = map_sum id Threefish256 (threefish_setKey tf key)"
| "internal_setKey (Threefish512 tf) key = map_sum id Threefish512 (threefish_setKey tf key)"
| "internal_setKey (Threefish1024 tf) key = map_sum id Threefish1024 (threefish_setKey tf key)"

text \<open>
  The struct behind the interface value, its block length in words, and the write to the
  two scratch arrays that \<open>Encrypt\<close> and \<open>Decrypt\<close> perform through the slices
  \<open>getTempData\<close> returns.
\<close>

fun the_threefish :: "cipherInternal \<Rightarrow> threefish" where
  "the_threefish (Threefish256 tf) = tf"
| "the_threefish (Threefish512 tf) = tf"
| "the_threefish (Threefish1024 tf) = tf"

fun qwords :: "cipherInternal \<Rightarrow> nat" where
  "qwords (Threefish256 tf) = CIPHER_QWORDS_256"
| "qwords (Threefish512 tf) = CIPHER_QWORDS_512"
| "qwords (Threefish1024 tf) = CIPHER_QWORDS_1024"

fun internal_putTempData :: "cipherInternal \<Rightarrow> uint64 list \<Rightarrow> uint64 list \<Rightarrow> cipherInternal" where
  "internal_putTempData (Threefish256 tf) t1 t2 = Threefish256 (tf\<lparr>tmpData1 := t1, tmpData2 := t2\<rparr>)"
| "internal_putTempData (Threefish512 tf) t1 t2 = Threefish512 (tf\<lparr>tmpData1 := t1, tmpData2 := t2\<rparr>)"
| "internal_putTempData (Threefish1024 tf) t1 t2 = Threefish1024 (tf\<lparr>tmpData1 := t1, tmpData2 := t2\<rparr>)"

subsection \<open>The exported type \<open>Cipher\<close>\<close>

text \<open>\<open>NewCipher(key []byte, tweak []uint64)\<close>: the key is 32, 64 or 128 bytes.\<close>

definition NewCipher :: "byte list \<Rightarrow> uint64 list option \<Rightarrow> error + Cipher" where
  "NewCipher key tweak =
     (if length key = 32 then
        (case newThreefish256 (Some key) tweak of
           Inl e \<Rightarrow> Inl e
         | Inr tf \<Rightarrow> Inr \<lparr>stateSize = int (length key) * 8, internal = Threefish256 tf\<rparr>)
      else if length key = 64 then
        (case newThreefish512 (Some key) tweak of
           Inl e \<Rightarrow> Inl e
         | Inr tf \<Rightarrow> Inr \<lparr>stateSize = int (length key) * 8, internal = Threefish512 tf\<rparr>)
      else if length key = 128 then
        (case newThreefish1024 (Some key) tweak of
           Inl e \<Rightarrow> Inl e
         | Inr tf \<Rightarrow> Inr \<lparr>stateSize = int (length key) * 8, internal = Threefish1024 tf\<rparr>)
      else Inl (KeySizeError (int (length key))))"

text \<open>\<open>NewCipher64(key, tweak []uint64)\<close>: the key is 4, 8 or 16 words.\<close>

definition NewCipher64 :: "uint64 list \<Rightarrow> uint64 list option \<Rightarrow> error + Cipher" where
  "NewCipher64 key tweak =
     (if length key = 4 then
        (case newThreefish256_64 key tweak of
           Inl e \<Rightarrow> Inl e
         | Inr tf \<Rightarrow> Inr \<lparr>stateSize = int (length key) * 8, internal = Threefish256 tf\<rparr>)
      else if length key = 8 then
        (case newThreefish512_64 key tweak of
           Inl e \<Rightarrow> Inl e
         | Inr tf \<Rightarrow> Inr \<lparr>stateSize = int (length key) * 8, internal = Threefish512 tf\<rparr>)
      else if length key = 16 then
        (case newThreefish1024_64 key tweak of
           Inl e \<Rightarrow> Inl e
         | Inr tf \<Rightarrow> Inr \<lparr>stateSize = int (length key) * 8, internal = Threefish1024 tf\<rparr>)
      else Inl (KeySizeError (int (length key))))"

text \<open>\<open>NewCipherSize(size int)\<close>: no key and no tweak, the state size \<open>sz\<close> in bits.\<close>

definition NewCipherSize :: "int \<Rightarrow> error + Cipher" where
  "NewCipherSize sz =
     (if sz = 256 then
        (case newThreefish256 None None of
           Inl e \<Rightarrow> Inl e
         | Inr tf \<Rightarrow> Inr \<lparr>stateSize = sz, internal = Threefish256 tf\<rparr>)
      else if sz = 512 then
        (case newThreefish512 None None of
           Inl e \<Rightarrow> Inl e
         | Inr tf \<Rightarrow> Inr \<lparr>stateSize = sz, internal = Threefish512 tf\<rparr>)
      else if sz = 1024 then
        (case newThreefish1024 None None of
           Inl e \<Rightarrow> Inl e
         | Inr tf \<Rightarrow> Inr \<lparr>stateSize = sz, internal = Threefish1024 tf\<rparr>)
      else Inl (KeySizeError sz))"

text \<open>\<open>BlockSize\<close> "returns the cipher's block size in bytes".\<close>

definition BlockSize :: "Cipher \<Rightarrow> int" where
  "BlockSize c = go_div (stateSize c) 8"

text \<open>
  \<open>Encrypt(dst, src []byte)\<close> and \<open>Decrypt(dst, src []byte)\<close>: \<open>src\<close> is read into the first
  scratch array before anything is written to \<open>dst\<close>, so the two may be the same memory. The
  result is the cipher with its scratch arrays overwritten and the new contents of \<open>dst\<close>.
\<close>

definition Encrypt :: "Cipher \<Rightarrow> byte list \<Rightarrow> byte list \<Rightarrow> error + (Cipher \<times> byte list)" where
  "Encrypt c dst src =
     (let uintLen = nat (go_div (stateSize c) 64);
          (tmpin, tmpout) = internal_getTempData (internal c)
      in (case load_words 0 uintLen src tmpin of
           Inl e \<Rightarrow> Inl e
         | Inr tmpin \<Rightarrow>
             (case internal_encrypt (internal c) tmpin tmpout of
                Inl e \<Rightarrow> Inl e
              | Inr tmpout \<Rightarrow>
                  (case store_words 0 uintLen tmpout dst of
                     Inl e \<Rightarrow> Inl e
                   | Inr dst \<Rightarrow>
                       Inr (c\<lparr>internal := internal_putTempData (internal c) tmpin tmpout\<rparr>, dst)))))"

definition Decrypt :: "Cipher \<Rightarrow> byte list \<Rightarrow> byte list \<Rightarrow> error + (Cipher \<times> byte list)" where
  "Decrypt c dst src =
     (let uintLen = nat (go_div (stateSize c) 64);
          (tmpin, tmpout) = internal_getTempData (internal c)
      in (case load_words 0 uintLen src tmpin of
           Inl e \<Rightarrow> Inl e
         | Inr tmpin \<Rightarrow>
             (case internal_decrypt (internal c) tmpin tmpout of
                Inl e \<Rightarrow> Inl e
              | Inr tmpout \<Rightarrow>
                  (case store_words 0 uintLen tmpout dst of
                     Inl e \<Rightarrow> Inl e
                   | Inr dst \<Rightarrow>
                       Inr (c\<lparr>internal := internal_putTempData (internal c) tmpin tmpout\<rparr>, dst)))))"

text \<open>
  \<open>Encrypt64(dst, src []uint64)\<close> and \<open>Decrypt64(dst, src []uint64)\<close> hand the slices to the
  struct; the result is the new contents of \<open>dst\<close>.
\<close>

definition Encrypt64 :: "Cipher \<Rightarrow> uint64 list \<Rightarrow> uint64 list \<Rightarrow> error + uint64 list" where
  "Encrypt64 c dst src = internal_encrypt (internal c) src dst"

definition Decrypt64 :: "Cipher \<Rightarrow> uint64 list \<Rightarrow> uint64 list \<Rightarrow> error + uint64 list" where
  "Decrypt64 c dst src = internal_decrypt (internal c) src dst"

definition SetTweak :: "Cipher \<Rightarrow> uint64 list option \<Rightarrow> error + Cipher" where
  "SetTweak c tweak = map_sum id (\<lambda>i. c\<lparr>internal := i\<rparr>) (internal_setTweak (internal c) tweak)"

definition SetKey :: "Cipher \<Rightarrow> uint64 list \<Rightarrow> error + Cipher" where
  "SetKey c key = map_sum id (\<lambda>i. c\<lparr>internal := i\<rparr>) (internal_setKey (internal c) key)"

section \<open>Threefish as the specification describes it\<close>

text \<open>
  The round engine over \<open>N\<close> words: every fourth round a subkey is added, every round mixes
  the adjacent word pairs and permutes the words, and a last subkey is added after the
  final round. The rotation amounts and the permutation are fixed tables of the variant.
\<close>

text \<open>
  MIX of the word pairs \<open>(v\<^sub>0, v\<^sub>1)\<close>, \<open>(v\<^sub>2, v\<^sub>3)\<close>, \<dots> with the rotation amounts \<open>rs\<close>:
  \<open>even += odd; odd = rotate_left(odd, r) XOR even\<close>, and its inverse
  \<open>odd = rotate_right(even XOR odd, r); even -= odd\<close>.
\<close>

fun mix_all :: "nat list \<Rightarrow> uint64 list \<Rightarrow> uint64 list" where
  "mix_all (r # rs) (x # y # v) = (x + y) # (rotl64 y r XOR (x + y)) # mix_all rs v"
| "mix_all rs v = v"

fun unmix_all :: "nat list \<Rightarrow> uint64 list \<Rightarrow> uint64 list" where
  "unmix_all (r # rs) (x # y # v) = (x - rotr64 (x XOR y) r) # rotr64 (x XOR y) r # unmix_all rs v"
| "unmix_all rs v = v"

text \<open>The word at position \<open>i\<close> after the permutation is the word at position \<open>p ! i\<close> before.\<close>

definition permute :: "nat list \<Rightarrow> 'a list \<Rightarrow> 'a list" where
  "permute p v = map (\<lambda>i. v ! i) p"

definition add_words :: "uint64 list \<Rightarrow> uint64 list \<Rightarrow> uint64 list" where
  "add_words v a = map (\<lambda>(x, y). x + y) (zip v a)"

definition sub_words :: "uint64 list \<Rightarrow> uint64 list \<Rightarrow> uint64 list" where
  "sub_words v a = map (\<lambda>(x, y). x - y) (zip v a)"

text \<open>
  The subkey of injection cycle \<open>s\<close>: word \<open>i\<close> receives \<open>expandedKey[(s + i) mod (N + 1)]\<close>
  and its tweak injection. In the code the third word from the end receives
  \<open>expandedTweak[s mod 3]\<close>, the second from the end \<open>expandedTweak[(s + 1) mod 3]\<close> and the
  last word the cycle index \<open>s\<close>.
\<close>

definition tweak_injection :: "nat \<Rightarrow> uint64 list \<Rightarrow> nat \<Rightarrow> nat \<Rightarrow> uint64" where
  "tweak_injection N et s i =
     (if i = N - 3 then et ! (s mod 3)
      else if i = N - 2 then et ! ((s + 1) mod 3)
      else if i = N - 1 then of_nat s
      else 0)"

definition subkey :: "nat \<Rightarrow> uint64 list \<Rightarrow> uint64 list \<Rightarrow> nat \<Rightarrow> uint64 list" where
  "subkey N ek et s = map (\<lambda>i. ek ! ((s + i) mod (N + 1)) + tweak_injection N et s i) [0..<N]"

text \<open>
  The tweak injection in the words of the specification: the odd word of the second-to-last
  pair receives \<open>expandedTweak[s mod 3]\<close>, the odd word of the last pair receives
  \<open>expandedTweak[(s + 1) mod 3]\<close> plus the cycle index \<open>s\<close>, and an even word receives its
  key word only.
\<close>

definition tweak_injection_spec :: "nat \<Rightarrow> uint64 list \<Rightarrow> nat \<Rightarrow> nat \<Rightarrow> uint64" where
  "tweak_injection_spec N et s i =
     (if i = N - 3 then et ! (s mod 3)
      else if i = N - 1 then et ! ((s + 1) mod 3) + of_nat s
      else 0)"

definition subkey_spec :: "nat \<Rightarrow> uint64 list \<Rightarrow> uint64 list \<Rightarrow> nat \<Rightarrow> uint64 list" where
  "subkey_spec N ek et s =
     map (\<lambda>i. ek ! ((s + i) mod (N + 1)) + tweak_injection_spec N et s i) [0..<N]"

text \<open>
  Round \<open>d\<close>, the four rounds of cycle \<open>s\<close> after its subkey injection, and the whole
  encryption with \<open>R\<close> rounds; \<open>sk s\<close> is the subkey of cycle \<open>s\<close>.
\<close>

definition tf_round :: "nat list list \<Rightarrow> nat list \<Rightarrow> nat \<Rightarrow> uint64 list \<Rightarrow> uint64 list" where
  "tf_round rot perm d v = permute perm (mix_all (rot ! (d mod 8)) v)"

definition tf_cycle :: "nat list list \<Rightarrow> nat list \<Rightarrow> (nat \<Rightarrow> uint64 list) \<Rightarrow> nat \<Rightarrow> uint64 list \<Rightarrow> uint64 list" where
  "tf_cycle rot perm sk s v =
     foldl (\<lambda>v d. tf_round rot perm d v) (add_words v (sk s)) [4 * s ..< 4 * s + 4]"

definition tf_encrypt :: "nat \<Rightarrow> nat list list \<Rightarrow> nat list \<Rightarrow> (nat \<Rightarrow> uint64 list) \<Rightarrow> uint64 list \<Rightarrow> uint64 list" where
  "tf_encrypt R rot perm sk v =
     add_words (foldl (\<lambda>v s. tf_cycle rot perm sk s v) v [0 ..< R div 4]) (sk (R div 4))"

text \<open>
  Decryption undoes the steps in reverse order; \<open>iperm\<close> is the inverse permutation.
\<close>

definition tf_unround :: "nat list list \<Rightarrow> nat list \<Rightarrow> nat \<Rightarrow> uint64 list \<Rightarrow> uint64 list" where
  "tf_unround rot iperm d v = unmix_all (rot ! (d mod 8)) (permute iperm v)"

definition tf_uncycle :: "nat list list \<Rightarrow> nat list \<Rightarrow> (nat \<Rightarrow> uint64 list) \<Rightarrow> nat \<Rightarrow> uint64 list \<Rightarrow> uint64 list" where
  "tf_uncycle rot iperm sk s v =
     sub_words (foldl (\<lambda>v d. tf_unround rot iperm d v) v (rev [4 * s ..< 4 * s + 4])) (sk s)"

definition tf_decrypt :: "nat \<Rightarrow> nat list list \<Rightarrow> nat list \<Rightarrow> (nat \<Rightarrow> uint64 list) \<Rightarrow> uint64 list \<Rightarrow> uint64 list" where
  "tf_decrypt R rot iperm sk v =
     foldl (\<lambda>v s. tf_uncycle rot iperm sk s v) (sub_words v (sk (R div 4))) (rev [0 ..< R div 4])"

subsection \<open>The tables of the three variants\<close>

definition ROT_256 :: "nat list list" where
  "ROT_256 = [[14, 16], [52, 57], [23, 40], [5, 37], [25, 33], [46, 12], [58, 22], [32, 32]]"

definition PERM_256 :: "nat list" where
  "PERM_256 = [0, 3, 2, 1]"

definition IPERM_256 :: "nat list" where
  "IPERM_256 = [0, 3, 2, 1]"

definition ROT_512 :: "nat list list" where
  "ROT_512 = [[46, 36, 19, 37], [33, 27, 14, 42], [17, 49, 36, 39], [44, 9, 54, 56],
     [39, 30, 34, 24], [13, 50, 10, 17], [25, 29, 39, 43], [8, 35, 56, 22]]"

definition PERM_512 :: "nat list" where
  "PERM_512 = [2, 1, 4, 7, 6, 5, 0, 3]"

definition IPERM_512 :: "nat list" where
  "IPERM_512 = [6, 1, 0, 7, 2, 5, 4, 3]"

definition ROT_1024 :: "nat list list" where
  "ROT_1024 = [[24, 13, 8, 47, 8, 17, 22, 37], [38, 19, 10, 55, 49, 18, 23, 52],
     [33, 4, 51, 13, 34, 41, 59, 17], [5, 20, 48, 41, 47, 28, 16, 25],
     [41, 9, 37, 31, 12, 47, 44, 30], [16, 34, 56, 51, 4, 53, 42, 41],
     [31, 44, 47, 46, 19, 42, 44, 25], [9, 48, 35, 52, 23, 31, 37, 20]]"

definition PERM_1024 :: "nat list" where
  "PERM_1024 = [0, 9, 2, 13, 6, 11, 4, 15, 10, 7, 12, 3, 14, 5, 8, 1]"

definition IPERM_1024 :: "nat list" where
  "IPERM_1024 = [0, 15, 2, 11, 6, 13, 4, 9, 14, 1, 8, 5, 10, 3, 12, 7]"

subsection \<open>The unrolled statements, generated from the tables\<close>

text \<open>
  The unrolled code never moves a word: instead of permuting, it mixes the variables that
  the permutation would have brought together. \<open>round_lines rs p js\<close> are the \<open>Mix\<close>
  statements of a round in which position \<open>i\<close> is held by variable \<open>p ! i\<close>, for the pairs
  \<open>js\<close> in this order; in the first round of a cycle every variable is at its own position
  and the statements are \<open>Mix5\<close> with the subkey words \<open>a\<close>.
\<close>

definition round_lines :: "nat list \<Rightarrow> nat list \<Rightarrow> nat list \<Rightarrow> (uint64 list \<Rightarrow> uint64 list) list" where
  "round_lines rs p js = map (\<lambda>j. Mix (p ! (2 * j)) (p ! (2 * j + 1)) (rs ! j)) js"

definition round5_lines :: "nat list \<Rightarrow> uint64 list \<Rightarrow> nat list \<Rightarrow> (uint64 list \<Rightarrow> uint64 list) list" where
  "round5_lines rs a js =
     map (\<lambda>j. Mix5 (2 * j) (2 * j + 1) (rs ! j) (a ! (2 * j)) (a ! (2 * j + 1))) js"

definition cycle_lines :: "nat list list \<Rightarrow> nat list \<Rightarrow> nat list \<Rightarrow> nat \<Rightarrow> uint64 list \<Rightarrow> (uint64 list \<Rightarrow> uint64 list) list" where
  "cycle_lines rot perm js s a =
     (let d = 4 * (s mod 2); p1 = perm; p2 = permute perm p1; p3 = permute perm p2
      in round5_lines (rot ! d) a js @ round_lines (rot ! (d + 1)) p1 js
         @ round_lines (rot ! (d + 2)) p2 js @ round_lines (rot ! (d + 3)) p3 js)"

definition unround_lines :: "nat list \<Rightarrow> nat list \<Rightarrow> nat list \<Rightarrow> (uint64 list \<Rightarrow> uint64 list) list" where
  "unround_lines rs p js = map (\<lambda>j. UnMix (p ! (2 * j)) (p ! (2 * j + 1)) (rs ! j)) js"

definition unround5_lines :: "nat list \<Rightarrow> uint64 list \<Rightarrow> nat list \<Rightarrow> (uint64 list \<Rightarrow> uint64 list) list" where
  "unround5_lines rs a js =
     map (\<lambda>j. UnMix5 (2 * j) (2 * j + 1) (rs ! j) (a ! (2 * j)) (a ! (2 * j + 1))) js"

definition uncycle_lines :: "nat list list \<Rightarrow> nat list \<Rightarrow> nat list \<Rightarrow> nat \<Rightarrow> uint64 list \<Rightarrow> (uint64 list \<Rightarrow> uint64 list) list" where
  "uncycle_lines rot perm js s a =
     (let d = 4 * (s mod 2); p1 = perm; p2 = permute perm p1; p3 = permute perm p2
      in unround_lines (rot ! (d + 3)) p3 js @ unround_lines (rot ! (d + 2)) p2 js
         @ unround_lines (rot ! (d + 1)) p1 js @ unround5_lines (rot ! d) a js)"

definition sub_lines :: "uint64 list \<Rightarrow> (uint64 list \<Rightarrow> uint64 list) list" where
  "sub_lines a = map (\<lambda>i. Sub i (a ! i)) [0..<length a]"

section \<open>Auxiliary definitions for the statements\<close>

text \<open>Running a second operation on the result of a first one that did not fail.\<close>

definition and_then :: "error + 'a \<Rightarrow> ('a \<Rightarrow> error + 'b) \<Rightarrow> error + 'b" where
  "and_then r f = (case r of Inl e \<Rightarrow> Inl e | Inr x \<Rightarrow> f x)"

text \<open>
  The struct of a Threefish-256 cipher with the all-zero key and the tweak \<open>[0, 1]\<close>, as
  \<open>NewCipher64\<close> leaves it.
\<close>

definition tweaked_tf256 :: threefish where
  "tweaked_tf256 =
     \<lparr>expanedTweak = [0, 1, 1], expanedKey = [0, 0, 0, 0, 0x1BD11BDAA9FC1A22],
      tmpData1 = [0, 0, 0, 0], tmpData2 = [0, 0, 0, 0]\<rparr>"

text \<open>
  The identity on words, written so that the simplifier reduces a numeral modulo \<open>2^64\<close>
  when it evaluates a statement sequence on concrete words.
\<close>

definition norm64 :: "uint64 \<Rightarrow> uint64" where
  "norm64 w = word_of_nat (unat w)"

section \<open>Lemmas\<close>

subsection \<open>Rotation\<close>

lemma rotr64_rotl64_aux:
  assumes "0 < r" "r < 64"
  shows "rotr64 (rotl64 x r) r = x"
proof (rule bit_word_eqI)
  fix n
  assume "n < LENGTH(64)"
  then have n: "n < 64" by simp
  show "bit (rotr64 (rotl64 x r) r) n = bit x n"
  proof (cases "n + r < 64")
    case True
    then show ?thesis
      using assms n
      by (auto simp: rotl64_def rotr64_def bit_or_iff bit_push_bit_iff bit_drop_bit_eq
          dest: bit_imp_le_length)
  next
    case False
    then have "64 + (n + r - 64) - r = n" "\<not> r + n < 64" by arith+
    then show ?thesis
      using assms n False
      by (auto simp: rotl64_def rotr64_def bit_or_iff bit_push_bit_iff bit_drop_bit_eq
          dest: bit_imp_le_length)
  qed
qed

lemma rotl64_rotr64_aux:
  assumes "0 < r" "r < 64"
  shows "rotl64 (rotr64 x r) r = x"
proof (rule bit_word_eqI)
  fix n
  assume "n < LENGTH(64)"
  then have n: "n < 64" by simp
  show "bit (rotl64 (rotr64 x r) r) n = bit x n"
  proof (cases "r \<le> n")
    case True
    then show ?thesis
      using assms n
      by (auto simp: rotl64_def rotr64_def bit_or_iff bit_push_bit_iff bit_drop_bit_eq
          dest: bit_imp_le_length)
  next
    case False
    then have "64 - r + n - (64 - r) = n" "64 - r \<le> 64 - r + n" by arith+
    then show ?thesis
      using assms n False
      by (auto simp: rotl64_def rotr64_def bit_or_iff bit_push_bit_iff bit_drop_bit_eq
          dest: bit_imp_le_length)
  qed
qed

lemma rot64_trivial: "r = 0 \<or> 64 \<le> r \<Longrightarrow> rotl64 x r = x" "r = 0 \<or> 64 \<le> r \<Longrightarrow> rotr64 x r = x"
  by (auto simp: rotl64_def rotr64_def)

lemma rotr64_rotl64 [simp]: "rotr64 (rotl64 x r) r = x"
  by (cases "0 < r \<and> r < 64") (auto simp: rotr64_rotl64_aux rot64_trivial)

lemma rotl64_rotr64 [simp]: "rotl64 (rotr64 x r) r = x"
  by (cases "0 < r \<and> r < 64") (auto simp: rotl64_rotr64_aux rot64_trivial)

subsection \<open>Statement sequences and lists\<close>

lemma exec_Nil [simp]: "exec [] b = b"
  by (simp add: exec_def)

lemma exec_Cons [simp]: "exec (l # ls) b = exec ls (l b)"
  by (simp add: exec_def)

lemma exec_append: "exec (xs @ ys) b = exec ys (exec xs b)"
  by (simp add: exec_def)

lemma exec_concat_map: "exec (concat (map f ss)) b = foldl (\<lambda>b s. exec (f s) b) b ss"
  by (induction ss arbitrary: b) (simp_all add: exec_append)

lemma foldl_cong_inv:
  assumes "P b"
    and "\<And>b x. P b \<Longrightarrow> x \<in> set xs \<Longrightarrow> f b x = g b x"
    and "\<And>b x. P b \<Longrightarrow> x \<in> set xs \<Longrightarrow> P (g b x)"
  shows "foldl f b xs = foldl g b xs \<and> P (foldl g b xs)"
  using assms
proof (induction xs arbitrary: b)
  case Nil
  then show ?case by simp
next
  case (Cons x xs)
  have fx: "f b x = g b x" and px: "P (g b x)"
    using Cons.prems by simp_all
  have "foldl f (g b x) xs = foldl g (g b x) xs \<and> P (foldl g (g b x) xs)"
    using Cons.prems by (intro Cons.IH [OF px]) simp_all
  then show ?case by (simp add: fx)
qed

lemma list_update_Cons_numeral [simp]:
  "(x # xs)[numeral n := y] = x # xs[pred_numeral n := y]"
  by (simp add: numeral_eq_Suc)

lemma length_add_words [simp]: "length (add_words v a) = min (length v) (length a)"
  by (simp add: add_words_def)

lemma length_sub_words [simp]: "length (sub_words v a) = min (length v) (length a)"
  by (simp add: sub_words_def)

lemma add_words_Cons [simp]: "add_words (x # xs) (y # ys) = (x + y) # add_words xs ys"
  by (simp add: add_words_def)

lemma add_words_Nil [simp]: "add_words [] ys = []" "add_words xs [] = []"
  by (simp_all add: add_words_def)

lemma sub_words_Cons [simp]: "sub_words (x # xs) (y # ys) = (x - y) # sub_words xs ys"
  by (simp add: sub_words_def)

lemma sub_words_Nil [simp]: "sub_words [] ys = []" "sub_words xs [] = []"
  by (simp_all add: sub_words_def)

lemma sub_add_words: "length v \<le> length a \<Longrightarrow> sub_words (add_words v a) a = v"
proof (induction v arbitrary: a)
  case Nil
  then show ?case by simp
next
  case (Cons x v)
  then show ?case by (cases a) simp_all
qed

lemma add_sub_words: "length v \<le> length a \<Longrightarrow> add_words (sub_words v a) a = v"
proof (induction v arbitrary: a)
  case Nil
  then show ?case by simp
next
  case (Cons x v)
  then show ?case by (cases a) simp_all
qed

lemma length_permute [simp]: "length (permute p v) = length p"
  by (simp add: permute_def)

lemma length_mix_all [simp]: "length (mix_all rs v) = length v"
  by (induction rs v rule: mix_all.induct) simp_all

lemma length_unmix_all [simp]: "length (unmix_all rs v) = length v"
  by (induction rs v rule: unmix_all.induct) simp_all

lemma length_subkey [simp]: "length (subkey N ek et s) = N"
  by (simp add: subkey_def)

lemma length_subkey_spec [simp]: "length (subkey_spec N ek et s) = N"
  by (simp add: subkey_spec_def)

subsection \<open>The specification's decryption inverts its encryption\<close>

lemma xor_cancel_left: "(a::uint64) XOR (b XOR a) = b"
  by (simp add: ac_simps)

lemma unmix_mix_all [simp]: "unmix_all rs (mix_all rs v) = v"
  by (induction rs v rule: mix_all.induct) (simp_all add: xor_cancel_left)

lemma mix_unmix_all [simp]: "mix_all rs (unmix_all rs v) = v"
  by (induction rs v rule: unmix_all.induct) (simp_all add: ac_simps)

lemma mod8_cycle:
  assumes "i < 4"
  shows "(4 * s + i) mod 8 = 4 * (s mod 2) + (i::nat)"
proof -
  have "s = 2 * (s div 2) + s mod 2" by simp
  then have "4 * s + i = 8 * (s div 2) + (4 * (s mod 2) + i)" by linarith
  then have "(4 * s + i) mod 8 = (4 * (s mod 2) + i) mod 8"
    by (metis mod_mult_self4)
  moreover have "4 * (s mod 2) + i < 8"
    using assms by (cases "s mod 2 = 0") auto
  ultimately show ?thesis by simp
qed

lemma upt4: "[4 * s ..< 4 * s + 4] = [4 * s, 4 * s + 1, 4 * s + 2, 4 * s + 3]"
  by (simp add: upt_rec [of "4 * s"] upt_rec [of "Suc _"])

lemma tf_round_parity:
  "i < 4 \<Longrightarrow> tf_round rot perm (4 * s + i) = tf_round rot perm (4 * (s mod 2) + i)"
  by (rule ext) (simp add: tf_round_def mod8_cycle)

lemma tf_unround_parity:
  "i < 4 \<Longrightarrow> tf_unround rot iperm (4 * s + i) = tf_unround rot iperm (4 * (s mod 2) + i)"
  by (rule ext) (simp add: tf_unround_def mod8_cycle)

lemma tf_cycle_unfold:
  "tf_cycle rot perm sk s v =
     tf_round rot perm (4 * (s mod 2) + 3) (tf_round rot perm (4 * (s mod 2) + 2)
       (tf_round rot perm (4 * (s mod 2) + 1) (tf_round rot perm (4 * (s mod 2) + 0)
         (add_words v (sk s)))))"
  unfolding tf_cycle_def upt4
  using tf_round_parity [of 0 rot perm s] tf_round_parity [of 1 rot perm s]
    tf_round_parity [of 2 rot perm s] tf_round_parity [of 3 rot perm s]
  by simp

lemma tf_uncycle_unfold:
  "tf_uncycle rot iperm sk s v =
     sub_words (tf_unround rot iperm (4 * (s mod 2) + 0) (tf_unround rot iperm (4 * (s mod 2) + 1)
       (tf_unround rot iperm (4 * (s mod 2) + 2) (tf_unround rot iperm (4 * (s mod 2) + 3) v))))
       (sk s)"
  unfolding tf_uncycle_def upt4
  using tf_unround_parity [of 0 rot iperm s] tf_unround_parity [of 1 rot iperm s]
    tf_unround_parity [of 2 rot iperm s] tf_unround_parity [of 3 rot iperm s]
  by simp

lemma length_tf_cycle [simp]: "length (tf_cycle rot perm sk s v) = length perm"
  by (simp add: tf_cycle_unfold tf_round_def)

lemma length_tf_unround [simp]: "length (tf_unround rot iperm d v) = length iperm"
  by (simp add: tf_unround_def)

lemma length_tf_round [simp]: "length (tf_round rot perm d v) = length perm"
  by (simp add: tf_round_def)

lemma foldl_inverse:
  assumes "\<And>b x. P b \<Longrightarrow> g (f b x) x = b"
    and "\<And>b x. P b \<Longrightarrow> P (f b x)"
    and "P b"
  shows "foldl g (foldl f b xs) (rev xs) = b"
  using assms(3)
proof (induction xs arbitrary: b)
  case Nil
  then show ?case by simp
next
  case (Cons x xs)
  have "foldl g (foldl f (f b x) xs) (rev xs) = f b x"
    using Cons.prems by (intro Cons.IH assms(2))
  then show ?case
    using Cons.prems by (simp add: assms(1))
qed

lemma tf_unround_round:
  assumes "\<And>w::uint64 list. length w = N \<Longrightarrow> permute iperm (permute perm w) = w" and "length v = N"
  shows "tf_unround rot iperm d (tf_round rot perm d v) = v"
  by (simp add: assms tf_unround_def tf_round_def)

lemma tf_round_unround:
  assumes "\<And>w::uint64 list. length w = N \<Longrightarrow> permute perm (permute iperm w) = w" and "length v = N"
  shows "tf_round rot perm d (tf_unround rot iperm d v) = v"
  by (simp add: assms tf_unround_def tf_round_def)

lemma tf_uncycle_cycle:
  assumes inv: "\<And>w::uint64 list. length w = N \<Longrightarrow> permute iperm (permute perm w) = w"
    and "length perm = N" "length v = N" "length (sk s) = N"
  shows "tf_uncycle rot iperm sk s (tf_cycle rot perm sk s v) = v"
proof -
  note ur = tf_unround_round [where N = N and iperm = iperm and perm = perm, OF inv]
  show ?thesis
    unfolding tf_cycle_unfold tf_uncycle_unfold
    using assms(2-4) by (simp add: ur sub_add_words)
qed

lemma tf_cycle_uncycle:
  assumes inv: "\<And>w::uint64 list. length w = N \<Longrightarrow> permute perm (permute iperm w) = w"
    and "length iperm = N" "length v = N" "length (sk s) = N"
  shows "tf_cycle rot perm sk s (tf_uncycle rot iperm sk s v) = v"
proof -
  note ru = tf_round_unround [where N = N and iperm = iperm and perm = perm, OF inv]
  show ?thesis
    unfolding tf_cycle_unfold tf_uncycle_unfold
    using assms(2-4) by (simp add: ru add_sub_words)
qed

lemma length_tf_uncycle [simp]:
  "length (tf_uncycle rot iperm sk s v) = min (length iperm) (length (sk s))"
  by (simp add: tf_uncycle_unfold)

lemma length_foldl_tf_cycle:
  "length v = length perm \<Longrightarrow> length (foldl (\<lambda>v s. tf_cycle rot perm sk s v) v ss) = length perm"
  by (induction ss arbitrary: v) simp_all

lemma length_tf_encrypt:
  "length v = length perm \<Longrightarrow> length (sk (R div 4)) = length perm \<Longrightarrow>
   length (tf_encrypt R rot perm sk v) = length perm"
  by (simp add: tf_encrypt_def length_foldl_tf_cycle)

lemma length_foldl_tf_uncycle:
  "length v = length iperm \<Longrightarrow> (\<And>s. length (sk s) = length iperm) \<Longrightarrow>
   length (foldl (\<lambda>v s. tf_uncycle rot iperm sk s v) v ss) = length iperm"
  by (induction ss arbitrary: v) simp_all

lemma length_tf_decrypt:
  "length v = length iperm \<Longrightarrow> (\<And>s. length (sk s) = length iperm) \<Longrightarrow>
   length (tf_decrypt R rot iperm sk v) = length iperm"
  by (simp add: tf_decrypt_def length_foldl_tf_uncycle)

lemma tf_decrypt_encrypt:
  assumes inv: "\<And>w::uint64 list. length w = N \<Longrightarrow> permute iperm (permute perm w) = w"
    and perm: "length perm = N" and sk: "\<And>s. length (sk s) = N" and v: "length v = N"
  shows "tf_decrypt R rot iperm sk (tf_encrypt R rot perm sk v) = v"
proof -
  let ?F = "foldl (\<lambda>v s. tf_cycle rot perm sk s v) v [0 ..< R div 4]"
  have len: "length ?F = N"
    using length_foldl_tf_cycle [of v perm rot sk] perm v by simp
  have "foldl (\<lambda>v s. tf_uncycle rot iperm sk s v) ?F (rev [0 ..< R div 4]) = v"
    by (rule foldl_inverse [where P = "\<lambda>b. length b = N"])
      (simp_all add: tf_uncycle_cycle [where N = N, OF inv] perm sk v)
  then show ?thesis
    by (simp add: tf_decrypt_def tf_encrypt_def sub_add_words len sk)
qed

lemma tf_encrypt_decrypt:
  assumes inv: "\<And>w::uint64 list. length w = N \<Longrightarrow> permute perm (permute iperm w) = w"
    and iperm: "length iperm = N" and sk: "\<And>s. length (sk s) = N" and v: "length v = N"
  shows "tf_encrypt R rot perm sk (tf_decrypt R rot iperm sk v) = v"
proof -
  let ?w = "sub_words v (sk (R div 4))"
  let ?G = "foldl (\<lambda>v s. tf_uncycle rot iperm sk s v) ?w (rev [0 ..< R div 4])"
  have "foldl (\<lambda>v s. tf_cycle rot perm sk s v) ?G (rev (rev [0 ..< R div 4])) = ?w"
    by (rule foldl_inverse [where P = "\<lambda>b. length b = N"])
      (simp_all add: tf_cycle_uncycle [where N = N, OF inv] iperm sk v)
  then show ?thesis
    by (simp add: tf_decrypt_def tf_encrypt_def add_sub_words sk v)
qed


subsection \<open>Threefish-256: the unrolled code is the round engine\<close>

lemma length4_explicit:
  "length v = 4 \<Longrightarrow> \<exists>x0 x1 x2 x3. v = [x0, x1, x2, x3]"
  by (auto simp: length_Suc_conv eval_nat_numeral)

lemma permute_256:
  "length w = 4 \<Longrightarrow> permute IPERM_256 (permute PERM_256 w) = w"
  "length w = 4 \<Longrightarrow> permute PERM_256 (permute IPERM_256 w) = w"
  by (auto dest!: length4_explicit simp: permute_def PERM_256_def IPERM_256_def)

lemma encrypt256_rounds_eq:
  "encrypt256_rounds (ek ! 0) (ek ! 1) (ek ! 2) (ek ! 3) (ek ! 4) (et ! 0) (et ! 1) (et ! 2)
   = concat (map (\<lambda>s. cycle_lines ROT_256 PERM_256 [0, 1] s (subkey 4 ek et s)) [0..<18])"
  unfolding encrypt256_rounds_def
  by (simp add: cycle_lines_def round_lines_def round5_lines_def ROT_256_def PERM_256_def
      subkey_def tweak_injection_def permute_def Let_def
      upt_rec [of _ "numeral _"] upt_rec [of _ "Suc _"] numeral_2_eq_2 [symmetric])

lemma decrypt256_rounds_eq:
  "decrypt256_rounds (ek ! 0) (ek ! 1) (ek ! 2) (ek ! 3) (ek ! 4) (et ! 0) (et ! 1) (et ! 2)
   = sub_lines (subkey 4 ek et 18)
     @ concat (map (\<lambda>s. uncycle_lines ROT_256 PERM_256 [0, 1] s (subkey 4 ek et s)) (rev [0..<18]))"
  unfolding decrypt256_rounds_def
  by (simp add: uncycle_lines_def unround_lines_def unround5_lines_def sub_lines_def
      ROT_256_def PERM_256_def subkey_def tweak_injection_def permute_def Let_def
      upt_rec [of _ "numeral _"] upt_rec [of _ "Suc _"] numeral_2_eq_2 [symmetric])

lemma cycle256_0:
  "exec (cycle_lines ROT_256 PERM_256 [0, 1] 0 [a0, a1, a2, a3])
     [v0, v1, v2, v3] =
   tf_round ROT_256 PERM_256 (4 * 0 + 3) (tf_round ROT_256 PERM_256 (4 * 0 + 2)
     (tf_round ROT_256 PERM_256 (4 * 0 + 1) (tf_round ROT_256 PERM_256 (4 * 0 + 0)
       (add_words [v0, v1, v2, v3]
          [a0, a1, a2, a3]))))"
  apply (simp add: cycle_lines_def round_lines_def round5_lines_def ROT_256_def PERM_256_def
      permute_def Let_def)
  apply (simp add: tf_round_def ROT_256_def PERM_256_def permute_def Mix_def Mix5_def Let_def
      ac_simps)
  done

lemma uncycle256_0:
  "exec (uncycle_lines ROT_256 PERM_256 [0, 1] 0 [a0, a1, a2, a3])
     [v0, v1, v2, v3] =
   sub_words (tf_unround ROT_256 IPERM_256 (4 * 0 + 0) (tf_unround ROT_256 IPERM_256 (4 * 0 + 1)
     (tf_unround ROT_256 IPERM_256 (4 * 0 + 2) (tf_unround ROT_256 IPERM_256 (4 * 0 + 3)
       [v0, v1, v2, v3]))))
     [a0, a1, a2, a3]"
  apply (simp add: uncycle_lines_def unround_lines_def unround5_lines_def ROT_256_def
      PERM_256_def permute_def Let_def)
  apply (simp add: tf_unround_def ROT_256_def IPERM_256_def permute_def UnMix_def UnMix5_def
      Let_def ac_simps diff_diff_eq)
  done

lemma cycle256_1:
  "exec (cycle_lines ROT_256 PERM_256 [0, 1] 1 [a0, a1, a2, a3])
     [v0, v1, v2, v3] =
   tf_round ROT_256 PERM_256 (4 * 1 + 3) (tf_round ROT_256 PERM_256 (4 * 1 + 2)
     (tf_round ROT_256 PERM_256 (4 * 1 + 1) (tf_round ROT_256 PERM_256 (4 * 1 + 0)
       (add_words [v0, v1, v2, v3]
          [a0, a1, a2, a3]))))"
  apply (simp add: cycle_lines_def round_lines_def round5_lines_def ROT_256_def PERM_256_def
      permute_def Let_def)
  apply (simp add: tf_round_def ROT_256_def PERM_256_def permute_def Mix_def Mix5_def Let_def
      ac_simps)
  done

lemma uncycle256_1:
  "exec (uncycle_lines ROT_256 PERM_256 [0, 1] 1 [a0, a1, a2, a3])
     [v0, v1, v2, v3] =
   sub_words (tf_unround ROT_256 IPERM_256 (4 * 1 + 0) (tf_unround ROT_256 IPERM_256 (4 * 1 + 1)
     (tf_unround ROT_256 IPERM_256 (4 * 1 + 2) (tf_unround ROT_256 IPERM_256 (4 * 1 + 3)
       [v0, v1, v2, v3]))))
     [a0, a1, a2, a3]"
  apply (simp add: uncycle_lines_def unround_lines_def unround5_lines_def ROT_256_def
      PERM_256_def permute_def Let_def)
  apply (simp add: tf_unround_def ROT_256_def IPERM_256_def permute_def UnMix_def UnMix5_def
      Let_def ac_simps diff_diff_eq)
  done

lemma cycle256:
  assumes "length v = 4" "length (sk s) = 4"
  shows "exec (cycle_lines ROT_256 PERM_256 [0, 1] s (sk s)) v = tf_cycle ROT_256 PERM_256 sk s v"
proof -
  obtain v0 v1 v2 v3
    where v: "v = [v0, v1, v2, v3]"
    using length4_explicit [OF assms(1)] by blast
  obtain a0 a1 a2 a3
    where a: "sk s = [a0, a1, a2, a3]"
    using length4_explicit [OF assms(2)] by blast
  have c: "cycle_lines ROT_256 PERM_256 [0, 1] s (sk s) = cycle_lines ROT_256 PERM_256 [0, 1] (s mod 2) (sk s)"
    by (simp add: cycle_lines_def)
  have "s mod 2 = 0 \<or> s mod 2 = 1" by arith
  then show ?thesis
  proof
    assume p: "s mod 2 = 0"
    show ?thesis
      by (subst c, subst tf_cycle_unfold, simp only: p v a cycle256_0)
  next
    assume p: "s mod 2 = 1"
    show ?thesis
      by (subst c, subst tf_cycle_unfold, simp only: p v a cycle256_1)
  qed
qed

lemma uncycle256:
  assumes "length v = 4" "length (sk s) = 4"
  shows "exec (uncycle_lines ROT_256 PERM_256 [0, 1] s (sk s)) v = tf_uncycle ROT_256 IPERM_256 sk s v"
proof -
  obtain v0 v1 v2 v3
    where v: "v = [v0, v1, v2, v3]"
    using length4_explicit [OF assms(1)] by blast
  obtain a0 a1 a2 a3
    where a: "sk s = [a0, a1, a2, a3]"
    using length4_explicit [OF assms(2)] by blast
  have c: "uncycle_lines ROT_256 PERM_256 [0, 1] s (sk s) = uncycle_lines ROT_256 PERM_256 [0, 1] (s mod 2) (sk s)"
    by (simp add: uncycle_lines_def)
  have "s mod 2 = 0 \<or> s mod 2 = 1" by arith
  then show ?thesis
  proof
    assume p: "s mod 2 = 0"
    show ?thesis
      by (subst c, subst tf_uncycle_unfold, simp only: p v a uncycle256_0)
  next
    assume p: "s mod 2 = 1"
    show ?thesis
      by (subst c, subst tf_uncycle_unfold, simp only: p v a uncycle256_1)
  qed
qed

lemma length_PERM_256 [simp]: "length PERM_256 = 4" "length IPERM_256 = 4"
  by (simp_all add: PERM_256_def IPERM_256_def)

lemma sub_lines256:
  assumes "length v = 4" "length a = 4"
  shows "exec (sub_lines a) v = sub_words v a"
proof -
  obtain v0 v1 v2 v3
    where v: "v = [v0, v1, v2, v3]"
    using length4_explicit [OF assms(1)] by blast
  obtain a0 a1 a2 a3
    where a: "a = [a0, a1, a2, a3]"
    using length4_explicit [OF assms(2)] by blast
  show ?thesis
    by (simp add: v a sub_lines_def Sub_def upt_rec [of _ "numeral _"] upt_rec [of _ "Suc _"])
qed

lemma cycles256_exec:
  assumes "length v = 4" "\<And>s. length (sk s) = 4"
  shows "exec (concat (map (\<lambda>s. cycle_lines ROT_256 PERM_256 [0, 1] s (sk s)) ss)) v
         = foldl (\<lambda>v s. tf_cycle ROT_256 PERM_256 sk s v) v ss"
proof -
  have "foldl (\<lambda>b s. exec (cycle_lines ROT_256 PERM_256 [0, 1] s (sk s)) b) v ss
        = foldl (\<lambda>v s. tf_cycle ROT_256 PERM_256 sk s v) v ss
      \<and> length (foldl (\<lambda>v s. tf_cycle ROT_256 PERM_256 sk s v) v ss) = 4"
  proof (rule foldl_cong_inv [where P = "\<lambda>b. length b = 4"])
    show "length v = 4" by fact
    show "exec (cycle_lines ROT_256 PERM_256 [0, 1] s (sk s)) b
          = tf_cycle ROT_256 PERM_256 sk s b" if "length b = 4" for b s
      by (rule cycle256) (simp_all add: that assms(2))
    show "length (tf_cycle ROT_256 PERM_256 sk s b) = 4" for b s
      by simp
  qed
  then show ?thesis
    by (simp only: exec_concat_map)
qed

lemma encrypt256_exec:
  assumes "length v = 4"
  shows "exec (encrypt256_rounds (ek ! 0) (ek ! 1) (ek ! 2) (ek ! 3) (ek ! 4) (et ! 0) (et ! 1) (et ! 2)) v
         = foldl (\<lambda>v s. tf_cycle ROT_256 PERM_256 (subkey 4 ek et) s v) v [0..<18]"
  unfolding encrypt256_rounds_eq
  by (rule cycles256_exec [where sk = "subkey 4 ek et"]) (simp_all add: assms)

lemma decrypt256_exec:
  assumes "length v = 4"
  shows "exec (decrypt256_rounds (ek ! 0) (ek ! 1) (ek ! 2) (ek ! 3) (ek ! 4) (et ! 0) (et ! 1) (et ! 2)) v
         = tf_decrypt 72 ROT_256 IPERM_256 (subkey 4 ek et) v"
proof -
  let ?w = "sub_words v (subkey 4 ek et 18)"
  have "foldl (\<lambda>b s. exec (uncycle_lines ROT_256 PERM_256 [0, 1] s (subkey 4 ek et s)) b) ?w (rev [0..<18])
        = foldl (\<lambda>v s. tf_uncycle ROT_256 IPERM_256 (subkey 4 ek et) s v) ?w (rev [0..<18])
      \<and> length (foldl (\<lambda>v s. tf_uncycle ROT_256 IPERM_256 (subkey 4 ek et) s v) ?w (rev [0..<18])) = 4"
  proof (rule foldl_cong_inv [where P = "\<lambda>b. length b = 4"])
    show "length ?w = 4" by (simp add: assms)
    show "exec (uncycle_lines ROT_256 PERM_256 [0, 1] s (subkey 4 ek et s)) b
          = tf_uncycle ROT_256 IPERM_256 (subkey 4 ek et) s b" if "length b = 4" for b s
      by (rule uncycle256 [where sk = "subkey 4 ek et"]) (simp_all add: that)
    show "length (tf_uncycle ROT_256 IPERM_256 (subkey 4 ek et) s b) = 4" for b s
      by simp
  qed
  moreover have "72 div 4 = (18::nat)" by simp
  ultimately show ?thesis
    by (simp only: decrypt256_rounds_eq exec_append exec_concat_map tf_decrypt_def
        sub_lines256 [OF assms length_subkey])
qed

lemma encrypt256_output:
  assumes "length x = 4" "length output = 4"
  shows "output[0 := x ! 0 + expanedKey tf ! 3,
          1 := x ! 1 + expanedKey tf ! 4 + expanedTweak tf ! 0,
          2 := x ! 2 + expanedKey tf ! 0 + expanedTweak tf ! 1,
          3 := x ! 3 + expanedKey tf ! 1 + 18]
         = add_words x (subkey 4 (expanedKey tf) (expanedTweak tf) 18)"
proof -
  obtain x0 x1 x2 x3
    where x: "x = [x0, x1, x2, x3]"
    using length4_explicit [OF assms(1)] by blast
  obtain y0 y1 y2 y3
    where y: "output = [y0, y1, y2, y3]"
    using length4_explicit [OF assms(2)] by blast
  show ?thesis
    by (simp add: x y subkey_def tweak_injection_def upt_rec [of _ "numeral _"]
        upt_rec [of _ "Suc _"] numeral_2_eq_2 [symmetric] ac_simps)
qed

lemma decrypt256_output:
  assumes "length x = 4" "length output = 4"
  shows "output[0 := x ! 0, 1 := x ! 1, 2 := x ! 2, 3 := x ! 3] = x"
proof -
  obtain x0 x1 x2 x3
    where x: "x = [x0, x1, x2, x3]"
    using length4_explicit [OF assms(1)] by blast
  obtain y0 y1 y2 y3
    where y: "output = [y0, y1, y2, y3]"
    using length4_explicit [OF assms(2)] by blast
  show ?thesis
    by (simp add: x y)
qed

lemma input256:
  "length input = 4 \<Longrightarrow> [input ! 0, input ! 1, input ! 2, input ! 3] = input"
  by (auto dest!: length4_explicit)

lemma encrypt256_refines:
  assumes "length input = 4" "length output = 4"
  shows "encrypt256 tf input output
         = Inr (tf_encrypt 72 ROT_256 PERM_256 (subkey 4 (expanedKey tf) (expanedTweak tf)) input)"
proof -
  let ?sk = "subkey 4 (expanedKey tf) (expanedTweak tf)"
  let ?x = "foldl (\<lambda>v s. tf_cycle ROT_256 PERM_256 ?sk s v) input [0..<18]"
  have x: "length ?x = 4"
    using length_foldl_tf_cycle [of input PERM_256] assms(1) by simp
  have r: "72 div 4 = (18::nat)" by simp
  show ?thesis
    unfolding encrypt256_def Let_def input256 [OF assms(1)] encrypt256_exec [OF assms(1)]
      tf_encrypt_def r
    using assms by (simp only: encrypt256_output [OF x assms(2)]) simp
qed

lemma decrypt256_refines:
  assumes "length input = 4" "length output = 4"
  shows "decrypt256 tf input output
         = Inr (tf_decrypt 72 ROT_256 IPERM_256 (subkey 4 (expanedKey tf) (expanedTweak tf)) input)"
proof -
  let ?sk = "subkey 4 (expanedKey tf) (expanedTweak tf)"
  have x: "length (tf_decrypt 72 ROT_256 IPERM_256 ?sk input) = 4"
    using length_tf_decrypt [of input IPERM_256 ?sk] assms(1) by simp
  show ?thesis
    unfolding decrypt256_def Let_def input256 [OF assms(1)] decrypt256_exec [OF assms(1)]
    using assms by (simp only: decrypt256_output [OF x assms(2)]) simp
qed


subsection \<open>Threefish-512: the unrolled code is the round engine\<close>

lemma length8_explicit:
  "length v = 8 \<Longrightarrow> \<exists>x0 x1 x2 x3 x4 x5 x6 x7. v = [x0, x1, x2, x3, x4, x5, x6, x7]"
  by (auto simp: length_Suc_conv eval_nat_numeral)

lemma permute_512:
  "length w = 8 \<Longrightarrow> permute IPERM_512 (permute PERM_512 w) = w"
  "length w = 8 \<Longrightarrow> permute PERM_512 (permute IPERM_512 w) = w"
  by (auto dest!: length8_explicit simp: permute_def PERM_512_def IPERM_512_def)

lemma encrypt512_rounds_eq:
  "encrypt512_rounds (ek ! 0) (ek ! 1) (ek ! 2) (ek ! 3) (ek ! 4) (ek ! 5) (ek ! 6) (ek ! 7) (ek ! 8) (et ! 0) (et ! 1) (et ! 2)
   = concat (map (\<lambda>s. cycle_lines ROT_512 PERM_512 [0, 1, 2, 3] s (subkey 8 ek et s)) [0..<18])"
  unfolding encrypt512_rounds_def
  by (simp add: cycle_lines_def round_lines_def round5_lines_def ROT_512_def PERM_512_def
      subkey_def tweak_injection_def permute_def Let_def
      upt_rec [of _ "numeral _"] upt_rec [of _ "Suc _"] numeral_2_eq_2 [symmetric])

lemma decrypt512_rounds_eq:
  "decrypt512_rounds (ek ! 0) (ek ! 1) (ek ! 2) (ek ! 3) (ek ! 4) (ek ! 5) (ek ! 6) (ek ! 7) (ek ! 8) (et ! 0) (et ! 1) (et ! 2)
   = sub_lines (subkey 8 ek et 18)
     @ concat (map (\<lambda>s. uncycle_lines ROT_512 PERM_512 [3, 2, 1, 0] s (subkey 8 ek et s)) (rev [0..<18]))"
  unfolding decrypt512_rounds_def
  by (simp add: uncycle_lines_def unround_lines_def unround5_lines_def sub_lines_def
      ROT_512_def PERM_512_def subkey_def tweak_injection_def permute_def Let_def
      upt_rec [of _ "numeral _"] upt_rec [of _ "Suc _"] numeral_2_eq_2 [symmetric])

lemma cycle512_0:
  "exec (cycle_lines ROT_512 PERM_512 [0, 1, 2, 3] 0 [a0, a1, a2, a3, a4, a5, a6, a7])
     [v0, v1, v2, v3, v4, v5, v6, v7] =
   tf_round ROT_512 PERM_512 (4 * 0 + 3) (tf_round ROT_512 PERM_512 (4 * 0 + 2)
     (tf_round ROT_512 PERM_512 (4 * 0 + 1) (tf_round ROT_512 PERM_512 (4 * 0 + 0)
       (add_words [v0, v1, v2, v3, v4, v5, v6, v7]
          [a0, a1, a2, a3, a4, a5, a6, a7]))))"
  apply (simp add: cycle_lines_def round_lines_def round5_lines_def ROT_512_def PERM_512_def
      permute_def Let_def)
  apply (simp add: tf_round_def ROT_512_def PERM_512_def permute_def Mix_def Mix5_def Let_def
      ac_simps)
  done

lemma uncycle512_0:
  "exec (uncycle_lines ROT_512 PERM_512 [3, 2, 1, 0] 0 [a0, a1, a2, a3, a4, a5, a6, a7])
     [v0, v1, v2, v3, v4, v5, v6, v7] =
   sub_words (tf_unround ROT_512 IPERM_512 (4 * 0 + 0) (tf_unround ROT_512 IPERM_512 (4 * 0 + 1)
     (tf_unround ROT_512 IPERM_512 (4 * 0 + 2) (tf_unround ROT_512 IPERM_512 (4 * 0 + 3)
       [v0, v1, v2, v3, v4, v5, v6, v7]))))
     [a0, a1, a2, a3, a4, a5, a6, a7]"
  apply (simp add: uncycle_lines_def unround_lines_def unround5_lines_def ROT_512_def
      PERM_512_def permute_def Let_def)
  apply (simp add: tf_unround_def ROT_512_def IPERM_512_def permute_def UnMix_def UnMix5_def
      Let_def ac_simps diff_diff_eq)
  done

lemma cycle512_1:
  "exec (cycle_lines ROT_512 PERM_512 [0, 1, 2, 3] 1 [a0, a1, a2, a3, a4, a5, a6, a7])
     [v0, v1, v2, v3, v4, v5, v6, v7] =
   tf_round ROT_512 PERM_512 (4 * 1 + 3) (tf_round ROT_512 PERM_512 (4 * 1 + 2)
     (tf_round ROT_512 PERM_512 (4 * 1 + 1) (tf_round ROT_512 PERM_512 (4 * 1 + 0)
       (add_words [v0, v1, v2, v3, v4, v5, v6, v7]
          [a0, a1, a2, a3, a4, a5, a6, a7]))))"
  apply (simp add: cycle_lines_def round_lines_def round5_lines_def ROT_512_def PERM_512_def
      permute_def Let_def)
  apply (simp add: tf_round_def ROT_512_def PERM_512_def permute_def Mix_def Mix5_def Let_def
      ac_simps)
  done

lemma uncycle512_1:
  "exec (uncycle_lines ROT_512 PERM_512 [3, 2, 1, 0] 1 [a0, a1, a2, a3, a4, a5, a6, a7])
     [v0, v1, v2, v3, v4, v5, v6, v7] =
   sub_words (tf_unround ROT_512 IPERM_512 (4 * 1 + 0) (tf_unround ROT_512 IPERM_512 (4 * 1 + 1)
     (tf_unround ROT_512 IPERM_512 (4 * 1 + 2) (tf_unround ROT_512 IPERM_512 (4 * 1 + 3)
       [v0, v1, v2, v3, v4, v5, v6, v7]))))
     [a0, a1, a2, a3, a4, a5, a6, a7]"
  apply (simp add: uncycle_lines_def unround_lines_def unround5_lines_def ROT_512_def
      PERM_512_def permute_def Let_def)
  apply (simp add: tf_unround_def ROT_512_def IPERM_512_def permute_def UnMix_def UnMix5_def
      Let_def ac_simps diff_diff_eq)
  done

lemma cycle512:
  assumes "length v = 8" "length (sk s) = 8"
  shows "exec (cycle_lines ROT_512 PERM_512 [0, 1, 2, 3] s (sk s)) v = tf_cycle ROT_512 PERM_512 sk s v"
proof -
  obtain v0 v1 v2 v3 v4 v5 v6 v7
    where v: "v = [v0, v1, v2, v3, v4, v5, v6, v7]"
    using length8_explicit [OF assms(1)] by blast
  obtain a0 a1 a2 a3 a4 a5 a6 a7
    where a: "sk s = [a0, a1, a2, a3, a4, a5, a6, a7]"
    using length8_explicit [OF assms(2)] by blast
  have c: "cycle_lines ROT_512 PERM_512 [0, 1, 2, 3] s (sk s) = cycle_lines ROT_512 PERM_512 [0, 1, 2, 3] (s mod 2) (sk s)"
    by (simp add: cycle_lines_def)
  have "s mod 2 = 0 \<or> s mod 2 = 1" by arith
  then show ?thesis
  proof
    assume p: "s mod 2 = 0"
    show ?thesis
      by (subst c, subst tf_cycle_unfold, simp only: p v a cycle512_0)
  next
    assume p: "s mod 2 = 1"
    show ?thesis
      by (subst c, subst tf_cycle_unfold, simp only: p v a cycle512_1)
  qed
qed

lemma uncycle512:
  assumes "length v = 8" "length (sk s) = 8"
  shows "exec (uncycle_lines ROT_512 PERM_512 [3, 2, 1, 0] s (sk s)) v = tf_uncycle ROT_512 IPERM_512 sk s v"
proof -
  obtain v0 v1 v2 v3 v4 v5 v6 v7
    where v: "v = [v0, v1, v2, v3, v4, v5, v6, v7]"
    using length8_explicit [OF assms(1)] by blast
  obtain a0 a1 a2 a3 a4 a5 a6 a7
    where a: "sk s = [a0, a1, a2, a3, a4, a5, a6, a7]"
    using length8_explicit [OF assms(2)] by blast
  have c: "uncycle_lines ROT_512 PERM_512 [3, 2, 1, 0] s (sk s) = uncycle_lines ROT_512 PERM_512 [3, 2, 1, 0] (s mod 2) (sk s)"
    by (simp add: uncycle_lines_def)
  have "s mod 2 = 0 \<or> s mod 2 = 1" by arith
  then show ?thesis
  proof
    assume p: "s mod 2 = 0"
    show ?thesis
      by (subst c, subst tf_uncycle_unfold, simp only: p v a uncycle512_0)
  next
    assume p: "s mod 2 = 1"
    show ?thesis
      by (subst c, subst tf_uncycle_unfold, simp only: p v a uncycle512_1)
  qed
qed

lemma length_PERM_512 [simp]: "length PERM_512 = 8" "length IPERM_512 = 8"
  by (simp_all add: PERM_512_def IPERM_512_def)

lemma sub_lines512:
  assumes "length v = 8" "length a = 8"
  shows "exec (sub_lines a) v = sub_words v a"
proof -
  obtain v0 v1 v2 v3 v4 v5 v6 v7
    where v: "v = [v0, v1, v2, v3, v4, v5, v6, v7]"
    using length8_explicit [OF assms(1)] by blast
  obtain a0 a1 a2 a3 a4 a5 a6 a7
    where a: "a = [a0, a1, a2, a3, a4, a5, a6, a7]"
    using length8_explicit [OF assms(2)] by blast
  show ?thesis
    by (simp add: v a sub_lines_def Sub_def upt_rec [of _ "numeral _"] upt_rec [of _ "Suc _"])
qed

lemma cycles512_exec:
  assumes "length v = 8" "\<And>s. length (sk s) = 8"
  shows "exec (concat (map (\<lambda>s. cycle_lines ROT_512 PERM_512 [0, 1, 2, 3] s (sk s)) ss)) v
         = foldl (\<lambda>v s. tf_cycle ROT_512 PERM_512 sk s v) v ss"
proof -
  have "foldl (\<lambda>b s. exec (cycle_lines ROT_512 PERM_512 [0, 1, 2, 3] s (sk s)) b) v ss
        = foldl (\<lambda>v s. tf_cycle ROT_512 PERM_512 sk s v) v ss
      \<and> length (foldl (\<lambda>v s. tf_cycle ROT_512 PERM_512 sk s v) v ss) = 8"
  proof (rule foldl_cong_inv [where P = "\<lambda>b. length b = 8"])
    show "length v = 8" by fact
    show "exec (cycle_lines ROT_512 PERM_512 [0, 1, 2, 3] s (sk s)) b
          = tf_cycle ROT_512 PERM_512 sk s b" if "length b = 8" for b s
      by (rule cycle512) (simp_all add: that assms(2))
    show "length (tf_cycle ROT_512 PERM_512 sk s b) = 8" for b s
      by simp
  qed
  then show ?thesis
    by (simp only: exec_concat_map)
qed

lemma encrypt512_exec:
  assumes "length v = 8"
  shows "exec (encrypt512_rounds (ek ! 0) (ek ! 1) (ek ! 2) (ek ! 3) (ek ! 4) (ek ! 5) (ek ! 6) (ek ! 7) (ek ! 8) (et ! 0) (et ! 1) (et ! 2)) v
         = foldl (\<lambda>v s. tf_cycle ROT_512 PERM_512 (subkey 8 ek et) s v) v [0..<18]"
  unfolding encrypt512_rounds_eq
  by (rule cycles512_exec [where sk = "subkey 8 ek et"]) (simp_all add: assms)

lemma decrypt512_exec:
  assumes "length v = 8"
  shows "exec (decrypt512_rounds (ek ! 0) (ek ! 1) (ek ! 2) (ek ! 3) (ek ! 4) (ek ! 5) (ek ! 6) (ek ! 7) (ek ! 8) (et ! 0) (et ! 1) (et ! 2)) v
         = tf_decrypt 72 ROT_512 IPERM_512 (subkey 8 ek et) v"
proof -
  let ?w = "sub_words v (subkey 8 ek et 18)"
  have "foldl (\<lambda>b s. exec (uncycle_lines ROT_512 PERM_512 [3, 2, 1, 0] s (subkey 8 ek et s)) b) ?w (rev [0..<18])
        = foldl (\<lambda>v s. tf_uncycle ROT_512 IPERM_512 (subkey 8 ek et) s v) ?w (rev [0..<18])
      \<and> length (foldl (\<lambda>v s. tf_uncycle ROT_512 IPERM_512 (subkey 8 ek et) s v) ?w (rev [0..<18])) = 8"
  proof (rule foldl_cong_inv [where P = "\<lambda>b. length b = 8"])
    show "length ?w = 8" by (simp add: assms)
    show "exec (uncycle_lines ROT_512 PERM_512 [3, 2, 1, 0] s (subkey 8 ek et s)) b
          = tf_uncycle ROT_512 IPERM_512 (subkey 8 ek et) s b" if "length b = 8" for b s
      by (rule uncycle512 [where sk = "subkey 8 ek et"]) (simp_all add: that)
    show "length (tf_uncycle ROT_512 IPERM_512 (subkey 8 ek et) s b) = 8" for b s
      by simp
  qed
  moreover have "72 div 4 = (18::nat)" by simp
  ultimately show ?thesis
    by (simp only: decrypt512_rounds_eq exec_append exec_concat_map tf_decrypt_def
        sub_lines512 [OF assms length_subkey])
qed

lemma encrypt512_output:
  assumes "length x = 8" "length output = 8"
  shows "output[0 := x ! 0 + expanedKey tf ! 0, 1 := x ! 1 + expanedKey tf ! 1,
          2 := x ! 2 + expanedKey tf ! 2, 3 := x ! 3 + expanedKey tf ! 3,
          4 := x ! 4 + expanedKey tf ! 4,
          5 := x ! 5 + expanedKey tf ! 5 + expanedTweak tf ! 0,
          6 := x ! 6 + expanedKey tf ! 6 + expanedTweak tf ! 1,
          7 := x ! 7 + expanedKey tf ! 7 + 18]
         = add_words x (subkey 8 (expanedKey tf) (expanedTweak tf) 18)"
proof -
  obtain x0 x1 x2 x3 x4 x5 x6 x7
    where x: "x = [x0, x1, x2, x3, x4, x5, x6, x7]"
    using length8_explicit [OF assms(1)] by blast
  obtain y0 y1 y2 y3 y4 y5 y6 y7
    where y: "output = [y0, y1, y2, y3, y4, y5, y6, y7]"
    using length8_explicit [OF assms(2)] by blast
  show ?thesis
    by (simp add: x y subkey_def tweak_injection_def upt_rec [of _ "numeral _"]
        upt_rec [of _ "Suc _"] numeral_2_eq_2 [symmetric] ac_simps)
qed

lemma decrypt512_output:
  assumes "length x = 8" "length output = 8"
  shows "output[7 := x ! 7, 6 := x ! 6, 5 := x ! 5, 4 := x ! 4, 3 := x ! 3, 2 := x ! 2, 1 := x ! 1,
          0 := x ! 0] = x"
proof -
  obtain x0 x1 x2 x3 x4 x5 x6 x7
    where x: "x = [x0, x1, x2, x3, x4, x5, x6, x7]"
    using length8_explicit [OF assms(1)] by blast
  obtain y0 y1 y2 y3 y4 y5 y6 y7
    where y: "output = [y0, y1, y2, y3, y4, y5, y6, y7]"
    using length8_explicit [OF assms(2)] by blast
  show ?thesis
    by (simp add: x y)
qed

lemma input512:
  "length input = 8 \<Longrightarrow> [input ! 0, input ! 1, input ! 2, input ! 3, input ! 4, input ! 5, input ! 6, input ! 7] = input"
  by (auto dest!: length8_explicit)

lemma encrypt512_refines:
  assumes "length input = 8" "length output = 8"
  shows "encrypt512 tf input output
         = Inr (tf_encrypt 72 ROT_512 PERM_512 (subkey 8 (expanedKey tf) (expanedTweak tf)) input)"
proof -
  let ?sk = "subkey 8 (expanedKey tf) (expanedTweak tf)"
  let ?x = "foldl (\<lambda>v s. tf_cycle ROT_512 PERM_512 ?sk s v) input [0..<18]"
  have x: "length ?x = 8"
    using length_foldl_tf_cycle [of input PERM_512] assms(1) by simp
  have r: "72 div 4 = (18::nat)" by simp
  show ?thesis
    unfolding encrypt512_def Let_def input512 [OF assms(1)] encrypt512_exec [OF assms(1)]
      tf_encrypt_def r
    using assms by (simp only: encrypt512_output [OF x assms(2)]) simp
qed

lemma decrypt512_refines:
  assumes "length input = 8" "length output = 8"
  shows "decrypt512 tf input output
         = Inr (tf_decrypt 72 ROT_512 IPERM_512 (subkey 8 (expanedKey tf) (expanedTweak tf)) input)"
proof -
  let ?sk = "subkey 8 (expanedKey tf) (expanedTweak tf)"
  have x: "length (tf_decrypt 72 ROT_512 IPERM_512 ?sk input) = 8"
    using length_tf_decrypt [of input IPERM_512 ?sk] assms(1) by simp
  show ?thesis
    unfolding decrypt512_def Let_def input512 [OF assms(1)] decrypt512_exec [OF assms(1)]
    using assms by (simp only: decrypt512_output [OF x assms(2)]) simp
qed


subsection \<open>Threefish-1024: the unrolled code is the round engine\<close>

lemma length16_explicit:
  "length v = 16 \<Longrightarrow> \<exists>x0 x1 x2 x3 x4 x5 x6 x7 x8 x9 x10 x11 x12 x13 x14 x15. v = [x0, x1, x2, x3, x4, x5, x6, x7, x8, x9, x10, x11, x12, x13, x14, x15]"
  by (auto simp: length_Suc_conv eval_nat_numeral)

lemma permute_1024:
  "length w = 16 \<Longrightarrow> permute IPERM_1024 (permute PERM_1024 w) = w"
  "length w = 16 \<Longrightarrow> permute PERM_1024 (permute IPERM_1024 w) = w"
  by (auto dest!: length16_explicit simp: permute_def PERM_1024_def IPERM_1024_def)

lemma encrypt1024_rounds_eq:
  "encrypt1024_rounds (ek ! 0) (ek ! 1) (ek ! 2) (ek ! 3) (ek ! 4) (ek ! 5) (ek ! 6) (ek ! 7) (ek ! 8) (ek ! 9) (ek ! 10) (ek ! 11) (ek ! 12) (ek ! 13) (ek ! 14) (ek ! 15) (ek ! 16) (et ! 0) (et ! 1) (et ! 2)
   = concat (map (\<lambda>s. cycle_lines ROT_1024 PERM_1024 [0, 1, 2, 3, 4, 5, 6, 7] s (subkey 16 ek et s)) [0..<20])"
  unfolding encrypt1024_rounds_def
  by (simp add: cycle_lines_def round_lines_def round5_lines_def ROT_1024_def PERM_1024_def
      subkey_def tweak_injection_def permute_def Let_def
      upt_rec [of _ "numeral _"] upt_rec [of _ "Suc _"] numeral_2_eq_2 [symmetric])

lemma decrypt1024_rounds_eq:
  "decrypt1024_rounds (ek ! 0) (ek ! 1) (ek ! 2) (ek ! 3) (ek ! 4) (ek ! 5) (ek ! 6) (ek ! 7) (ek ! 8) (ek ! 9) (ek ! 10) (ek ! 11) (ek ! 12) (ek ! 13) (ek ! 14) (ek ! 15) (ek ! 16) (et ! 0) (et ! 1) (et ! 2)
   = sub_lines (subkey 16 ek et 20)
     @ concat (map (\<lambda>s. uncycle_lines ROT_1024 PERM_1024 [7, 6, 5, 4, 3, 2, 1, 0] s (subkey 16 ek et s)) (rev [0..<20]))"
  unfolding decrypt1024_rounds_def
  by (simp add: uncycle_lines_def unround_lines_def unround5_lines_def sub_lines_def
      ROT_1024_def PERM_1024_def subkey_def tweak_injection_def permute_def Let_def
      upt_rec [of _ "numeral _"] upt_rec [of _ "Suc _"] numeral_2_eq_2 [symmetric])

lemma cycle1024_0:
  "exec (cycle_lines ROT_1024 PERM_1024 [0, 1, 2, 3, 4, 5, 6, 7] 0 [a0, a1, a2, a3, a4, a5, a6, a7, a8, a9, a10, a11, a12, a13, a14, a15])
     [v0, v1, v2, v3, v4, v5, v6, v7, v8, v9, v10, v11, v12, v13, v14, v15] =
   tf_round ROT_1024 PERM_1024 (4 * 0 + 3) (tf_round ROT_1024 PERM_1024 (4 * 0 + 2)
     (tf_round ROT_1024 PERM_1024 (4 * 0 + 1) (tf_round ROT_1024 PERM_1024 (4 * 0 + 0)
       (add_words [v0, v1, v2, v3, v4, v5, v6, v7, v8, v9, v10, v11, v12, v13, v14, v15]
          [a0, a1, a2, a3, a4, a5, a6, a7, a8, a9, a10, a11, a12, a13, a14, a15]))))"
  apply (simp add: cycle_lines_def round_lines_def round5_lines_def ROT_1024_def PERM_1024_def
      permute_def Let_def)
  apply (simp add: tf_round_def ROT_1024_def PERM_1024_def permute_def Mix_def Mix5_def Let_def
      ac_simps)
  done

lemma uncycle1024_0:
  "exec (uncycle_lines ROT_1024 PERM_1024 [7, 6, 5, 4, 3, 2, 1, 0] 0 [a0, a1, a2, a3, a4, a5, a6, a7, a8, a9, a10, a11, a12, a13, a14, a15])
     [v0, v1, v2, v3, v4, v5, v6, v7, v8, v9, v10, v11, v12, v13, v14, v15] =
   sub_words (tf_unround ROT_1024 IPERM_1024 (4 * 0 + 0) (tf_unround ROT_1024 IPERM_1024 (4 * 0 + 1)
     (tf_unround ROT_1024 IPERM_1024 (4 * 0 + 2) (tf_unround ROT_1024 IPERM_1024 (4 * 0 + 3)
       [v0, v1, v2, v3, v4, v5, v6, v7, v8, v9, v10, v11, v12, v13, v14, v15]))))
     [a0, a1, a2, a3, a4, a5, a6, a7, a8, a9, a10, a11, a12, a13, a14, a15]"
  apply (simp add: uncycle_lines_def unround_lines_def unround5_lines_def ROT_1024_def
      PERM_1024_def permute_def Let_def)
  apply (simp add: tf_unround_def ROT_1024_def IPERM_1024_def permute_def UnMix_def UnMix5_def
      Let_def ac_simps diff_diff_eq)
  done

lemma cycle1024_1:
  "exec (cycle_lines ROT_1024 PERM_1024 [0, 1, 2, 3, 4, 5, 6, 7] 1 [a0, a1, a2, a3, a4, a5, a6, a7, a8, a9, a10, a11, a12, a13, a14, a15])
     [v0, v1, v2, v3, v4, v5, v6, v7, v8, v9, v10, v11, v12, v13, v14, v15] =
   tf_round ROT_1024 PERM_1024 (4 * 1 + 3) (tf_round ROT_1024 PERM_1024 (4 * 1 + 2)
     (tf_round ROT_1024 PERM_1024 (4 * 1 + 1) (tf_round ROT_1024 PERM_1024 (4 * 1 + 0)
       (add_words [v0, v1, v2, v3, v4, v5, v6, v7, v8, v9, v10, v11, v12, v13, v14, v15]
          [a0, a1, a2, a3, a4, a5, a6, a7, a8, a9, a10, a11, a12, a13, a14, a15]))))"
  apply (simp add: cycle_lines_def round_lines_def round5_lines_def ROT_1024_def PERM_1024_def
      permute_def Let_def)
  apply (simp add: tf_round_def ROT_1024_def PERM_1024_def permute_def Mix_def Mix5_def Let_def
      ac_simps)
  done

lemma uncycle1024_1:
  "exec (uncycle_lines ROT_1024 PERM_1024 [7, 6, 5, 4, 3, 2, 1, 0] 1 [a0, a1, a2, a3, a4, a5, a6, a7, a8, a9, a10, a11, a12, a13, a14, a15])
     [v0, v1, v2, v3, v4, v5, v6, v7, v8, v9, v10, v11, v12, v13, v14, v15] =
   sub_words (tf_unround ROT_1024 IPERM_1024 (4 * 1 + 0) (tf_unround ROT_1024 IPERM_1024 (4 * 1 + 1)
     (tf_unround ROT_1024 IPERM_1024 (4 * 1 + 2) (tf_unround ROT_1024 IPERM_1024 (4 * 1 + 3)
       [v0, v1, v2, v3, v4, v5, v6, v7, v8, v9, v10, v11, v12, v13, v14, v15]))))
     [a0, a1, a2, a3, a4, a5, a6, a7, a8, a9, a10, a11, a12, a13, a14, a15]"
  apply (simp add: uncycle_lines_def unround_lines_def unround5_lines_def ROT_1024_def
      PERM_1024_def permute_def Let_def)
  apply (simp add: tf_unround_def ROT_1024_def IPERM_1024_def permute_def UnMix_def UnMix5_def
      Let_def ac_simps diff_diff_eq)
  done

lemma cycle1024:
  assumes "length v = 16" "length (sk s) = 16"
  shows "exec (cycle_lines ROT_1024 PERM_1024 [0, 1, 2, 3, 4, 5, 6, 7] s (sk s)) v = tf_cycle ROT_1024 PERM_1024 sk s v"
proof -
  obtain v0 v1 v2 v3 v4 v5 v6 v7 v8 v9 v10 v11 v12 v13 v14 v15
    where v: "v = [v0, v1, v2, v3, v4, v5, v6, v7, v8, v9, v10, v11, v12, v13, v14, v15]"
    using length16_explicit [OF assms(1)] by blast
  obtain a0 a1 a2 a3 a4 a5 a6 a7 a8 a9 a10 a11 a12 a13 a14 a15
    where a: "sk s = [a0, a1, a2, a3, a4, a5, a6, a7, a8, a9, a10, a11, a12, a13, a14, a15]"
    using length16_explicit [OF assms(2)] by blast
  have c: "cycle_lines ROT_1024 PERM_1024 [0, 1, 2, 3, 4, 5, 6, 7] s (sk s) = cycle_lines ROT_1024 PERM_1024 [0, 1, 2, 3, 4, 5, 6, 7] (s mod 2) (sk s)"
    by (simp add: cycle_lines_def)
  have "s mod 2 = 0 \<or> s mod 2 = 1" by arith
  then show ?thesis
  proof
    assume p: "s mod 2 = 0"
    show ?thesis
      by (subst c, subst tf_cycle_unfold, simp only: p v a cycle1024_0)
  next
    assume p: "s mod 2 = 1"
    show ?thesis
      by (subst c, subst tf_cycle_unfold, simp only: p v a cycle1024_1)
  qed
qed

lemma uncycle1024:
  assumes "length v = 16" "length (sk s) = 16"
  shows "exec (uncycle_lines ROT_1024 PERM_1024 [7, 6, 5, 4, 3, 2, 1, 0] s (sk s)) v = tf_uncycle ROT_1024 IPERM_1024 sk s v"
proof -
  obtain v0 v1 v2 v3 v4 v5 v6 v7 v8 v9 v10 v11 v12 v13 v14 v15
    where v: "v = [v0, v1, v2, v3, v4, v5, v6, v7, v8, v9, v10, v11, v12, v13, v14, v15]"
    using length16_explicit [OF assms(1)] by blast
  obtain a0 a1 a2 a3 a4 a5 a6 a7 a8 a9 a10 a11 a12 a13 a14 a15
    where a: "sk s = [a0, a1, a2, a3, a4, a5, a6, a7, a8, a9, a10, a11, a12, a13, a14, a15]"
    using length16_explicit [OF assms(2)] by blast
  have c: "uncycle_lines ROT_1024 PERM_1024 [7, 6, 5, 4, 3, 2, 1, 0] s (sk s) = uncycle_lines ROT_1024 PERM_1024 [7, 6, 5, 4, 3, 2, 1, 0] (s mod 2) (sk s)"
    by (simp add: uncycle_lines_def)
  have "s mod 2 = 0 \<or> s mod 2 = 1" by arith
  then show ?thesis
  proof
    assume p: "s mod 2 = 0"
    show ?thesis
      by (subst c, subst tf_uncycle_unfold, simp only: p v a uncycle1024_0)
  next
    assume p: "s mod 2 = 1"
    show ?thesis
      by (subst c, subst tf_uncycle_unfold, simp only: p v a uncycle1024_1)
  qed
qed

lemma length_PERM_1024 [simp]: "length PERM_1024 = 16" "length IPERM_1024 = 16"
  by (simp_all add: PERM_1024_def IPERM_1024_def)

lemma sub_lines1024:
  assumes "length v = 16" "length a = 16"
  shows "exec (sub_lines a) v = sub_words v a"
proof -
  obtain v0 v1 v2 v3 v4 v5 v6 v7 v8 v9 v10 v11 v12 v13 v14 v15
    where v: "v = [v0, v1, v2, v3, v4, v5, v6, v7, v8, v9, v10, v11, v12, v13, v14, v15]"
    using length16_explicit [OF assms(1)] by blast
  obtain a0 a1 a2 a3 a4 a5 a6 a7 a8 a9 a10 a11 a12 a13 a14 a15
    where a: "a = [a0, a1, a2, a3, a4, a5, a6, a7, a8, a9, a10, a11, a12, a13, a14, a15]"
    using length16_explicit [OF assms(2)] by blast
  show ?thesis
    by (simp add: v a sub_lines_def Sub_def upt_rec [of _ "numeral _"] upt_rec [of _ "Suc _"])
qed

lemma cycles1024_exec:
  assumes "length v = 16" "\<And>s. length (sk s) = 16"
  shows "exec (concat (map (\<lambda>s. cycle_lines ROT_1024 PERM_1024 [0, 1, 2, 3, 4, 5, 6, 7] s (sk s)) ss)) v
         = foldl (\<lambda>v s. tf_cycle ROT_1024 PERM_1024 sk s v) v ss"
proof -
  have "foldl (\<lambda>b s. exec (cycle_lines ROT_1024 PERM_1024 [0, 1, 2, 3, 4, 5, 6, 7] s (sk s)) b) v ss
        = foldl (\<lambda>v s. tf_cycle ROT_1024 PERM_1024 sk s v) v ss
      \<and> length (foldl (\<lambda>v s. tf_cycle ROT_1024 PERM_1024 sk s v) v ss) = 16"
  proof (rule foldl_cong_inv [where P = "\<lambda>b. length b = 16"])
    show "length v = 16" by fact
    show "exec (cycle_lines ROT_1024 PERM_1024 [0, 1, 2, 3, 4, 5, 6, 7] s (sk s)) b
          = tf_cycle ROT_1024 PERM_1024 sk s b" if "length b = 16" for b s
      by (rule cycle1024) (simp_all add: that assms(2))
    show "length (tf_cycle ROT_1024 PERM_1024 sk s b) = 16" for b s
      by simp
  qed
  then show ?thesis
    by (simp only: exec_concat_map)
qed

lemma encrypt1024_exec:
  assumes "length v = 16"
  shows "exec (encrypt1024_rounds (ek ! 0) (ek ! 1) (ek ! 2) (ek ! 3) (ek ! 4) (ek ! 5) (ek ! 6) (ek ! 7) (ek ! 8) (ek ! 9) (ek ! 10) (ek ! 11) (ek ! 12) (ek ! 13) (ek ! 14) (ek ! 15) (ek ! 16) (et ! 0) (et ! 1) (et ! 2)) v
         = foldl (\<lambda>v s. tf_cycle ROT_1024 PERM_1024 (subkey 16 ek et) s v) v [0..<20]"
  unfolding encrypt1024_rounds_eq
  by (rule cycles1024_exec [where sk = "subkey 16 ek et"]) (simp_all add: assms)

lemma decrypt1024_exec:
  assumes "length v = 16"
  shows "exec (decrypt1024_rounds (ek ! 0) (ek ! 1) (ek ! 2) (ek ! 3) (ek ! 4) (ek ! 5) (ek ! 6) (ek ! 7) (ek ! 8) (ek ! 9) (ek ! 10) (ek ! 11) (ek ! 12) (ek ! 13) (ek ! 14) (ek ! 15) (ek ! 16) (et ! 0) (et ! 1) (et ! 2)) v
         = tf_decrypt 80 ROT_1024 IPERM_1024 (subkey 16 ek et) v"
proof -
  let ?w = "sub_words v (subkey 16 ek et 20)"
  have "foldl (\<lambda>b s. exec (uncycle_lines ROT_1024 PERM_1024 [7, 6, 5, 4, 3, 2, 1, 0] s (subkey 16 ek et s)) b) ?w (rev [0..<20])
        = foldl (\<lambda>v s. tf_uncycle ROT_1024 IPERM_1024 (subkey 16 ek et) s v) ?w (rev [0..<20])
      \<and> length (foldl (\<lambda>v s. tf_uncycle ROT_1024 IPERM_1024 (subkey 16 ek et) s v) ?w (rev [0..<20])) = 16"
  proof (rule foldl_cong_inv [where P = "\<lambda>b. length b = 16"])
    show "length ?w = 16" by (simp add: assms)
    show "exec (uncycle_lines ROT_1024 PERM_1024 [7, 6, 5, 4, 3, 2, 1, 0] s (subkey 16 ek et s)) b
          = tf_uncycle ROT_1024 IPERM_1024 (subkey 16 ek et) s b" if "length b = 16" for b s
      by (rule uncycle1024 [where sk = "subkey 16 ek et"]) (simp_all add: that)
    show "length (tf_uncycle ROT_1024 IPERM_1024 (subkey 16 ek et) s b) = 16" for b s
      by simp
  qed
  moreover have "80 div 4 = (20::nat)" by simp
  ultimately show ?thesis
    by (simp only: decrypt1024_rounds_eq exec_append exec_concat_map tf_decrypt_def
        sub_lines1024 [OF assms length_subkey])
qed

lemma encrypt1024_output:
  assumes "length x = 16" "length output = 16"
  shows "output[0 := x ! 0 + expanedKey tf ! 3, 1 := x ! 1 + expanedKey tf ! 4,
          2 := x ! 2 + expanedKey tf ! 5, 3 := x ! 3 + expanedKey tf ! 6,
          4 := x ! 4 + expanedKey tf ! 7, 5 := x ! 5 + expanedKey tf ! 8,
          6 := x ! 6 + expanedKey tf ! 9, 7 := x ! 7 + expanedKey tf ! 10,
          8 := x ! 8 + expanedKey tf ! 11, 9 := x ! 9 + expanedKey tf ! 12,
          10 := x ! 10 + expanedKey tf ! 13, 11 := x ! 11 + expanedKey tf ! 14,
          12 := x ! 12 + expanedKey tf ! 15,
          13 := x ! 13 + expanedKey tf ! 16 + expanedTweak tf ! 2,
          14 := x ! 14 + expanedKey tf ! 0 + expanedTweak tf ! 0,
          15 := x ! 15 + expanedKey tf ! 1 + 20]
         = add_words x (subkey 16 (expanedKey tf) (expanedTweak tf) 20)"
proof -
  obtain x0 x1 x2 x3 x4 x5 x6 x7 x8 x9 x10 x11 x12 x13 x14 x15
    where x: "x = [x0, x1, x2, x3, x4, x5, x6, x7, x8, x9, x10, x11, x12, x13, x14, x15]"
    using length16_explicit [OF assms(1)] by blast
  obtain y0 y1 y2 y3 y4 y5 y6 y7 y8 y9 y10 y11 y12 y13 y14 y15
    where y: "output = [y0, y1, y2, y3, y4, y5, y6, y7, y8, y9, y10, y11, y12, y13, y14, y15]"
    using length16_explicit [OF assms(2)] by blast
  show ?thesis
    by (simp add: x y subkey_def tweak_injection_def upt_rec [of _ "numeral _"]
        upt_rec [of _ "Suc _"] numeral_2_eq_2 [symmetric] ac_simps)
qed

lemma decrypt1024_output:
  assumes "length x = 16" "length output = 16"
  shows "output[15 := x ! 15, 14 := x ! 14, 13 := x ! 13, 12 := x ! 12, 11 := x ! 11, 10 := x ! 10,
          9 := x ! 9, 8 := x ! 8, 7 := x ! 7, 6 := x ! 6, 5 := x ! 5, 4 := x ! 4, 3 := x ! 3,
          2 := x ! 2, 1 := x ! 1, 0 := x ! 0] = x"
proof -
  obtain x0 x1 x2 x3 x4 x5 x6 x7 x8 x9 x10 x11 x12 x13 x14 x15
    where x: "x = [x0, x1, x2, x3, x4, x5, x6, x7, x8, x9, x10, x11, x12, x13, x14, x15]"
    using length16_explicit [OF assms(1)] by blast
  obtain y0 y1 y2 y3 y4 y5 y6 y7 y8 y9 y10 y11 y12 y13 y14 y15
    where y: "output = [y0, y1, y2, y3, y4, y5, y6, y7, y8, y9, y10, y11, y12, y13, y14, y15]"
    using length16_explicit [OF assms(2)] by blast
  show ?thesis
    by (simp add: x y)
qed

lemma input1024:
  "length input = 16 \<Longrightarrow> [input ! 0, input ! 1, input ! 2, input ! 3, input ! 4, input ! 5, input ! 6, input ! 7, input ! 8, input ! 9, input ! 10, input ! 11, input ! 12, input ! 13, input ! 14, input ! 15] = input"
  by (auto dest!: length16_explicit)

lemma encrypt1024_refines:
  assumes "length input = 16" "length output = 16"
  shows "encrypt1024 tf input output
         = Inr (tf_encrypt 80 ROT_1024 PERM_1024 (subkey 16 (expanedKey tf) (expanedTweak tf)) input)"
proof -
  let ?sk = "subkey 16 (expanedKey tf) (expanedTweak tf)"
  let ?x = "foldl (\<lambda>v s. tf_cycle ROT_1024 PERM_1024 ?sk s v) input [0..<20]"
  have x: "length ?x = 16"
    using length_foldl_tf_cycle [of input PERM_1024] assms(1) by simp
  have r: "80 div 4 = (20::nat)" by simp
  show ?thesis
    unfolding encrypt1024_def Let_def input1024 [OF assms(1)] encrypt1024_exec [OF assms(1)]
      tf_encrypt_def r
    using assms by (simp only: encrypt1024_output [OF x assms(2)]) simp
qed

lemma decrypt1024_refines:
  assumes "length input = 16" "length output = 16"
  shows "decrypt1024 tf input output
         = Inr (tf_decrypt 80 ROT_1024 IPERM_1024 (subkey 16 (expanedKey tf) (expanedTweak tf)) input)"
proof -
  let ?sk = "subkey 16 (expanedKey tf) (expanedTweak tf)"
  have x: "length (tf_decrypt 80 ROT_1024 IPERM_1024 ?sk input) = 16"
    using length_tf_decrypt [of input IPERM_1024 ?sk] assms(1) by simp
  show ?thesis
    unfolding decrypt1024_def Let_def input1024 [OF assms(1)] decrypt1024_exec [OF assms(1)]
    using assms by (simp only: decrypt1024_output [OF x assms(2)]) simp
qed

section \<open>The claims\<close>

subsection \<open>C1: decryption inverts encryption\<close>

lemma and_then_Inr [simp]: "and_then (Inr x) f = f x"
  by (simp add: and_then_def)

lemma length_tf_encrypt_256 [simp]:
  "length v = 4 \<Longrightarrow> length (tf_encrypt 72 ROT_256 PERM_256 (subkey 4 ek et) v) = 4"
  using length_tf_encrypt [of v PERM_256 "subkey 4 ek et" 72 ROT_256] by simp

lemma length_tf_decrypt_256 [simp]:
  "length v = 4 \<Longrightarrow> length (tf_decrypt 72 ROT_256 IPERM_256 (subkey 4 ek et) v) = 4"
  using length_tf_decrypt [of v IPERM_256 "subkey 4 ek et" 72 ROT_256] by simp

lemma length_tf_encrypt_512 [simp]:
  "length v = 8 \<Longrightarrow> length (tf_encrypt 72 ROT_512 PERM_512 (subkey 8 ek et) v) = 8"
  using length_tf_encrypt [of v PERM_512 "subkey 8 ek et" 72 ROT_512] by simp

lemma length_tf_decrypt_512 [simp]:
  "length v = 8 \<Longrightarrow> length (tf_decrypt 72 ROT_512 IPERM_512 (subkey 8 ek et) v) = 8"
  using length_tf_decrypt [of v IPERM_512 "subkey 8 ek et" 72 ROT_512] by simp

lemma length_tf_encrypt_1024 [simp]:
  "length v = 16 \<Longrightarrow> length (tf_encrypt 80 ROT_1024 PERM_1024 (subkey 16 ek et) v) = 16"
  using length_tf_encrypt [of v PERM_1024 "subkey 16 ek et" 80 ROT_1024] by simp

lemma length_tf_decrypt_1024 [simp]:
  "length v = 16 \<Longrightarrow> length (tf_decrypt 80 ROT_1024 IPERM_1024 (subkey 16 ek et) v) = 16"
  using length_tf_decrypt [of v IPERM_1024 "subkey 16 ek et" 80 ROT_1024] by simp

lemma roundtrip256:
  assumes "length b = 4" "length out1 = 4" "length out2 = 4"
  shows "and_then (encrypt256 tf b out1) (\<lambda>c. decrypt256 tf c out2) = Inr b"
    and "and_then (decrypt256 tf b out1) (\<lambda>p. encrypt256 tf p out2) = Inr b"
  using assms
  by (simp_all add: encrypt256_refines decrypt256_refines
      tf_decrypt_encrypt [where N = 4] tf_encrypt_decrypt [where N = 4] permute_256)

lemma roundtrip512:
  assumes "length b = 8" "length out1 = 8" "length out2 = 8"
  shows "and_then (encrypt512 tf b out1) (\<lambda>c. decrypt512 tf c out2) = Inr b"
    and "and_then (decrypt512 tf b out1) (\<lambda>p. encrypt512 tf p out2) = Inr b"
  using assms
  by (simp_all add: encrypt512_refines decrypt512_refines
      tf_decrypt_encrypt [where N = 8] tf_encrypt_decrypt [where N = 8] permute_512)

lemma roundtrip1024:
  assumes "length b = 16" "length out1 = 16" "length out2 = 16"
  shows "and_then (encrypt1024 tf b out1) (\<lambda>c. decrypt1024 tf c out2) = Inr b"
    and "and_then (decrypt1024 tf b out1) (\<lambda>p. encrypt1024 tf p out2) = Inr b"
  using assms
  by (simp_all add: encrypt1024_refines decrypt1024_refines
      tf_decrypt_encrypt [where N = 16] tf_encrypt_decrypt [where N = 16] permute_1024)

text \<open>
  C1. For each of Threefish-256, Threefish-512 and Threefish-1024, for every key and tweak
  held by the struct and every block \<open>b\<close> of \<open>N\<close> words, decrypting the encryption of
  \<open>b\<close> gives \<open>b\<close> back, and encrypting the decryption of \<open>b\<close> gives \<open>b\<close> back; neither
  call fails. The functions are the word-oriented \<open>encrypt\<close> and \<open>decrypt\<close> of the structs,
  called with output slices of one block.
\<close>

theorem inverse_law:
  assumes "length b4 = 4" "length o4 = 4" "length p4 = 4"
    and "length b8 = 8" "length o8 = 8" "length p8 = 8"
    and "length b16 = 16" "length o16 = 16" "length p16 = 16"
  shows "and_then (encrypt256 tf4 b4 o4) (\<lambda>c. decrypt256 tf4 c p4) = Inr b4
       \<and> and_then (decrypt256 tf4 b4 o4) (\<lambda>c. encrypt256 tf4 c p4) = Inr b4
       \<and> and_then (encrypt512 tf8 b8 o8) (\<lambda>c. decrypt512 tf8 c p8) = Inr b8
       \<and> and_then (decrypt512 tf8 b8 o8) (\<lambda>c. encrypt512 tf8 c p8) = Inr b8
       \<and> and_then (encrypt1024 tf16 b16 o16) (\<lambda>c. decrypt1024 tf16 c p16) = Inr b16
       \<and> and_then (decrypt1024 tf16 b16 o16) (\<lambda>c. encrypt1024 tf16 c p16) = Inr b16"
  using roundtrip256 [OF assms(1-3)] roundtrip512 [OF assms(4-6)] roundtrip1024 [OF assms(7-9)]
  by simp

theorem inverse_law_witness:
  "length (replicate 4 (0::uint64)) = 4 \<and> length (replicate 8 (0::uint64)) = 8
   \<and> length (replicate 16 (0::uint64)) = 16
   \<and> and_then (encrypt256 (new_threefish 4) (replicate 4 0) (replicate 4 0))
         (\<lambda>c. decrypt256 (new_threefish 4) c (replicate 4 0)) = Inr (replicate 4 0)
   \<and> and_then (decrypt256 (new_threefish 4) (replicate 4 0) (replicate 4 0))
         (\<lambda>c. encrypt256 (new_threefish 4) c (replicate 4 0)) = Inr (replicate 4 0)
   \<and> and_then (encrypt512 (new_threefish 8) (replicate 8 0) (replicate 8 0))
         (\<lambda>c. decrypt512 (new_threefish 8) c (replicate 8 0)) = Inr (replicate 8 0)
   \<and> and_then (decrypt512 (new_threefish 8) (replicate 8 0) (replicate 8 0))
         (\<lambda>c. encrypt512 (new_threefish 8) c (replicate 8 0)) = Inr (replicate 8 0)
   \<and> and_then (encrypt1024 (new_threefish 16) (replicate 16 0) (replicate 16 0))
         (\<lambda>c. decrypt1024 (new_threefish 16) c (replicate 16 0)) = Inr (replicate 16 0)
   \<and> and_then (decrypt1024 (new_threefish 16) (replicate 16 0) (replicate 16 0))
         (\<lambda>c. encrypt1024 (new_threefish 16) c (replicate 16 0)) = Inr (replicate 16 0)"
  using inverse_law [of "replicate 4 0" "replicate 4 0" "replicate 4 0"
      "replicate 8 0" "replicate 8 0" "replicate 8 0"
      "replicate 16 0" "replicate 16 0" "replicate 16 0"
      "new_threefish 4" "new_threefish 8" "new_threefish 16"]
  by simp

subsection \<open>C2: the subkey injection\<close>

lemma map_norm64: "map norm64 xs = xs"
  by (induction xs) (simp_all add: norm64_def)

lemma exec_Cons_norm: "exec (l # ls) b = exec ls (map norm64 (l b))"
  by (simp add: map_norm64)

lemma exec_tweaked:
  "exec (encrypt256_rounds 0 0 0 0 0x1BD11BDAA9FC1A22 0 1 1) [0, 0, 0, 0]
   = [1778615697768458427, 4298703321007757790, 7010347719543635521, 9767748723694745917]"
  by (simp add: encrypt256_rounds_def exec_Cons_norm norm64_def
      Mix_def Mix5_def Let_def rotl64_def del: exec_Cons)

lemma encrypt256_tweaked:
  "encrypt256 tweaked_tf256 [0, 0, 0, 0] [0, 0, 0, 0]
   = Inr [1778615697768458427, 6303117256133030912, 7010347719543635522, 9767748723694745935]"
  apply (simp only: encrypt256_def Let_def)
  apply (simp add: tweaked_tf256_def exec_tweaked del: exec_Cons)
  done

lemma spec_exec_tweaked:
  "exec (concat (map (\<lambda>s. cycle_lines ROT_256 PERM_256 [0, 1] s
       (subkey_spec 4 [0, 0, 0, 0, 0x1BD11BDAA9FC1A22] [0, 1, 1] s)) [0..<18])) [0, 0, 0, 0]
   = [10816077508199138144, 9636901109766196221, 17526063857031124486, 14112528650325415442]"
  by (simp add: cycle_lines_def round_lines_def round5_lines_def ROT_256_def PERM_256_def
      permute_def Let_def subkey_spec_def tweak_injection_spec_def
      upt_rec [of _ "numeral _"] upt_rec [of _ "Suc _"]
      exec_Cons_norm norm64_def Mix_def Mix5_def rotl64_def del: exec_Cons)

lemma tf_encrypt_spec_tweaked:
  "tf_encrypt 72 ROT_256 PERM_256
     (subkey_spec 4 (expanedKey tweaked_tf256) (expanedTweak tweaked_tf256)) [0, 0, 0, 0]
   = [10816077508199138144, 11641315044891469343, 17526063857031124486, 14112528650325415461]"
proof -
  let ?sk = "subkey_spec 4 [0, 0, 0, 0, 0x1BD11BDAA9FC1A22] [0, 1, 1]"
  have r: "72 div 4 = (18::nat)" by simp
  have "foldl (\<lambda>v s. tf_cycle ROT_256 PERM_256 ?sk s v) [0, 0, 0, 0] [0..<18]
        = [10816077508199138144, 9636901109766196221, 17526063857031124486, 14112528650325415442]"
    using cycles256_exec [of "[0, 0, 0, 0]" ?sk "[0..<18]"] spec_exec_tweaked by simp
  moreover have "?sk 18 = [0, 0x1BD11BDAA9FC1A22, 0, 19]"
    by (simp add: subkey_spec_def tweak_injection_spec_def upt_rec [of _ "numeral _"]
        upt_rec [of _ "Suc _"])
  ultimately show ?thesis
    by (simp add: tf_encrypt_def r tweaked_tf256_def)
qed

text \<open>
  C2, as amended. In \<open>encrypt\<close> of each variant (\<open>N\<close> = 4, 8, 16 words, \<open>R\<close> = 72, 72, 80
  rounds) the unrolled code computes the round engine \<open>tf_encrypt\<close>: before the rounds
  \<open>4s\<close>, \<dots>, \<open>4s + 3\<close> of every cycle \<open>s < R div 4\<close>, and once more with \<open>s = R div 4\<close> after
  the last round, it adds the subkey \<open>subkey N expanedKey expanedTweak s\<close> to the block. In
  this subkey word \<open>i\<close> receives \<open>expanedKey[(s + i) mod (N + 1)]\<close>; in addition word
  \<open>N - 3\<close> (the odd word of the second-to-last pair) receives \<open>expanedTweak[s mod 3]\<close>, word
  \<open>N - 2\<close> (the even word of the last pair) receives \<open>expanedTweak[(s + 1) mod 3]\<close>, and
  word \<open>N - 1\<close> (the odd word of the last pair) receives the cycle index \<open>s\<close>.
\<close>

theorem subkey_injection:
  assumes "length in4 = 4" "length out4 = 4" "length in8 = 8" "length out8 = 8"
    and "length in16 = 16" "length out16 = 16"
  shows "encrypt256 tf4 in4 out4
           = Inr (tf_encrypt 72 ROT_256 PERM_256 (subkey 4 (expanedKey tf4) (expanedTweak tf4)) in4)
       \<and> encrypt512 tf8 in8 out8
           = Inr (tf_encrypt 72 ROT_512 PERM_512 (subkey 8 (expanedKey tf8) (expanedTweak tf8)) in8)
       \<and> encrypt1024 tf16 in16 out16
           = Inr (tf_encrypt 80 ROT_1024 PERM_1024
               (subkey 16 (expanedKey tf16) (expanedTweak tf16)) in16)"
  using encrypt256_refines [OF assms(1,2)] encrypt512_refines [OF assms(3,4)]
    encrypt1024_refines [OF assms(5,6)]
  by simp

theorem subkey_injection_witness:
  "length (replicate 4 (0::uint64)) = 4 \<and> length (replicate 8 (0::uint64)) = 8
   \<and> length (replicate 16 (0::uint64)) = 16
   \<and> encrypt256 tweaked_tf256 (replicate 4 0) (replicate 4 0)
       = Inr (tf_encrypt 72 ROT_256 PERM_256
           (subkey 4 (expanedKey tweaked_tf256) (expanedTweak tweaked_tf256)) (replicate 4 0))
   \<and> encrypt512 (new_threefish 8) (replicate 8 0) (replicate 8 0)
       = Inr (tf_encrypt 72 ROT_512 PERM_512
           (subkey 8 (expanedKey (new_threefish 8)) (expanedTweak (new_threefish 8))) (replicate 8 0))
   \<and> encrypt1024 (new_threefish 16) (replicate 16 0) (replicate 16 0)
       = Inr (tf_encrypt 80 ROT_1024 PERM_1024
           (subkey 16 (expanedKey (new_threefish 16)) (expanedTweak (new_threefish 16)))
           (replicate 16 0))"
  using subkey_injection [of "replicate 4 0" "replicate 4 0" "replicate 8 0" "replicate 8 0"
      "replicate 16 0" "replicate 16 0" tweaked_tf256 "new_threefish 8" "new_threefish 16"]
  by simp

text \<open>
  C2 as the specification words it puts \<open>expandedTweak[(s + 1) mod 3]\<close> on the odd word of the
  last pair, together with \<open>s\<close>. With the all-zero key, the tweak \<open>[0, 1]\<close> and the all-zero
  block, the code returns another ciphertext than the round engine with that subkey.
\<close>

theorem subkey_injection_spec_counterexample:
  "encrypt256 tweaked_tf256 [0, 0, 0, 0] [0, 0, 0, 0]
   \<noteq> Inr (tf_encrypt 72 ROT_256 PERM_256
         (subkey_spec 4 (expanedKey tweaked_tf256) (expanedTweak tweaked_tf256)) [0, 0, 0, 0])"
  by (simp add: encrypt256_tweaked tf_encrypt_spec_tweaked)

end
